theory Spec2Isabelle
  imports Main "HOL-Library.Word"
begin

unbundle bit_operations_syntax

section \<open>Bytes, words and the host's byte order\<close>

text \<open>
  The utility (\<^verbatim>\<open>stlinkv2-util.c\<close>) talks to an STLink probe over USB bulk endpoints.
  Its integers are \<^verbatim>\<open>uint8_t\<close>, \<^verbatim>\<open>uint16_t\<close> and \<^verbatim>\<open>uint32_t\<close>; an \<^verbatim>\<open>unsigned char\<close>
  array is modelled by its index function. Indices at or beyond the declared size of an
  array are outside the C object; the functions below say where the source can reach them.
\<close>

type_synonym u8 = "8 word"
type_synonym u16 = "16 word"
type_synonym u32 = "32 word"
type_synonym buffer = "nat \<Rightarrow> u8"

definition byte_of :: "u32 \<Rightarrow> nat \<Rightarrow> u8" where
  \<comment> \<open>the \<open>k\<close>-th least significant byte of a 32-bit value\<close>
  "byte_of ui k = ucast (drop_bit (8 * k) ui)"

definition byte_of16 :: "u16 \<Rightarrow> nat \<Rightarrow> u8" where
  "byte_of16 ui k = ucast (drop_bit (8 * k) ui)"

definition le_value32 :: "u8 \<Rightarrow> u8 \<Rightarrow> u8 \<Rightarrow> u8 \<Rightarrow> u32" where
  \<comment> \<open>the little-endian reading of four bytes, least significant first\<close>
  "le_value32 b0 b1 b2 b3 =
     ucast b0 OR push_bit 8 (ucast b1) OR push_bit 16 (ucast b2) OR push_bit 24 (ucast b3)"

definition le_value16 :: "u8 \<Rightarrow> u8 \<Rightarrow> u16" where
  "le_value16 b0 b1 = ucast b0 OR push_bit 8 (ucast b1)"

text \<open>
  The source reads and writes scalars through casts (\<^verbatim>\<open>((unsigned char*) &ui)[i]\<close>,
  \<^verbatim>\<open>*(uint16_t *)sl->data_buf\<close>, \<^verbatim>\<open>params[-4] = ...\<close>), so their bytes lie in host order.
  The flag \<open>be\<close> is what \<^verbatim>\<open>is_bigendian()\<close> returns on the host.
\<close>

definition obj_byte32 :: "bool \<Rightarrow> u32 \<Rightarrow> nat \<Rightarrow> u8" where
  \<comment> \<open>\<^verbatim>\<open>((unsigned char*) &ui)[i]\<close> for a \<^verbatim>\<open>uint32_t ui\<close>\<close>
  "obj_byte32 be ui i = (if be then byte_of ui (3 - i) else byte_of ui i)"

definition obj_byte16 :: "bool \<Rightarrow> u16 \<Rightarrow> nat \<Rightarrow> u8" where
  \<comment> \<open>\<^verbatim>\<open>((unsigned char*) &ui)[i]\<close> for a \<^verbatim>\<open>uint16_t ui\<close>\<close>
  "obj_byte16 be ui i = (if be then byte_of16 ui (1 - i) else byte_of16 ui i)"

definition obj_load32 :: "bool \<Rightarrow> buffer \<Rightarrow> nat \<Rightarrow> u32" where
  \<comment> \<open>\<^verbatim>\<open>*(uint32_t *)(p + off)\<close>\<close>
  "obj_load32 be p off =
     (if be then le_value32 (p (off + 3)) (p (off + 2)) (p (off + 1)) (p off)
      else le_value32 (p off) (p (off + 1)) (p (off + 2)) (p (off + 3)))"

definition obj_load16 :: "bool \<Rightarrow> buffer \<Rightarrow> nat \<Rightarrow> u16" where
  \<comment> \<open>\<^verbatim>\<open>*(uint16_t *)(p + off)\<close>\<close>
  "obj_load16 be p off =
     (if be then le_value16 (p (off + 1)) (p off) else le_value16 (p off) (p (off + 1)))"

definition obj_store32 :: "bool \<Rightarrow> buffer \<Rightarrow> nat \<Rightarrow> u32 \<Rightarrow> buffer" where
  \<comment> \<open>\<^verbatim>\<open>*(uint32_t *)(p + off) = ui\<close>\<close>
  "obj_store32 be p off ui =
     p(off := obj_byte32 be ui 0, off + 1 := obj_byte32 be ui 1,
       off + 2 := obj_byte32 be ui 2, off + 3 := obj_byte32 be ui 3)"

definition write_uint32 :: "bool \<Rightarrow> buffer \<Rightarrow> nat \<Rightarrow> u32 \<Rightarrow> buffer" where
  "write_uint32 be buf off ui =
     (if \<not> be then
        buf(off := obj_byte32 be ui 0, off + 1 := obj_byte32 be ui 1,
            off + 2 := obj_byte32 be ui 2, off + 3 := obj_byte32 be ui 3)
      else
        buf(off := obj_byte32 be ui 3, off + 1 := obj_byte32 be ui 2,
            off + 2 := obj_byte32 be ui 1, off + 3 := obj_byte32 be ui 0))"

definition write_uint16 :: "bool \<Rightarrow> buffer \<Rightarrow> nat \<Rightarrow> u16 \<Rightarrow> buffer" where
  "write_uint16 be buf off ui =
     (if \<not> be then buf(off := obj_byte16 be ui 0, off + 1 := obj_byte16 be ui 1)
      else buf(off := obj_byte16 be ui 1, off + 1 := obj_byte16 be ui 0))"

definition read_uint32 :: "bool \<Rightarrow> buffer \<Rightarrow> nat \<Rightarrow> u32" where
  \<comment> \<open>the four bytes \<open>p[0..3]\<close> of the local \<^verbatim>\<open>ui\<close> are assigned, then \<^verbatim>\<open>ui\<close> is returned\<close>
  "read_uint32 be c pt =
     (let p = (if \<not> be then
                 (\<lambda>_. 0)(0 := c pt, 1 := c (pt + 1), 2 := c (pt + 2), 3 := c (pt + 3))
               else
                 (\<lambda>_. 0)(0 := c (pt + 3), 1 := c (pt + 2), 2 := c (pt + 1), 3 := c pt))
      in obj_load32 be p 0)"

subsection \<open>Block operations on byte arrays\<close>

definition memcpy :: "buffer \<Rightarrow> nat \<Rightarrow> buffer \<Rightarrow> nat \<Rightarrow> nat \<Rightarrow> buffer" where
  \<comment> \<open>\<^verbatim>\<open>memcpy(dst + d, src + s, n)\<close>\<close>
  "memcpy dst d src s n = (\<lambda>i. if d \<le> i \<and> i < d + n then src (s + (i - d)) else dst i)"

definition memset :: "buffer \<Rightarrow> nat \<Rightarrow> u8 \<Rightarrow> nat \<Rightarrow> buffer" where
  \<comment> \<open>\<^verbatim>\<open>memset(buf + off, c, n)\<close>\<close>
  "memset buf off c n = (\<lambda>i. if off \<le> i \<and> i < off + n then c else buf i)"

definition store_bytes :: "buffer \<Rightarrow> nat \<Rightarrow> u8 list \<Rightarrow> buffer" where
  \<comment> \<open>bytes received from the device land at the start of the buffer\<close>
  "store_bytes buf off bs =
     (\<lambda>i. if off \<le> i \<and> i < off + length bs then bs ! (i - off) else buf i)"

definition bytes_at :: "buffer \<Rightarrow> nat \<Rightarrow> nat \<Rightarrow> u8 list" where
  "bytes_at buf off n = map (\<lambda>k. buf (off + k)) [0..<n]"

section \<open>The session and the bulk transport\<close>

datatype STLinkParamDirection = STLinkParamToDev | STLinkParamFromDev

text \<open>
  One entry of the wire log is one call of \<^verbatim>\<open>stl_do_cmd\<close>: the command phase on the OUT
  endpoint and the data phase that follows it (sent bytes when the direction is to the
  device, received bytes otherwise).
\<close>

record xfer =
  x_cmd :: "u8 list"
  x_dir :: STLinkParamDirection
  x_len :: nat
  x_data :: "u8 list"

text \<open>
  The world outside the program: the host's byte order, and the probe with the target
  behind it. The probe answers an IN transfer from everything sent so far, the current
  command bytes and the number of bytes the host asks for.
\<close>

record env =
  is_bigendian :: bool
  probe :: "xfer list \<Rightarrow> u8 list \<Rightarrow> nat \<Rightarrow> u8 list"

text \<open>
  \<^verbatim>\<open>struct stlink\<close>, with the fields the modelled operations use. \<open>wire\<close> stands for
  the device behind \<^verbatim>\<open>usb_hand\<close>: the log of the transfers made so far.
  \<^verbatim>\<open>cmd_buf\<close> has \<^verbatim>\<open>CDB_SIZE = 10\<close> bytes and \<^verbatim>\<open>data_buf\<close> has \<^verbatim>\<open>Q_BUF_LEN\<close> bytes.
\<close>

record stlink =
  verbose :: int
  chip_index :: nat
  cpu_idcode :: u32
  xfer_dir :: STLinkParamDirection
  cmd_len :: nat
  cmd_buf :: buffer
  data_len :: nat
  data_buf :: buffer
  wire :: "xfer list"

abbreviation (input) CDB_SIZE :: nat where "CDB_SIZE \<equiv> 10"
abbreviation (input) Q_BUF_LEN :: nat where "Q_BUF_LEN \<equiv> 6 * 1024 + 4"

abbreviation (input) STLINK_CORE_RUNNING :: u32 where "STLINK_CORE_RUNNING \<equiv> 0x80"
abbreviation (input) STLINK_CORE_HALTED :: u32 where "STLINK_CORE_HALTED \<equiv> 0x81"

abbreviation (input) STLinkDebugCommand :: u8 where "STLinkDebugCommand \<equiv> 0xF2"
abbreviation (input) STLinkDebugReadCoreID :: u8 where "STLinkDebugReadCoreID \<equiv> 0x22"
abbreviation (input) STLinkDebugGetStatus :: u8 where "STLinkDebugGetStatus \<equiv> 0x01"
abbreviation (input) STLinkDebugWriteReg :: u8 where "STLinkDebugWriteReg \<equiv> 0x06"
abbreviation (input) STLinkDebugReadMem32bit :: u8 where "STLinkDebugReadMem32bit \<equiv> 0x07"
abbreviation (input) STLinkDebugWriteMem32bit :: u8 where "STLinkDebugWriteMem32bit \<equiv> 0x08"
abbreviation (input) STLinkDebugRunCore :: u8 where "STLinkDebugRunCore \<equiv> 0x09"
abbreviation (input) STLinkDebugWriteMem8bit :: u8 where "STLinkDebugWriteMem8bit \<equiv> 0x0D"

definition stl_init :: "int \<Rightarrow> stlink" where
  \<comment> \<open>\<^verbatim>\<open>memset(sl, 0, sizeof *sl)\<close>, then \<^verbatim>\<open>sl->verbose = verbose\<close>\<close>
  "stl_init v =
     \<lparr>verbose = v, chip_index = 0, cpu_idcode = 0, xfer_dir = STLinkParamToDev,
      cmd_len = 0, cmd_buf = (\<lambda>_. 0), data_len = 0, data_buf = (\<lambda>_. 0), wire = []\<rparr>"

text \<open>
  \<^verbatim>\<open>stl_do_cmd\<close> (the libusb variant, the one compiled): the command bytes go out, then
  \<^verbatim>\<open>data_len\<close> bytes of \<^verbatim>\<open>data_buf\<close> go out, or up to \<^verbatim>\<open>data_len\<close> bytes come in. The
  source passes \<^verbatim>\<open>cmd_len\<close> as the command length, which \<^verbatim>\<open>stlink_cmd\<close> sets to 16 although
  \<^verbatim>\<open>cmd_buf\<close> has 10 bytes ("bytes after the command are ignored"): the log keeps the
  bytes that lie in \<^verbatim>\<open>cmd_buf\<close>. A short reply leaves the rest of \<^verbatim>\<open>data_buf\<close> as it was.
  Every caller in the modelled code ignores the returned libusb status.
\<close>

definition stl_do_cmd :: "env \<Rightarrow> stlink \<Rightarrow> stlink" where
  "stl_do_cmd E stl =
     (let cmd = bytes_at (cmd_buf stl) 0 (min (cmd_len stl) CDB_SIZE) in
      if xfer_dir stl = STLinkParamToDev then
        stl\<lparr>wire := wire stl @
          [\<lparr>x_cmd = cmd, x_dir = STLinkParamToDev, x_len = data_len stl,
            x_data = bytes_at (data_buf stl) 0 (data_len stl)\<rparr>]\<rparr>
      else if data_len stl \<noteq> 0 then
        (let reply = take (data_len stl) (probe E (wire stl) cmd (data_len stl)) in
         stl\<lparr>data_buf := store_bytes (data_buf stl) 0 reply,
             wire := wire stl @
               [\<lparr>x_cmd = cmd, x_dir = STLinkParamFromDev, x_len = data_len stl,
                 x_data = reply\<rparr>]\<rparr>)
      else
        stl\<lparr>wire := wire stl @
          [\<lparr>x_cmd = cmd, x_dir = STLinkParamFromDev, x_len = 0, x_data = []\<rparr>]\<rparr>)"

section \<open>The probe protocol\<close>

text \<open>
  \<^verbatim>\<open>stlink_cmd\<close>: the regular debug command. The result is the C \<^verbatim>\<open>int\<close> as a 32-bit
  pattern: a 2-byte reply is read through \<^verbatim>\<open>*(uint16_t *)sl->data_buf\<close>, a 4-byte reply
  through \<^verbatim>\<open>read_uint32\<close>, anything else gives 0.
\<close>

definition stlink_cmd :: "env \<Rightarrow> stlink \<Rightarrow> u8 \<Rightarrow> u8 \<Rightarrow> nat \<Rightarrow> u32 \<times> stlink" where
  "stlink_cmd E sl st_cmd1 st_cmd2 resp_len =
     (let sl1 = sl\<lparr>cmd_buf := (cmd_buf sl)(0 := STLinkDebugCommand, 1 := st_cmd1, 2 := st_cmd2),
                   cmd_len := 16, data_len := resp_len, xfer_dir := STLinkParamFromDev,
                   data_buf := memset (data_buf sl) 0 0x55 (resp_len + 12)\<rparr>;
          sl2 = stl_do_cmd E sl1
      in if resp_len = 2 then (ucast (obj_load16 (is_bigendian E) (data_buf sl2) 0), sl2)
         else if resp_len = 4 then (read_uint32 (is_bigendian E) (data_buf sl2) 0, sl2)
         else (0, sl2))"

definition stl_get_core_id :: "env \<Rightarrow> stlink \<Rightarrow> u32 \<times> stlink" where
  "stl_get_core_id E sl = stlink_cmd E sl STLinkDebugReadCoreID 0 4"

definition stl_get_status :: "env \<Rightarrow> stlink \<Rightarrow> u32 \<times> stlink" where
  "stl_get_status E sl = stlink_cmd E sl STLinkDebugGetStatus 0 2"

definition stl_state_run :: "env \<Rightarrow> stlink \<Rightarrow> u32 \<times> stlink" where
  "stl_state_run E sl = stlink_cmd E sl STLinkDebugRunCore 0 2"

definition stl_write_reg :: "env \<Rightarrow> stlink \<Rightarrow> u32 \<Rightarrow> u8 \<Rightarrow> stlink" where
  "stl_write_reg E sl reg_val reg_idx =
     snd (stlink_cmd E (sl\<lparr>cmd_buf := write_uint32 (is_bigendian E) (cmd_buf sl) 3 reg_val\<rparr>)
            STLinkDebugWriteReg reg_idx 2)"

text \<open>
  \<^verbatim>\<open>stl_wr32_cmd\<close>: a 32-bit block write when the length is a multiple of 4, an 8-bit
  block write when it is below 64, and otherwise \<^verbatim>\<open>-1\<close> with nothing sent. The length
  parameter is a \<^verbatim>\<open>uint16_t\<close>.
\<close>

definition stl_wr32_cmd :: "env \<Rightarrow> stlink \<Rightarrow> u32 \<Rightarrow> u16 \<Rightarrow> int \<times> stlink" where
  "stl_wr32_cmd E sl addr len =
     (let sl0 = sl\<lparr>cmd_buf := (cmd_buf sl)(0 := STLinkDebugCommand)\<rparr> in
      if len AND 3 = 0 \<or> len < 64 then
        (let sl1 = sl0\<lparr>cmd_buf := (cmd_buf sl0)
                        (1 := (if len AND 3 = 0 then STLinkDebugWriteMem32bit
                               else STLinkDebugWriteMem8bit))\<rparr>;
             sl2 = sl1\<lparr>cmd_buf := write_uint32 (is_bigendian E) (cmd_buf sl1) 2 addr\<rparr>;
             sl3 = sl2\<lparr>cmd_buf := write_uint16 (is_bigendian E) (cmd_buf sl2) 6 len\<rparr>;
             sl4 = sl3\<lparr>cmd_len := 8, data_len := unat len, xfer_dir := STLinkParamToDev\<rparr>
         in (0, stl_do_cmd E sl4))
      else (-1, sl0))"

definition sl_wr32 :: "env \<Rightarrow> stlink \<Rightarrow> u32 \<Rightarrow> u32 \<Rightarrow> stlink" where
  "sl_wr32 E sl addr val =
     snd (stl_wr32_cmd E (sl\<lparr>data_buf := write_uint32 (is_bigendian E) (data_buf sl) 0 val\<rparr>)
            addr 4)"

text \<open>
  \<^verbatim>\<open>stl_rd32_cmd\<close> writes the aligned address and the rounded length into the command,
  then calls \<^verbatim>\<open>stlink_cmd\<close> with \<^verbatim>\<open>addr\<close> as its \<^verbatim>\<open>uint8_t\<close> sub-command argument (so
  byte 2 of the command is overwritten with the low byte of the unmasked address) and
  with \<^verbatim>\<open>len\<close> as the reply length. It returns \<^verbatim>\<open>*(uint32_t*)sl->data_buf\<close>.
\<close>

definition stl_rd32_cmd :: "env \<Rightarrow> stlink \<Rightarrow> u32 \<Rightarrow> u16 \<Rightarrow> u32 \<times> stlink" where
  "stl_rd32_cmd E sl addr len =
     (let sl1 = sl\<lparr>cmd_buf := write_uint32 (is_bigendian E) (cmd_buf sl) 2 (addr AND NOT 3)\<rparr>;
          sl2 = sl1\<lparr>cmd_buf := write_uint16 (is_bigendian E) (cmd_buf sl1) 6
                                   (word_of_int ((uint len + 3) AND NOT 3))\<rparr>;
          sl3 = snd (stlink_cmd E sl2 STLinkDebugReadMem32bit (ucast addr) (unat len))
      in (obj_load32 (is_bigendian E) (data_buf sl3) 0, sl3))"

definition sl_rd32 :: "env \<Rightarrow> stlink \<Rightarrow> u32 \<Rightarrow> u32 \<times> stlink" where
  "sl_rd32 E sl addr =
     (let sl1 = snd (stl_rd32_cmd E sl addr 4)
      in (obj_load32 (is_bigendian E) (data_buf sl1) 0, sl1))"

subsection \<open>A simulated probe with a static target\<close>

text \<open>
  For concrete runs: a probe whose target has a fixed core status, a fixed core ID and a
  memory that does not change (writes are accepted and ignored). A memory read returns the
  bytes at the address carried little-endian in bytes 2..5 of the command.
\<close>

record target =
  t_status :: u8
  t_core_id :: u32
  t_mem :: "u32 \<Rightarrow> u8"

definition sim_probe :: "target \<Rightarrow> xfer list \<Rightarrow> u8 list \<Rightarrow> nat \<Rightarrow> u8 list" where
  "sim_probe T hist cmd len =
     (if cmd ! 1 = STLinkDebugReadMem32bit then
        map (\<lambda>k. t_mem T (le_value32 (cmd ! 2) (cmd ! 3) (cmd ! 4) (cmd ! 5) + of_nat k)) [0..<len]
      else if cmd ! 1 = STLinkDebugReadCoreID then
        [byte_of (t_core_id T) 0, byte_of (t_core_id T) 1,
         byte_of (t_core_id T) 2, byte_of (t_core_id T) 3]
      else if cmd ! 1 = STLinkDebugGetStatus then [t_status T, 0]
      else [0x80, 0])"

definition word_mem :: "(u32 \<Rightarrow> u32) \<Rightarrow> u32 \<Rightarrow> u8" where
  \<comment> \<open>a byte memory whose aligned 32-bit words are given, stored little-endian\<close>
  "word_mem f a = byte_of (f (a AND NOT 3)) (unat (a AND 3))"

section \<open>The target personality table\<close>

abbreviation (input) ChipCapF4Flash :: int where "ChipCapF4Flash \<equiv> 1"
abbreviation (input) ChipCapL15Flash :: int where "ChipCapL15Flash \<equiv> 2"
abbreviation (input) ChipCapL1Addrs :: int where "ChipCapL1Addrs \<equiv> 4"

record stm_chip_params =
  name :: string
  cap_flags :: int
  core_id :: u32
  dbgmcu_idcode :: u32
  flash_base :: u32
  flash_size :: u32
  flash_pgsize :: u32
  sysflash_base :: u32
  sysflash_size :: u32
  sysflash_pgsize :: u32
  sram_base :: u32
  sram_size :: u32

definition mk_chip ::
  "string \<Rightarrow> int \<Rightarrow> u32 \<Rightarrow> u32 \<Rightarrow> u32 \<Rightarrow> u32 \<Rightarrow> u32 \<Rightarrow> u32 \<Rightarrow> u32 \<Rightarrow> u32 \<Rightarrow> u32 \<Rightarrow> u32
   \<Rightarrow> stm_chip_params" where
  "mk_chip n c cid idc fb fs fp sb ss sp rb rs =
     \<lparr>name = n, cap_flags = c, core_id = cid, dbgmcu_idcode = idc,
      flash_base = fb, flash_size = fs, flash_pgsize = fp,
      sysflash_base = sb, sysflash_size = ss, sysflash_pgsize = sp,
      sram_base = rb, sram_size = rs\<rparr>"

text \<open>
  \<^verbatim>\<open>stm_devids[]\<close>, entry by entry in the order of the source. The source ends the array
  with an entry whose name is null; scans stop there, so the list holds the named entries.
\<close>

definition stm_devids :: "stm_chip_params list" where
  "stm_devids =
   [mk_chip ''STM32'' 0 0x1ba01477 0x10000400
      0x08000000 (128*1024) 1024 0x1fffec00 (2*1024) 1024 0x20000000 (8*1024),
    mk_chip ''STM32F051-R8T6'' 0 0x0bb11477 0x20006440
      0x08000000 (64*1024) 1024 0x1fffec00 (8*1024) 1024 0x20000000 (8*1024),
    mk_chip ''STM32F100'' 0 0x1ba01477 0x10016420
      0x08000000 (128*1024) 1024 0x1ffff000 (2*1024) 1024 0x20000000 (8*1024),
    mk_chip ''STM32F103R4T6'' 0 0x1ba01477 0x00005e7d
      0x08000000 (32*1024) 1024 0x1ffff000 (2*1024) 1024 0x20000000 (4*1024),
    mk_chip ''STM32F103C8T6'' 0 0x1ba01477 0x20036410
      0x08000000 (64*1024) 1024 0x1ffff000 (2*1024) 1024 0x20000000 (20*1024),
    mk_chip ''STM32F105RB'' 0 0x3ba00477 0x10016430
      0x08000000 (32*1024) 1024 0x1ffff000 (2*1024) 1024 0x20000000 (4*1024),
    mk_chip ''STM32F10x'' 0 0x1ba01477 0x10016412
      0x08000000 (32*1024) 1024 0x1ffff000 (2*1024) 1024 0x20000000 (4*1024),
    mk_chip ''STM32F10x'' 0 0x1ba01477 0x10016410
      0x08000000 (128*1024) 1024 0x1ffff000 (2*1024) 1024 0x20000000 (8*1024),
    mk_chip ''STM32F10x'' 0 0x1ba01477 0x10016414
      0x08000000 (512*1024) 1024 0x1ffff000 (2*1024) 1024 0x20000000 (8*1024),
    mk_chip ''STM32F10x'' 0 0x1ba01477 0x10016430
      0x08000000 (1024*1024) 2048 0x1fffe000 (6*1024) 1024 0x20000000 (8*1024),
    mk_chip ''STM32F107'' 0 0x1ba01477 0x10016418
      0x08000000 (256*1024) 2048 0x1fffb000 (18*1024) 1024 0x20000000 (8*1024),
    mk_chip ''STM32L152'' (ChipCapL15Flash OR ChipCapL1Addrs) 0x1ba01477 0x10186416
      0x08000000 (128*1024) 2048 0x1fffb000 (16*1024) 1024 0x20000000 (8*1024),
    mk_chip ''STM32F303VCT6'' 0 0x3ba00477 0x10016422
      0x08000000 (256*1024) 2048 0x1fffb000 (18*1024) 1024 0x20000000 (8*1024),
    mk_chip ''STM32F407'' ChipCapF4Flash 0x2ba01477 0x20006411
      0x08000000 (256*1024) 2048 0x1fffb000 (18*1024) 1024 0x20000000 (8*1024),
    mk_chip ''STM32F4xx'' ChipCapF4Flash 0x2ba01477 0x10006420
      0x08000000 (256*1024) 2048 0x1fffb000 (18*1024) 1024 0x20000000 (8*1024)]"

section \<open>Flash controller registers\<close>

abbreviation (input) FLASH_REGS_ADDR :: u32 where "FLASH_REGS_ADDR \<equiv> 0x40022000"
abbreviation (input) FLASH_KEYR :: u32 where "FLASH_KEYR \<equiv> FLASH_REGS_ADDR + 0x04"
abbreviation (input) FLASH_SR :: u32 where "FLASH_SR \<equiv> FLASH_REGS_ADDR + 0x0c"
abbreviation (input) FLASH_CR :: u32 where "FLASH_CR \<equiv> FLASH_REGS_ADDR + 0x10"
abbreviation (input) FLASH_AR :: u32 where "FLASH_AR \<equiv> FLASH_REGS_ADDR + 0x14"

abbreviation (input) FLASH_KEY1 :: u32 where "FLASH_KEY1 \<equiv> 0x45670123"
abbreviation (input) FLASH_KEY2 :: u32 where "FLASH_KEY2 \<equiv> 0xcdef89ab"

abbreviation (input) L15_FLASH_BASE :: u32 where "L15_FLASH_BASE \<equiv> 0x40023C00"
abbreviation (input) L15_FLASH_ACR :: u32 where "L15_FLASH_ACR \<equiv> L15_FLASH_BASE + 0x00"
abbreviation (input) L15_FLASH_PECR :: u32 where "L15_FLASH_PECR \<equiv> L15_FLASH_BASE + 0x04"
abbreviation (input) L15_FLASH_PEKEYR :: u32 where "L15_FLASH_PEKEYR \<equiv> L15_FLASH_BASE + 0x0C"
abbreviation (input) L15_FLASH_PRGKEYR :: u32 where "L15_FLASH_PRGKEYR \<equiv> L15_FLASH_BASE + 0x10"
abbreviation (input) L15_FLASH_SR :: u32 where "L15_FLASH_SR \<equiv> L15_FLASH_BASE + 0x18"
abbreviation (input) L15_FLASH_OBR :: u32 where "L15_FLASH_OBR \<equiv> L15_FLASH_BASE + 0x1C"

abbreviation (input) L15_FLASH_PEKEY1 :: u32 where "L15_FLASH_PEKEY1 \<equiv> 0x89abcdef"
abbreviation (input) L15_FLASH_PEKEY2 :: u32 where "L15_FLASH_PEKEY2 \<equiv> 0x02030405"
abbreviation (input) L15_FLASH_PRGKEY1 :: u32 where "L15_FLASH_PRGKEY1 \<equiv> 0x8C9DAEBF"
abbreviation (input) L15_FLASH_PRGKEY2 :: u32 where "L15_FLASH_PRGKEY2 \<equiv> 0x13141516"

abbreviation (input) FLASH_SR_BSY :: u32 where "FLASH_SR_BSY \<equiv> 0x0001"
abbreviation (input) FLASH_SR_PGERR :: u32 where "FLASH_SR_PGERR \<equiv> 0x0004"
abbreviation (input) FLASH_SR_WRPRTERR :: u32 where "FLASH_SR_WRPRTERR \<equiv> 0x0010"
abbreviation (input) FLASH_SR_EOP :: u32 where "FLASH_SR_EOP \<equiv> 0x0020"

abbreviation (input) FLASH_CR_PER :: u32 where "FLASH_CR_PER \<equiv> 0x0002"
abbreviation (input) FLASH_CR_MER :: u32 where "FLASH_CR_MER \<equiv> 0x0004"
abbreviation (input) FLASH_CR_STRT :: u32 where "FLASH_CR_STRT \<equiv> 0x0040"

abbreviation (input) F4_FLASH_REGS :: u32 where "F4_FLASH_REGS \<equiv> 0x40023C00"
abbreviation (input) F4_FLASH_KEYR :: u32 where "F4_FLASH_KEYR \<equiv> F4_FLASH_REGS + 0x04"
abbreviation (input) F4_FLASH_SR :: u32 where "F4_FLASH_SR \<equiv> F4_FLASH_REGS + 0x0c"
abbreviation (input) F4_FLASH_SR_BSY :: u32 where "F4_FLASH_SR_BSY \<equiv> 0x00010000"
abbreviation (input) F4_FLASH_CR :: u32 where "F4_FLASH_CR \<equiv> F4_FLASH_REGS + 0x10"
abbreviation (input) F4_FLASH_CR_STRT :: u32 where "F4_FLASH_CR_STRT \<equiv> 0x00010000"

section \<open>The loader-based flash writer\<close>

definition db_loader_code :: "u16 list" where
  "db_loader_code =
    [0x480B, 0x490C, 0x4A0C, 0x4c09, 0x2501, 0x6125,
     0xf830, 0x3b02, 0xf821, 0x3b02,
     0x3501, 0x68e3, 0xf013, 0x0f01, 0xd1fa,
     0xf013, 0x0f14, 0xd102, 0x3a01, 0xd1f1,
     0x6122, 0xbe00,
     0x2000, 0x4002, 0x0040, 0x2000, 0x0bd0, 0x0800, 0x0006, 0x0000]"

definition f4_loader_code :: "u16 list" where
  "f4_loader_code =
    [0x480B, 0x490C, 0x4A0C, 0x4c09, 0x2501, 0x6125,
     0xf830, 0x3b02, 0xf821, 0x3b02,
     0x3501, 0x68e3, 0xf013, 0x0f01, 0xd1fa,
     0xf013, 0x0ff0, 0xd102, 0x3a01, 0xd1f1,
     0x6122, 0xbe00,
     0x2000, 0x4002, 0x0040, 0x2000, 0x0bd0, 0x0800, 0x0006, 0x0000]"

definition code_bytes :: "bool \<Rightarrow> u16 list \<Rightarrow> buffer" where
  \<comment> \<open>the bytes of a \<^verbatim>\<open>uint16_t\<close> array as they lie in host memory\<close>
  "code_bytes be code =
     (\<lambda>i. if i < 2 * length code then obj_byte16 be (code ! (i div 2)) (i mod 2) else 0)"

definition sizeof_code :: "u16 list \<Rightarrow> nat" where
  "sizeof_code code = 2 * length code"

datatype fault = Memory_fault

text \<open>
  The first half of \<^verbatim>\<open>stl_loader\<close>, up to \<^verbatim>\<open>memcpy(params, buf, size)\<close>: the image laid
  out in \<^verbatim>\<open>data_buf\<close>. \<^verbatim>\<open>params\<close> points just behind the copied array, so
  \<^verbatim>\<open>params[-4] .. params[-1]\<close> overwrite the last four words of the array, which the
  source marks "will be overwritten before download". \<^verbatim>\<open>prog_base\<close> is the SRAM base
  of table entry 0. The words are stored as host \<^verbatim>\<open>uint32_t\<close> objects.
\<close>

definition loader_flash_ctrl_base :: "stm_chip_params \<Rightarrow> u32 \<Rightarrow> u32" where
  "loader_flash_ctrl_base chip flash_addr =
     (if cap_flags chip AND ChipCapF4Flash \<noteq> 0 then F4_FLASH_REGS
      else if 256 * 1024 < flash_size chip \<and> 0x08080000 \<le> flash_addr then 0x40022040
      else FLASH_REGS_ADDR)"

definition loader_code_of :: "stm_chip_params \<Rightarrow> u16 list" where
  "loader_code_of chip =
     (if cap_flags chip AND ChipCapF4Flash \<noteq> 0 then f4_loader_code else db_loader_code)"

definition stl_loader_image :: "env \<Rightarrow> stlink \<Rightarrow> u32 \<Rightarrow> buffer \<Rightarrow> int \<Rightarrow> stlink" where
  "stl_loader_image E sl flash_addr buf sz =
     (let be = is_bigendian E;
          chip = stm_devids ! chip_index sl;
          prog_base = sram_base (stm_devids ! 0);
          offset = sizeof_code (loader_code_of chip);
          d0 = memcpy (data_buf sl) 0 (code_bytes be (loader_code_of chip)) 0 offset;
          flash_ctrl_base = loader_flash_ctrl_base chip flash_addr;
          d1 = obj_store32 be d0 (offset - 16) flash_ctrl_base;
          d2 = obj_store32 be d1 (offset - 12) (prog_base + of_nat offset);
          d3 = obj_store32 be d2 (offset - 8) flash_addr;
          d4 = obj_store32 be d3 (offset - 4) (word_of_int (sz div 2));
          d5 = memcpy d4 offset buf 0 (nat sz)
      in sl\<lparr>data_buf := d5\<rparr>)"

text \<open>
  \<^verbatim>\<open>stl_loader\<close>: build the image, send it with one \<^verbatim>\<open>stl_wr32_cmd\<close> (whose result the
  source ignores), set the PC (register 15) to the SRAM base and run. A negative size, or
  an image longer than \<^verbatim>\<open>data_buf\<close>, makes the \<^verbatim>\<open>memcpy\<close> run outside the array:
  that is undefined in C and a \<open>Memory_fault\<close> here. \<^verbatim>\<open>size >> 1\<close> is \<open>size div 2\<close>.
\<close>

definition stl_loader :: "env \<Rightarrow> stlink \<Rightarrow> u32 \<Rightarrow> buffer \<Rightarrow> int \<Rightarrow> fault + stlink" where
  "stl_loader E sl flash_addr buf sz =
     (let prog_base = sram_base (stm_devids ! 0);
          offset = sizeof_code (loader_code_of (stm_devids ! chip_index sl))
      in if sz < 0 \<or> int Q_BUF_LEN < int offset + sz then Inl Memory_fault
         else
           (let sl1 = stl_loader_image E sl flash_addr buf sz;
                sl2 = snd (stl_wr32_cmd E sl1 prog_base (word_of_int (int offset + sz)));
                sl3 = stl_write_reg E sl2 prog_base 15;
                sl4 = snd (stl_state_run E sl3)
            in Inr sl4))"

abbreviation (input) FLASH_WR_BLK_SIZE :: int where "FLASH_WR_BLK_SIZE \<equiv> 2048"
abbreviation (input) FLASH_POLL_LIMIT :: nat where "FLASH_POLL_LIMIT \<equiv> 200"

text \<open>
  The halt poll inside the chunk loop of \<^verbatim>\<open>stl_flash_write\<close>:
  \<^verbatim>\<open>while (stl_get_status(sl) != STLINK_CORE_HALTED) if (++failcount > FLASH_POLL_LIMIT) return 0;\<close>
  The result \<open>False\<close> is that early return. When \<^verbatim>\<open>sl->verbose\<close> is set the source first
  prints three values it reads from the probe; C leaves the order of those three reads
  open, the model takes them left to right.
\<close>

function flash_poll :: "env \<Rightarrow> stlink \<Rightarrow> nat \<Rightarrow> bool \<times> stlink" where
  "flash_poll E sl failcount =
     (case stl_get_status E sl of
        (st, sl1) \<Rightarrow>
          if st \<noteq> STLINK_CORE_HALTED then
            (if FLASH_POLL_LIMIT < failcount + 1 then
               (False,
                if verbose sl1 \<noteq> 0 then
                  snd (stl_get_status E (snd (sl_rd32 E (snd (sl_rd32 E sl1 FLASH_SR)) FLASH_CR)))
                else sl1)
             else flash_poll E sl1 (failcount + 1))
          else (True, sl1))"
  by pat_completeness auto
termination
  by (relation "measure (\<lambda>(E, sl, failcount). Suc FLASH_POLL_LIMIT - failcount)") auto

declare flash_poll.simps [simp del]

definition flash_this_size :: "int \<Rightarrow> int" where
  \<comment> \<open>the size of the next chunk, from the bytes still to write\<close>
  "flash_this_size sz =
     (if FLASH_WR_BLK_SIZE < sz then FLASH_WR_BLK_SIZE
      else if sz AND 1 \<noteq> 0 then sz + 1
      else sz)"

text \<open>
  The \<^verbatim>\<open>do { ... } while (size > 0)\<close> loop of \<^verbatim>\<open>stl_flash_write\<close>. \<open>False\<close> in the result
  is the early \<^verbatim>\<open>return 0\<close> of the halt poll.
\<close>

function flash_write_loop ::
  "env \<Rightarrow> stlink \<Rightarrow> u32 \<Rightarrow> buffer \<Rightarrow> int \<Rightarrow> int \<Rightarrow> fault + (bool \<times> stlink)" where
  "flash_write_loop E sl flash_addr buf offset sz =
     (case stl_loader E sl (flash_addr + word_of_int offset) (\<lambda>i. buf (nat offset + i))
             (flash_this_size sz) of
        Inl f \<Rightarrow> Inl f
      | Inr sl1 \<Rightarrow>
          (case flash_poll E sl1 0 of
             (False, sl2) \<Rightarrow> Inr (False, sl2)
           | (True, sl2) \<Rightarrow>
               if 0 < sz - flash_this_size sz then
                 flash_write_loop E sl2 flash_addr buf
                   (offset + flash_this_size sz) (sz - flash_this_size sz)
               else Inr (True, sl2)))"
  by pat_completeness auto
termination
  by (relation "measure (\<lambda>(E, sl, flash_addr, buf, offset, sz). nat sz)")
    (auto simp add: flash_this_size_def split: if_splits)

declare flash_write_loop.simps [simp del]

text \<open>
  \<^verbatim>\<open>stl_flash_write\<close>. The result is the C return value: 0 from the early return of the
  halt poll, otherwise \<^verbatim>\<open>sl_rd32(sl, FLASH_SR) & 0x15\<close>.
\<close>

definition stl_flash_write ::
  "env \<Rightarrow> stlink \<Rightarrow> u32 \<Rightarrow> buffer \<Rightarrow> int \<Rightarrow> fault + (u32 \<times> stlink)" where
  "stl_flash_write E sl flash_addr buf sz =
     (let sl1 = sl_wr32 E sl FLASH_KEYR FLASH_KEY1;
          sl2 = sl_wr32 E sl1 FLASH_KEYR FLASH_KEY2;
          sl3 = sl_wr32 E sl2 FLASH_SR 0x34;
          sl4 = (if verbose sl3 \<noteq> 0 then snd (sl_rd32 E (snd (sl_rd32 E sl3 FLASH_SR)) FLASH_CR)
                 else sl3)
      in case flash_write_loop E sl4 flash_addr buf 0 sz of
           Inl f \<Rightarrow> Inl f
         | Inr (False, sl5) \<Rightarrow> Inr (0, sl5)
         | Inr (True, sl5) \<Rightarrow>
             (case sl_rd32 E sl5 FLASH_SR of
                (v, sl6) \<Rightarrow> Inr (v AND 0x15, sl_wr32 E sl6 FLASH_CR 0x80)))"

section \<open>Flash erase\<close>

text \<open>
  Each of the three erase functions ends with the same loop over its own status register
  and busy mask:
  \<^verbatim>\<open>do { status = sl_rd32(sl, SR); i++; } while ((status & BSY) && i < 1000);\<close>
  The result is the last status read, the number of reads, and the session.
\<close>

function erase_wait :: "env \<Rightarrow> u32 \<Rightarrow> u32 \<Rightarrow> stlink \<Rightarrow> nat \<Rightarrow> u32 \<times> nat \<times> stlink" where
  "erase_wait E sr bsy sl i =
     (case sl_rd32 E sl sr of
        (status, sl1) \<Rightarrow>
          if status AND bsy \<noteq> 0 \<and> i + 1 < 1000 then erase_wait E sr bsy sl1 (i + 1)
          else (status, i + 1, sl1))"
  by pat_completeness auto
termination
  by (relation "measure (\<lambda>(E, sr, bsy, sl, i). 1000 - i)") auto

declare erase_wait.simps [simp del]

text \<open>
  \<^verbatim>\<open>stl_f1_flash_erase\<close>. The reads made only to print a message are kept, since they are
  transfers; where one \<^verbatim>\<open>fprintf\<close> reads two registers, C leaves their order open and the
  model takes them left to right. The result is the C return value.
\<close>

definition stl_f1_flash_erase :: "env \<Rightarrow> stlink \<Rightarrow> u32 \<Rightarrow> int \<times> stlink" where
  "stl_f1_flash_erase E sl addr_page =
     (let sl1 = sl_wr32 E sl FLASH_KEYR FLASH_KEY1;
          sl2 = sl_wr32 E sl1 FLASH_KEYR FLASH_KEY2;
          sl3 = sl_wr32 E sl2 FLASH_SR (FLASH_SR_EOP OR FLASH_SR_WRPRTERR OR FLASH_SR_PGERR);
          sl4 = (if 1 < verbose sl3 then snd (sl_rd32 E (snd (sl_rd32 E sl3 FLASH_SR)) FLASH_CR)
                 else sl3);
          sl5 = (if addr_page = 0xa11 then
                   sl_wr32 E (sl_wr32 E sl4 FLASH_CR FLASH_CR_MER)
                     FLASH_CR (FLASH_CR_STRT OR FLASH_CR_MER)
                 else
                   sl_wr32 E (sl_wr32 E (sl_wr32 E sl4 FLASH_AR addr_page) FLASH_CR FLASH_CR_PER)
                     FLASH_CR (FLASH_CR_STRT OR FLASH_CR_PER))
      in case erase_wait E FLASH_SR FLASH_SR_BSY sl5 0 of
           (status, i, sl6) \<Rightarrow>
             if status AND FLASH_SR_EOP = 0 then (1, snd (sl_rd32 E sl6 FLASH_SR))
             else (0, sl6))"

definition f4_sector_cr :: "u32 \<Rightarrow> u32 \<Rightarrow> u32" where
  \<comment> \<open>\<^verbatim>\<open>op | (sector<<3)\<close> with \<^verbatim>\<open>sector = addr_page & 0x0f\<close>\<close>
  "f4_sector_cr opc addr_page = opc OR push_bit 3 (addr_page AND 0x0f)"

definition stl_f4_flash_erase :: "env \<Rightarrow> stlink \<Rightarrow> u32 \<Rightarrow> int \<times> stlink" where
  "stl_f4_flash_erase E sl addr_page =
     (let sl0 = (if 1 < verbose sl then snd (sl_rd32 E (snd (sl_rd32 E sl F4_FLASH_SR)) F4_FLASH_CR)
                 else sl);
          sl1 = sl_wr32 E sl0 F4_FLASH_KEYR FLASH_KEY1;
          sl2 = sl_wr32 E sl1 F4_FLASH_KEYR FLASH_KEY2;
          sl3 = sl_wr32 E sl2 F4_FLASH_SR 0xF3;
          sl4 = (if 1 < verbose sl3 then
                   snd (sl_rd32 E (snd (sl_rd32 E sl3 F4_FLASH_SR)) F4_FLASH_CR)
                 else sl3);
          sl5 = (if addr_page = 0xa11 then
                   sl_wr32 E (sl_wr32 E sl4 F4_FLASH_CR FLASH_CR_MER)
                     F4_FLASH_CR (F4_FLASH_CR_STRT OR FLASH_CR_MER)
                 else
                   sl_wr32 E (sl_wr32 E sl4 F4_FLASH_CR (f4_sector_cr 0x00202 addr_page))
                     F4_FLASH_CR (f4_sector_cr 0x10202 addr_page))
      in case erase_wait E F4_FLASH_SR F4_FLASH_SR_BSY sl5 0 of
           (status, i, sl6) \<Rightarrow> (0, sl6))"

definition stl_L1_flash_erase :: "env \<Rightarrow> stlink \<Rightarrow> u32 \<Rightarrow> int \<times> stlink" where
  "stl_L1_flash_erase E sl addr_page =
     (let sl0 = (if 1 < verbose sl then
                   snd (sl_rd32 E (snd (sl_rd32 E sl L15_FLASH_ACR)) L15_FLASH_ACR)
                 else sl);
          sl1 = sl_wr32 E sl0 L15_FLASH_PEKEYR L15_FLASH_PEKEY1;
          sl2 = sl_wr32 E sl1 L15_FLASH_PEKEYR L15_FLASH_PEKEY2;
          sl3 = sl_wr32 E sl2 L15_FLASH_PRGKEYR L15_FLASH_PRGKEY1;
          sl4 = sl_wr32 E sl3 L15_FLASH_PRGKEYR L15_FLASH_PRGKEY2;
          sl5 = (if 1 < verbose sl4 then
                   snd (sl_rd32 E (snd (sl_rd32 E (snd (sl_rd32 E sl4 L15_FLASH_PECR))
                                          L15_FLASH_ACR)) L15_FLASH_OBR)
                 else sl4);
          sl6 = (if addr_page = 0xa11 then
                   sl_wr32 E (sl_wr32 E sl5 L15_FLASH_OBR 0x01) L15_FLASH_OBR 0xAA
                 else
                   sl_wr32 E (sl_wr32 E sl5 F4_FLASH_CR (f4_sector_cr 0x00202 addr_page))
                     F4_FLASH_CR (f4_sector_cr 0x10202 addr_page))
      in case erase_wait E L15_FLASH_SR FLASH_SR_BSY sl6 0 of
           (status, i, sl7) \<Rightarrow> (0, sl7))"

definition stl_flash_erase_page :: "env \<Rightarrow> stlink \<Rightarrow> u32 \<Rightarrow> int \<times> stlink" where
  "stl_flash_erase_page E sl addr_page =
     (if cap_flags (stm_devids ! chip_index sl) AND ChipCapF4Flash \<noteq> 0 then
        stl_f4_flash_erase E sl addr_page
      else if cap_flags (stm_devids ! chip_index sl) AND ChipCapL15Flash \<noteq> 0 then
        stl_L1_flash_erase E sl addr_page
      else stl_f1_flash_erase E sl addr_page)"

section \<open>The target memory service\<close>

lemma int_and_not_3: "(x::int) AND NOT 3 = x - x mod 4"
proof -
  have m: "(3::int) = mask 2"
    by (simp add: mask_eq_exp_minus_1)
  have "x AND NOT (mask 2) = push_bit 2 (drop_bit 2 x)"
  proof (rule bit_eqI)
    fix n :: nat
    have *: "2 \<le> n \<Longrightarrow> Suc (Suc (n - 2)) = n" by simp
    show "bit (x AND NOT (mask 2)) n = bit (push_bit 2 (drop_bit 2 x)) n"
      using * by (cases "2 \<le> n") (auto simp add: bit_simps)
  qed
  then show ?thesis
    unfolding m by (simp add: push_bit_eq_mult drop_bit_eq_div minus_mod_eq_mult_div)
qed

lemma int_and_3: "(x::int) AND 3 = x mod 4"
proof -
  have m: "(3::int) = mask 2"
    by (simp add: mask_eq_exp_minus_1)
  show ?thesis
    unfolding m by (simp add: take_bit_eq_mod flip: take_bit_eq_mask)
qed

abbreviation (input) READ_BLK_SIZE :: int where "READ_BLK_SIZE \<equiv> 1024"

text \<open>
  The \<^verbatim>\<open>do { ... } while (size > 0)\<close> loop of \<^verbatim>\<open>stl_read\<close>; \<open>buf\<close> is the caller's
  memory from the pointer on. The count of the \<^verbatim>\<open>memcpy\<close> is \<^verbatim>\<open>xfer_size\<close> after
  \<^verbatim>\<open>if (size & 3) xfer_size = size;\<close>. A negative count, or one beyond the end of
  \<^verbatim>\<open>data_buf\<close>, is undefined in C and a \<open>Memory_fault\<close> here. The result carries the
  final \<^verbatim>\<open>size\<close>, which \<^verbatim>\<open>stl_read\<close> returns.
\<close>

function stl_read_loop ::
  "env \<Rightarrow> stlink \<Rightarrow> u32 \<Rightarrow> buffer \<Rightarrow> nat \<Rightarrow> int \<Rightarrow> fault + (int \<times> buffer \<times> stlink)" where
  "stl_read_loop E sl addr buf offset sz =
     (let xfer_size = (if READ_BLK_SIZE < sz then READ_BLK_SIZE else (sz + 3) AND NOT 3);
          sl1 = snd (stl_rd32_cmd E sl (addr + of_nat offset) (word_of_int xfer_size));
          count = (if sz AND 3 \<noteq> 0 then sz else xfer_size)
      in if count < 0 \<or> int Q_BUF_LEN < count then Inl Memory_fault
         else if 0 < sz - count then
           stl_read_loop E sl1 addr (memcpy buf offset (data_buf sl1) 0 (nat count))
             (offset + nat count) (sz - count)
         else Inr (sz - count, memcpy buf offset (data_buf sl1) 0 (nat count), sl1))"
  by pat_completeness auto
termination
proof (relation "measure (\<lambda>(E, sl, addr, buf, offset, sz). nat sz)", goal_cases)
  case 1
  show ?case by simp
next
  case (2 E sl addr buf offset sz xfer_size sl1 count)
  have "(sz + 3) AND NOT 3 = sz" if "sz AND 3 = 0"
  proof -
    have "(sz + 3) AND NOT 3 = sz + 3 - (sz + 3) mod 4"
      by (rule int_and_not_3)
    moreover have "sz mod 4 = 0"
      using that unfolding int_and_3 .
    ultimately show ?thesis by presburger
  qed
  with 2 have "0 < count" "0 < sz"
    by (auto split: if_splits)
  then show ?case by simp
qed

declare stl_read_loop.simps [simp del]

text \<open>
  \<^verbatim>\<open>stl_read\<close>: for an unaligned address one 4-byte read at \<^verbatim>\<open>addr & ~3\<close>, of which
  the last \<^verbatim>\<open>psz = 4 - (addr & 3)\<close> bytes are copied to the start of the caller's buffer
  and \<^verbatim>\<open>offset = psz\<close>; \<^verbatim>\<open>size\<close> is left as it was. Then the loop.
\<close>

definition stl_read ::
  "env \<Rightarrow> stlink \<Rightarrow> u32 \<Rightarrow> buffer \<Rightarrow> int \<Rightarrow> fault + (int \<times> buffer \<times> stlink)" where
  "stl_read E sl addr buf sz =
     (if addr AND 3 \<noteq> 0 then
        (let psz = 4 - unat (addr AND 3);
             sl1 = snd (stl_rd32_cmd E sl (addr AND NOT 3) 4);
             buf1 = memcpy buf 0 (data_buf sl1) (unat (addr AND 3)) psz
         in stl_read_loop E sl1 addr buf1 psz sz)
      else stl_read_loop E sl addr buf 0 sz)"

section \<open>Target identification\<close>

abbreviation (input) DBGMCU_IDCODE :: u32 where "DBGMCU_IDCODE \<equiv> 0xE0042000"

primrec devid_scan :: "stm_chip_params list \<Rightarrow> u32 \<Rightarrow> nat \<Rightarrow> nat option" where
  \<comment> \<open>\<^verbatim>\<open>for (i = 0; stm_devids[i].name; i++) if (idcode == stm_devids[i].dbgmcu_idcode) ...\<close>\<close>
  "devid_scan [] idcode i = None"
| "devid_scan (c # cs) idcode i =
     (if idcode = dbgmcu_idcode c then Some i else devid_scan cs idcode (Suc i))"

text \<open>
  \<^verbatim>\<open>stm_id_chip\<close>. The scan of \<^verbatim>\<open>arm_cores[]\<close> only prints and is left out. The source
  carries the comment "This should be conditional on core_id. If core_id == 0x0BB11477,
  then we have a Cortex-M0 and should read the idcode from 0x40015800 instead of
  0xE0042000"; what it does is read \<^verbatim>\<open>DBGMCU_IDCODE\<close> first and read 0x40015800 when
  that gave 0.
\<close>

definition stm_id_chip :: "env \<Rightarrow> stlink \<Rightarrow> int \<times> stlink" where
  "stm_id_chip E sl =
     (case stl_get_core_id E sl of
        (coreid, sl1) \<Rightarrow>
          (case sl_rd32 E sl1 DBGMCU_IDCODE of
             (idcode0, sl2) \<Rightarrow>
               (case (if idcode0 = 0 then sl_rd32 E sl2 0x40015800 else (idcode0, sl2)) of
                  (idcode, sl3) \<Rightarrow>
                    (let sl4 = sl3\<lparr>cpu_idcode := idcode\<rparr>
                     in case devid_scan stm_devids idcode 0 of
                          Some i \<Rightarrow> (0, sl4\<lparr>chip_index := i\<rparr>)
                        | None \<Rightarrow> (0, sl4)))))"

section \<open>Reading the wire log\<close>

text \<open>
  What one logged transfer means to the probe, from the opcode in byte 1 of the command.
  Memory commands carry the address little-endian in bytes 2..5; the register write carries
  the register index in byte 2 and the value in bytes 3..6. Only \<^verbatim>\<open>stl_wr32_cmd\<close> sends
  data to the device.
\<close>

datatype probe_op =
    Write32 u32 "u8 list"
  | Write8 u32 "u8 list"
  | Read32 u32 "u8 list"
  | ReadCoreID "u8 list"
  | GetStatus "u8 list"
  | WriteReg u8 u32
  | RunCore
  | Other

definition cmd_word :: "u8 list \<Rightarrow> nat \<Rightarrow> u32" where
  "cmd_word c k = le_value32 (c ! k) (c ! (k + 1)) (c ! (k + 2)) (c ! (k + 3))"

definition decode :: "xfer \<Rightarrow> probe_op" where
  "decode x =
     (if x_dir x = STLinkParamToDev then
        (if x_cmd x ! 1 = STLinkDebugWriteMem32bit then Write32 (cmd_word (x_cmd x) 2) (x_data x)
         else if x_cmd x ! 1 = STLinkDebugWriteMem8bit then Write8 (cmd_word (x_cmd x) 2) (x_data x)
         else Other)
      else if x_cmd x ! 1 = STLinkDebugReadMem32bit then Read32 (cmd_word (x_cmd x) 2) (x_data x)
      else if x_cmd x ! 1 = STLinkDebugReadCoreID then ReadCoreID (x_data x)
      else if x_cmd x ! 1 = STLinkDebugGetStatus then GetStatus (x_data x)
      else if x_cmd x ! 1 = STLinkDebugWriteReg then WriteReg (x_cmd x ! 2) (cmd_word (x_cmd x) 3)
      else if x_cmd x ! 1 = STLinkDebugRunCore then RunCore
      else Other)"

definition ops_since :: "stlink \<Rightarrow> stlink \<Rightarrow> probe_op list" where
  \<comment> \<open>the transfers made between an earlier and a later state of the session\<close>
  "ops_since sl sl' = map decode (drop (length (wire sl)) (wire sl'))"

fun is_mem_write :: "probe_op \<Rightarrow> bool" where
  "is_mem_write (Write32 a d) = True"
| "is_mem_write (Write8 a d) = True"
| "is_mem_write _ = False"

fun is_run :: "probe_op \<Rightarrow> bool" where
  "is_run RunCore = True"
| "is_run _ = False"

fun is_status :: "probe_op \<Rightarrow> bool" where
  "is_status (GetStatus d) = True"
| "is_status _ = False"

definition word_bytes :: "u32 \<Rightarrow> u8 list" where
  \<comment> \<open>a 32-bit value as it travels: least significant byte first\<close>
  "word_bytes v = [byte_of v 0, byte_of v 1, byte_of v 2, byte_of v 3]"

definition reply_word :: "bool \<Rightarrow> u8 list \<Rightarrow> u32" where
  \<comment> \<open>what \<^verbatim>\<open>*(uint32_t*)sl->data_buf\<close> holds after a reply \<open>r\<close> to a 4-byte read:
      \<^verbatim>\<open>stlink_cmd\<close> filled the buffer with 0x55 before the transfer\<close>
  "reply_word be r = obj_load32 be (store_bytes (\<lambda>_. 0x55) 0 r) 0"

subsection \<open>Chunks of a flash write\<close>

text \<open>
  The sizes of the chunks the loop of \<^verbatim>\<open>stl_flash_write\<close> hands to \<^verbatim>\<open>stl_loader\<close> for a
  write of \<open>sz\<close> bytes when no halt poll gives up, and the loop written over that list.
\<close>

function flash_chunks :: "int \<Rightarrow> int list" where
  "flash_chunks sz =
     (if 0 < sz - flash_this_size sz then flash_this_size sz # flash_chunks (sz - flash_this_size sz)
      else [flash_this_size sz])"
  by pat_completeness auto
termination
  by (relation "measure nat") (auto simp add: flash_this_size_def split: if_splits)

declare flash_chunks.simps [simp del]

primrec run_chunks ::
  "env \<Rightarrow> stlink \<Rightarrow> u32 \<Rightarrow> buffer \<Rightarrow> int \<Rightarrow> int list \<Rightarrow> fault + (bool \<times> stlink)" where
  "run_chunks E sl flash_addr buf offset [] = Inr (True, sl)"
| "run_chunks E sl flash_addr buf offset (t # ts) =
     (case stl_loader E sl (flash_addr + word_of_int offset) (\<lambda>i. buf (nat offset + i)) t of
        Inl f \<Rightarrow> Inl f
      | Inr sl1 \<Rightarrow>
          (case flash_poll E sl1 0 of
             (False, sl2) \<Rightarrow> Inr (False, sl2)
           | (True, sl2) \<Rightarrow> run_chunks E sl2 flash_addr buf (offset + t) ts))"

subsection \<open>Simulated targets for concrete runs\<close>

definition target_of :: "u8 \<Rightarrow> u32 \<Rightarrow> (u32 \<Rightarrow> u32) \<Rightarrow> target" where
  "target_of st cid words = \<lparr>t_status = st, t_core_id = cid, t_mem = word_mem words\<rparr>"

definition host :: "bool \<Rightarrow> target \<Rightarrow> env" where
  "host be T = \<lparr>is_bigendian = be, probe = sim_probe T\<rparr>"

subsection \<open>Runs of the session\<close>

text \<open>
  A later state of the session extends an earlier one when its wire log starts with the
  earlier log; \<open>run_ops sl sl' xs\<close> says that the transfers made from \<open>sl\<close> to \<open>sl'\<close>
  were exactly \<open>xs\<close>.
\<close>

definition extends :: "stlink \<Rightarrow> stlink \<Rightarrow> bool" where
  "extends sl sl' =
     (take (length (wire sl)) (wire sl') = wire sl \<and> length (wire sl) \<le> length (wire sl'))"

definition run_ops :: "stlink \<Rightarrow> stlink \<Rightarrow> probe_op list \<Rightarrow> bool" where
  "run_ops sl sl' xs = (extends sl sl' \<and> ops_since sl sl' = xs)"

fun is_mem_read :: "probe_op \<Rightarrow> bool" where
  "is_mem_read (Read32 a d) = True"
| "is_mem_read _ = False"

text \<open>
  The transfers \<^verbatim>\<open>stl_flash_write\<close> makes between unlocking and re-locking: uploads to
  the SRAM base, the write of the PC, the run command, status polls, and reads of the F1
  \<^verbatim>\<open>FLASH_SR\<close> and \<^verbatim>\<open>FLASH_CR\<close>. The halt poll makes only the last two kinds.
\<close>

fun loader_op :: "probe_op \<Rightarrow> bool" where
  "loader_op (Write32 a d) = (a = 0x20000000)"
| "loader_op (Write8 a d) = (a = 0x20000000)"
| "loader_op (Read32 a d) = (a = FLASH_SR \<or> a = FLASH_CR)"
| "loader_op (GetStatus d) = True"
| "loader_op (WriteReg r v) = (r = 15 \<and> v = 0x20000000)"
| "loader_op RunCore = True"
| "loader_op _ = False"

fun poll_op :: "probe_op \<Rightarrow> bool" where
  "poll_op (Read32 a d) = (a = FLASH_SR \<or> a = FLASH_CR)"
| "poll_op (GetStatus d) = True"
| "poll_op _ = False"

text \<open>
  The command bytes \<^verbatim>\<open>stl_rd32_cmd\<close> leaves in \<^verbatim>\<open>cmd_buf\<close>, and the bytes the probe
  returns for them.
\<close>

definition rd32_cmd_buf :: "env \<Rightarrow> stlink \<Rightarrow> u32 \<Rightarrow> u16 \<Rightarrow> buffer" where
  "rd32_cmd_buf E sl addr len =
     (write_uint16 (is_bigendian E)
        (write_uint32 (is_bigendian E) (cmd_buf sl) 2 (addr AND NOT 3)) 6
        (word_of_int ((uint len + 3) AND NOT 3)))
       (0 := STLinkDebugCommand, 1 := STLinkDebugReadMem32bit, 2 := ucast addr)"

definition rd32_reply :: "env \<Rightarrow> stlink \<Rightarrow> u32 \<Rightarrow> u16 \<Rightarrow> u8 list" where
  "rd32_reply E sl addr len =
     take (unat len) (probe E (wire sl) (bytes_at (rd32_cmd_buf E sl addr len) 0 10) (unat len))"

text \<open>
  The upload \<^verbatim>\<open>stl_loader\<close> makes for a chunk of \<open>t\<close> bytes, as \<^verbatim>\<open>stl_wr32_cmd\<close>
  dispatches on the length \<open>60 + t\<close>: a 32-bit write when it is a multiple of 4, an 8-bit
  write when it is below 64, and otherwise nothing.
\<close>

definition upload_ops :: "env \<Rightarrow> stlink \<Rightarrow> u32 \<Rightarrow> buffer \<Rightarrow> int \<Rightarrow> probe_op list" where
  "upload_ops E sl fa buf t =
     (if (60 + nat t) mod 4 = 0 then
        [Write32 0x20000000 (bytes_at (data_buf (stl_loader_image E sl fa buf t)) 0 (60 + nat t))]
      else if 60 + nat t < 64 then
        [Write8 0x20000000 (bytes_at (data_buf (stl_loader_image E sl fa buf t)) 0 (60 + nat t))]
      else [])"

subsection \<open>Example targets\<close>

text \<open>
  Word memories of two devices, for \<^verbatim>\<open>stm_id_chip\<close>: one whose word at 0xE0042000 reads
  0x10016410 and one where it reads 0; both hold 0x20006440 at 0x40015800. And a target
  whose memory byte at every address is the low byte of the address, for \<^verbatim>\<open>stl_read\<close>.
\<close>

definition m0_words :: "u32 \<Rightarrow> u32" where
  "m0_words a = (if a = 0x40015800 then 0x20006440 else 0x10016410)"

definition m3_words :: "u32 \<Rightarrow> u32" where
  "m3_words a = (if a = 0x40015800 then 0x20006440 else 0)"

definition counting_target :: target where
  "counting_target = \<lparr>t_status = 0x80, t_core_id = 0x1ba01477, t_mem = (\<lambda>a. ucast a)\<rparr>"

section \<open>The endian codec\<close>

lemma le_value32_bytes:
  "le_value32 (byte_of w 0) (byte_of w 1) (byte_of w 2) (byte_of w 3) = w"
  unfolding le_value32_def byte_of_def
proof (rule bit_word_eqI)
  fix n assume "n < LENGTH(32)"
  then have n: "n < 32" by simp
  consider "n < 8" | "8 \<le> n" "n < 16" | "16 \<le> n" "n < 24" | "24 \<le> n"
    by linarith
  then show "bit (ucast (ucast (drop_bit (8 * 0) w) :: u8) OR
                  push_bit 8 (ucast (ucast (drop_bit (8 * 1) w) :: u8)) OR
                  push_bit 16 (ucast (ucast (drop_bit (8 * 2) w) :: u8)) OR
                  push_bit 24 (ucast (ucast (drop_bit (8 * 3) w) :: u8)) :: u32) n = bit w n"
    using n by cases (auto simp add: bit_simps)
qed

lemma le_value32_bytes_Suc [simp]:
  "le_value32 (byte_of w 0) (byte_of w (Suc 0)) (byte_of w 2) (byte_of w 3) = w"
  using le_value32_bytes [of w] by simp

text \<open>Both codecs put the least significant byte first, whatever the host's order.\<close>

lemma write_uint32_le:
  "write_uint32 be buf off ui =
     buf(off := byte_of ui 0, off + 1 := byte_of ui 1,
         off + 2 := byte_of ui 2, off + 3 := byte_of ui 3)"
  by (simp add: write_uint32_def obj_byte32_def)

lemma write_uint16_le:
  "write_uint16 be buf off ui = buf(off := byte_of16 ui 0, off + 1 := byte_of16 ui 1)"
  by (simp add: write_uint16_def obj_byte16_def)

lemma read_uint32_le:
  "read_uint32 be c pt = le_value32 (c pt) (c (pt + 1)) (c (pt + 2)) (c (pt + 3))"
  by (simp add: read_uint32_def obj_load32_def)

lemma obj_load32_store32:
  "obj_load32 be (obj_store32 be p off v) off = v"
  by (simp add: obj_load32_def obj_store32_def obj_byte32_def)

lemma obj_load32_store32_other:
  "off + 4 \<le> off' \<or> off' + 4 \<le> off \<Longrightarrow>
   obj_load32 be (obj_store32 be p off' v) off = obj_load32 be p off"
  by (auto simp add: obj_load32_def obj_store32_def)

lemma obj_load32_memcpy_above:
  "off + 4 \<le> d \<Longrightarrow> obj_load32 be (memcpy dst d src s n) off = obj_load32 be dst off"
  by (simp add: obj_load32_def memcpy_def)

section \<open>The loader image\<close>

lemma sizeof_loader [simp]: "sizeof_code (loader_code_of chip) = 60"
  by (simp add: sizeof_code_def loader_code_of_def db_loader_code_def f4_loader_code_def)

text \<open>
  C5. The first parameter word of the image that \<^verbatim>\<open>stl_loader\<close> builds (the word at
  \<open>prog_len - 16 = 44\<close>) is the flash-controller base: it is 0x40022040 exactly when the
  personality lacks the F4 capability, its table flash size exceeds 256 KB and the
  destination is at 0x08080000 or above; for an F4 personality it is
  \<^verbatim>\<open>F4_FLASH_REGS = 0x40023C00\<close>; in every remaining case it is
  \<^verbatim>\<open>FLASH_REGS_ADDR = 0x40022000\<close>.
\<close>

theorem loader_ctrl_base_word:
  "(obj_load32 (is_bigendian E) (data_buf (stl_loader_image E sl flash_addr buf sz)) 44
      = 0x40022040)
   = (cap_flags (stm_devids ! chip_index sl) AND ChipCapF4Flash = 0 \<and>
      256 * 1024 < flash_size (stm_devids ! chip_index sl) \<and> 0x08080000 \<le> flash_addr)
   \<and> (cap_flags (stm_devids ! chip_index sl) AND ChipCapF4Flash \<noteq> 0 \<longrightarrow>
        obj_load32 (is_bigendian E) (data_buf (stl_loader_image E sl flash_addr buf sz)) 44
          = 0x40023C00)
   \<and> (cap_flags (stm_devids ! chip_index sl) AND ChipCapF4Flash = 0 \<and>
        \<not> (256 * 1024 < flash_size (stm_devids ! chip_index sl) \<and> 0x08080000 \<le> flash_addr) \<longrightarrow>
        obj_load32 (is_bigendian E) (data_buf (stl_loader_image E sl flash_addr buf sz)) 44
          = 0x40022000)"
proof -
  have "obj_load32 (is_bigendian E) (data_buf (stl_loader_image E sl flash_addr buf sz)) 44
          = loader_flash_ctrl_base (stm_devids ! chip_index sl) flash_addr"
    by (simp add: stl_loader_image_def Let_def obj_load32_memcpy_above
        obj_load32_store32_other obj_load32_store32)
  then show ?thesis
    by (simp add: loader_flash_ctrl_base_def)
qed

theorem loader_ctrl_base_word_witness:
  "256 * 1024 < flash_size (stm_devids ! 8)
   \<and> cap_flags (stm_devids ! 8) AND ChipCapF4Flash = 0
   \<and> obj_load32 False
        (data_buf (stl_loader_image (host False (target_of 0x81 0x1ba01477 (\<lambda>a. 0)))
           ((stl_init 0)\<lparr>chip_index := 8\<rparr>) 0x08080000 (\<lambda>i. 0) 4)) 44 = 0x40022040
   \<and> cap_flags (stm_devids ! 13) AND ChipCapF4Flash = 1
   \<and> obj_load32 False
        (data_buf (stl_loader_image (host False (target_of 0x81 0x2ba01477 (\<lambda>a. 0)))
           ((stl_init 0)\<lparr>chip_index := 13\<rparr>) 0x08080000 (\<lambda>i. 0) 4)) 44 = 0x40023C00
   \<and> obj_load32 False
        (data_buf (stl_loader_image (host False (target_of 0x81 0x1ba01477 (\<lambda>a. 0)))
           ((stl_init 0)\<lparr>chip_index := 8\<rparr>) 0x08000000 (\<lambda>i. 0) 4)) 44 = 0x40022000"
  using loader_ctrl_base_word
          [of "host False (target_of 0x81 0x1ba01477 (\<lambda>a. 0))" "(stl_init 0)\<lparr>chip_index := 8\<rparr>"
              "0x08080000" "\<lambda>i. 0" 4]
        loader_ctrl_base_word
          [of "host False (target_of 0x81 0x2ba01477 (\<lambda>a. 0))" "(stl_init 0)\<lparr>chip_index := 13\<rparr>"
              "0x08080000" "\<lambda>i. 0" 4]
        loader_ctrl_base_word
          [of "host False (target_of 0x81 0x1ba01477 (\<lambda>a. 0))" "(stl_init 0)\<lparr>chip_index := 8\<rparr>"
              "0x08000000" "\<lambda>i. 0" 4]
  by (simp add: stm_devids_def mk_chip_def stl_init_def host_def)

section \<open>Transfers of the basic operations\<close>

lemma extends_refl [simp]: "extends sl sl"
  by (simp add: extends_def)

lemma ops_since_refl [simp]: "ops_since sl sl = []"
  by (simp add: ops_since_def)

lemma extends_trans: "extends a b \<Longrightarrow> extends b c \<Longrightarrow> extends a c"
proof -
  assume ab: "extends a b" and bc: "extends b c"
  have "take (length (wire a)) (wire c) = take (length (wire a)) (take (length (wire b)) (wire c))"
    using ab by (simp add: extends_def min_def)
  also have "\<dots> = wire a"
    using ab bc by (simp add: extends_def)
  finally show ?thesis
    using ab bc by (simp add: extends_def)
qed

lemma ops_since_trans:
  assumes "extends a b" "extends b c"
  shows "ops_since a c = ops_since a b @ ops_since b c"
proof -
  from assms obtain xs ys where b: "wire b = wire a @ xs" and c: "wire c = wire b @ ys"
    unfolding extends_def by (metis append_take_drop_id)
  show ?thesis by (simp add: ops_since_def b c)
qed

lemma run_ops_refl [simp]: "run_ops sl sl []"
  by (simp add: run_ops_def)

lemma run_ops_trans:
  assumes "run_ops a b xs" "run_ops b c ys"
  shows "run_ops a c (xs @ ys)"
proof -
  from assms have e1: "extends a b" and o1: "ops_since a b = xs"
    and e2: "extends b c" and o2: "ops_since b c = ys"
    by (simp_all add: run_ops_def)
  show ?thesis
    unfolding run_ops_def
    using extends_trans [OF e1 e2] ops_since_trans [OF e1 e2] o1 o2 by simp
qed

lemma run_ops_Cons:
  "run_ops a b [x] \<Longrightarrow> run_ops b c ys \<Longrightarrow> run_ops a c (x # ys)"
  using run_ops_trans [of a b "[x]" c ys] by simp

lemma drop_bit_and_not3:
  "8 \<le> k \<Longrightarrow> drop_bit k ((a::u32) AND NOT 3) = drop_bit k a"
proof -
  assume k: "8 \<le> k"
  have m: "(3::u32) = mask 2" by (simp add: mask_eq_exp_minus_1)
  show ?thesis
    unfolding m using k
    by (intro bit_word_eqI) (auto simp add: bit_simps dest: bit_imp_le_length)
qed

lemma byte_of_and_not3:
  "0 < k \<Longrightarrow> byte_of (a AND NOT 3) k = byte_of a k"
  unfolding byte_of_def by (subst drop_bit_and_not3) simp_all

text \<open>
  \<^verbatim>\<open>stl_rd32_cmd\<close> masks the address, and \<^verbatim>\<open>stlink_cmd\<close> then overwrites its low byte
  with the low byte of the address as given: the command carries the address unmasked.
\<close>

lemma rd_addr_bytes:
  "le_value32 (ucast a) (byte_of (a AND NOT 3) (Suc 0)) (byte_of (a AND NOT 3) 2)
     (byte_of (a AND NOT 3) 3) = a"
proof -
  have a: "(ucast a :: u8) = byte_of a 0"
    by (simp add: byte_of_def)
  show ?thesis
    unfolding a
    by (simp only: byte_of_and_not3 zero_less_Suc zero_less_numeral le_value32_bytes_Suc)
qed

lemmas rd_addr_bytes_simp [simp] = rd_addr_bytes [simplified]

lemma upt_4: "[0..<4] = [0, 1, 2, 3]"
  by code_simp

lemma bytes_at_nth [simp]: "k < n \<Longrightarrow> bytes_at buf off n ! k = buf (off + k)"
  by (simp add: bytes_at_def)

lemma length_bytes_at [simp]: "length (bytes_at buf off n) = n"
  by (simp add: bytes_at_def)

lemma is_bigendian_host [simp]: "is_bigendian (host be T) = be"
  by (simp add: host_def)

lemma stlink_cmd_eq:
  "0 < n \<Longrightarrow> stlink_cmd E sl c1 c2 n =
    (let cb = (cmd_buf sl)(0 := STLinkDebugCommand, 1 := c1, 2 := c2);
         r = take n (probe E (wire sl) (bytes_at cb 0 10) n);
         db = store_bytes (memset (data_buf sl) 0 0x55 (n + 12)) 0 r
     in (if n = 2 then ucast (obj_load16 (is_bigendian E) db 0)
         else if n = 4 then read_uint32 (is_bigendian E) db 0 else 0,
         sl\<lparr>cmd_buf := cb, cmd_len := 16, data_len := n, xfer_dir := STLinkParamFromDev,
            data_buf := db,
            wire := wire sl @ [\<lparr>x_cmd = bytes_at cb 0 10, x_dir = STLinkParamFromDev,
                               x_len = n, x_data = r\<rparr>]\<rparr>))"
  by (simp add: stlink_cmd_def stl_do_cmd_def Let_def)

lemma stl_rd32_cmd_snd:
  "0 < len \<Longrightarrow> snd (stl_rd32_cmd E sl addr len) =
     sl\<lparr>cmd_buf := rd32_cmd_buf E sl addr len, cmd_len := 16, data_len := unat len,
        xfer_dir := STLinkParamFromDev,
        data_buf := store_bytes (memset (data_buf sl) 0 0x55 (unat len + 12)) 0
                      (rd32_reply E sl addr len),
        wire := wire sl @ [\<lparr>x_cmd = bytes_at (rd32_cmd_buf E sl addr len) 0 10,
                            x_dir = STLinkParamFromDev, x_len = unat len,
                            x_data = rd32_reply E sl addr len\<rparr>]\<rparr>"
proof -
  assume "0 < len"
  then have "0 < unat len" by (simp add: unat_gt_0)
  then show ?thesis
    by (simp add: stl_rd32_cmd_def stlink_cmd_eq Let_def rd32_cmd_buf_def rd32_reply_def)
qed

lemma decode_rd32 [simp]:
  "decode \<lparr>x_cmd = bytes_at (rd32_cmd_buf E sl addr len) 0 10, x_dir = STLinkParamFromDev,
           x_len = n, x_data = r\<rparr> = Read32 addr r"
  by (simp add: decode_def cmd_word_def rd32_cmd_buf_def write_uint32_le write_uint16_le)

lemma sl_rd32_eq:
  "sl_rd32 E sl addr = (reply_word (is_bigendian E) (rd32_reply E sl addr 4),
     snd (stl_rd32_cmd E sl addr 4))"
  by (simp add: sl_rd32_def stl_rd32_cmd_snd Let_def reply_word_def obj_load32_def
      store_bytes_def memset_def)

lemma sl_rd32_ops:
  "extends sl (snd (sl_rd32 E sl addr))"
  "ops_since sl (snd (sl_rd32 E sl addr)) = [Read32 addr (rd32_reply E sl addr 4)]"
  by (simp_all add: sl_rd32_eq stl_rd32_cmd_snd extends_def ops_since_def)

lemma sl_rd32_frame [simp]:
  "verbose (snd (sl_rd32 E sl addr)) = verbose sl"
  "chip_index (snd (sl_rd32 E sl addr)) = chip_index sl"
  "cpu_idcode (snd (sl_rd32 E sl addr)) = cpu_idcode sl"
  by (simp_all add: sl_rd32_eq stl_rd32_cmd_snd)

lemma sl_wr32_ops:
  "extends sl (sl_wr32 E sl addr val)"
  "ops_since sl (sl_wr32 E sl addr val) = [Write32 addr (word_bytes val)]"
  by (simp_all add: extends_def ops_since_def sl_wr32_def stl_wr32_cmd_def Let_def stl_do_cmd_def
      decode_def cmd_word_def write_uint32_le write_uint16_le word_bytes_def bytes_at_def upt_4)

lemma sl_wr32_frame [simp]:
  "verbose (sl_wr32 E sl addr val) = verbose sl"
  "chip_index (sl_wr32 E sl addr val) = chip_index sl"
  "cpu_idcode (sl_wr32 E sl addr val) = cpu_idcode sl"
  by (simp_all add: sl_wr32_def stl_wr32_cmd_def Let_def stl_do_cmd_def)

lemma run_ops_wr32: "run_ops sl (sl_wr32 E sl addr val) [Write32 addr (word_bytes val)]"
  by (simp add: run_ops_def sl_wr32_ops)

lemma run_ops_rd32:
  "run_ops sl (snd (sl_rd32 E sl addr)) [Read32 addr (rd32_reply E sl addr 4)]"
  by (simp add: run_ops_def sl_rd32_ops)

lemma run_ops_rd32_2:
  "\<exists>pre. run_ops sl (snd (sl_rd32 E (snd (sl_rd32 E sl a)) b)) pre \<and> list_all is_mem_read pre"
  using run_ops_trans [OF run_ops_rd32 [of sl E a] run_ops_rd32 [of "snd (sl_rd32 E sl a)" E b]]
  by (intro exI conjI, assumption) simp

subsection \<open>Replies of the simulated probe\<close>

lemma rd32_reply_sim:
  "rd32_reply (host be T) sl addr 4 = map (\<lambda>k. t_mem T (addr + of_nat k)) [0..<4]"
  by (simp add: rd32_reply_def host_def sim_probe_def rd32_cmd_buf_def cmd_word_def
      write_uint32_le write_uint16_le)

lemma reply_word_le4:
  "reply_word False [b0, b1, b2, b3] = le_value32 b0 b1 b2 b3"
  by (simp add: reply_word_def obj_load32_def store_bytes_def)

section \<open>The erase poll\<close>

lemma erase_wait_run:
  "i < 1000 \<Longrightarrow>
   \<exists>rs. rs \<noteq> [] \<and> i + length rs \<le> 1000
     \<and> erase_wait E sr bsy sl i =
          (reply_word (is_bigendian E) (last rs), i + length rs,
           snd (snd (erase_wait E sr bsy sl i)))
     \<and> extends sl (snd (snd (erase_wait E sr bsy sl i)))
     \<and> ops_since sl (snd (snd (erase_wait E sr bsy sl i))) = map (Read32 sr) rs
     \<and> list_all (\<lambda>r. reply_word (is_bigendian E) r AND bsy \<noteq> 0) (butlast rs)
     \<and> (reply_word (is_bigendian E) (last rs) AND bsy = 0 \<or> i + length rs = 1000)
     \<and> verbose (snd (snd (erase_wait E sr bsy sl i))) = verbose sl
     \<and> chip_index (snd (snd (erase_wait E sr bsy sl i))) = chip_index sl"
proof (induction E sr bsy sl i rule: erase_wait.induct)
  case (1 E sr bsy sl i)
  let ?r0 = "rd32_reply E sl sr 4"
  let ?st = "reply_word (is_bigendian E) ?r0"
  let ?sl1 = "snd (stl_rd32_cmd E sl sr 4)"
  have rd: "sl_rd32 E sl sr = (?st, ?sl1)" by (rule sl_rd32_eq)
  have sl1: "?sl1 = snd (sl_rd32 E sl sr)" by (simp add: rd)
  have ext1: "extends sl ?sl1" and ops1: "ops_since sl ?sl1 = [Read32 sr ?r0]"
    using sl_rd32_ops [of sl E sr] by (simp_all add: rd)
  have fr: "verbose ?sl1 = verbose sl" "chip_index ?sl1 = chip_index sl"
    unfolding sl1 by simp_all
  show ?case
  proof (cases "?st AND bsy \<noteq> 0 \<and> i + 1 < 1000")
    case True
    then have unf: "erase_wait E sr bsy sl i = erase_wait E sr bsy ?sl1 (i + 1)"
      by (subst erase_wait.simps) (simp add: rd)
    from True have "i + 1 < 1000" by simp
    from "1.IH" [OF rd [symmetric] True this]
    obtain rs where rs: "rs \<noteq> []" "i + 1 + length rs \<le> 1000"
      "erase_wait E sr bsy ?sl1 (i + 1) =
          (reply_word (is_bigendian E) (last rs), i + 1 + length rs,
           snd (snd (erase_wait E sr bsy ?sl1 (i + 1))))"
      "extends ?sl1 (snd (snd (erase_wait E sr bsy ?sl1 (i + 1))))"
      "ops_since ?sl1 (snd (snd (erase_wait E sr bsy ?sl1 (i + 1)))) = map (Read32 sr) rs"
      "list_all (\<lambda>r. reply_word (is_bigendian E) r AND bsy \<noteq> 0) (butlast rs)"
      "reply_word (is_bigendian E) (last rs) AND bsy = 0 \<or> i + 1 + length rs = 1000"
      "verbose (snd (snd (erase_wait E sr bsy ?sl1 (i + 1)))) = verbose ?sl1"
      "chip_index (snd (snd (erase_wait E sr bsy ?sl1 (i + 1)))) = chip_index ?sl1"
      by blast
    show ?thesis
    proof (intro exI [of _ "?r0 # rs"] conjI)
      show "?r0 # rs \<noteq> []" by simp
      show "i + length (?r0 # rs) \<le> 1000" using rs(2) by simp
      show "erase_wait E sr bsy sl i =
          (reply_word (is_bigendian E) (last (?r0 # rs)), i + length (?r0 # rs),
           snd (snd (erase_wait E sr bsy sl i)))"
        unfolding unf using rs(1) rs(3) by simp
      show "extends sl (snd (snd (erase_wait E sr bsy sl i)))"
        unfolding unf using extends_trans [OF ext1 rs(4)] .
      show "ops_since sl (snd (snd (erase_wait E sr bsy sl i))) = map (Read32 sr) (?r0 # rs)"
        unfolding unf using ops_since_trans [OF ext1 rs(4)] ops1 rs(5) by simp
      show "list_all (\<lambda>r. reply_word (is_bigendian E) r AND bsy \<noteq> 0) (butlast (?r0 # rs))"
        using rs(1) rs(6) True by simp
      show "reply_word (is_bigendian E) (last (?r0 # rs)) AND bsy = 0 \<or>
            i + length (?r0 # rs) = 1000"
        using rs(1) rs(7) by simp
      show "verbose (snd (snd (erase_wait E sr bsy sl i))) = verbose sl"
        unfolding unf using rs(8) fr by simp
      show "chip_index (snd (snd (erase_wait E sr bsy sl i))) = chip_index sl"
        unfolding unf using rs(9) fr by simp
    qed
  next
    case False
    then have unf: "erase_wait E sr bsy sl i = (?st, i + 1, ?sl1)"
      by (subst erase_wait.simps) (auto simp add: rd)
    from False "1.prems" have stop: "?st AND bsy = 0 \<or> i + 1 = 1000" by auto
    show ?thesis
      by (rule exI [of _ "[?r0]"]) (use unf ext1 ops1 fr stop "1.prems" in simp)
  qed
qed

lemma erase_wait_done:
  "reply_word (is_bigendian E) (rd32_reply E sl sr 4) AND bsy = 0 \<Longrightarrow>
   erase_wait E sr bsy sl i =
     (reply_word (is_bigendian E) (rd32_reply E sl sr 4), i + 1, snd (stl_rd32_cmd E sl sr 4))"
  by (subst erase_wait.simps) (simp add: sl_rd32_eq)

lemma filter_writes_of_reads:
  "list_all is_mem_read xs \<Longrightarrow> filter is_mem_write xs = []"
proof (induction xs)
  case Nil
  show ?case by simp
next
  case (Cons x xs)
  then show ?case by (cases x) simp_all
qed

lemma sim_sr_reply:
  "map (\<lambda>k. t_mem (target_of st cid (\<lambda>a. v)) (0x4002200C + of_nat k)) [0..<4] = word_bytes v"
  by (simp add: target_of_def word_mem_def upt_4 word_bytes_def)

section \<open>F1 page erase\<close>

text \<open>
  C6. An F1 erase at an address other than the sentinel 0xA11 makes exactly these writes to
  the target, in this order: \<^verbatim>\<open>FLASH_KEY1\<close> then \<^verbatim>\<open>FLASH_KEY2\<close> to \<^verbatim>\<open>FLASH_KEYR\<close>,
  \<^verbatim>\<open>EOP | WRPRTERR | PGERR\<close> to \<^verbatim>\<open>FLASH_SR\<close>, the page address to \<^verbatim>\<open>FLASH_AR\<close>,
  \<^verbatim>\<open>PER\<close> to \<^verbatim>\<open>FLASH_CR\<close>, \<^verbatim>\<open>STRT | PER\<close> to \<^verbatim>\<open>FLASH_CR\<close>. Between the third and
  the fourth write there are only reads, and none unless \<^verbatim>\<open>verbose > 1\<close>. Then it reads
  \<^verbatim>\<open>FLASH_SR\<close> between 1 and 1000 times (the replies \<open>rs\<close>): every reply but the last had
  \<^verbatim>\<open>BSY\<close> set, and the last has it clear unless there were 1000 reads. The result is 0
  exactly when \<^verbatim>\<open>EOP\<close> is set in the last status read, and 1 otherwise; after the poll
  there is at most a read, and none when the result is 0.
\<close>

theorem f1_page_erase_sequence:
  assumes "addr_page \<noteq> 0xa11"
  shows "\<exists>pre rs post.
     run_ops sl (snd (stl_f1_flash_erase E sl addr_page))
       ([Write32 FLASH_KEYR (word_bytes FLASH_KEY1),
         Write32 FLASH_KEYR (word_bytes FLASH_KEY2),
         Write32 FLASH_SR (word_bytes (FLASH_SR_EOP OR FLASH_SR_WRPRTERR OR FLASH_SR_PGERR))]
        @ pre @
        [Write32 FLASH_AR (word_bytes addr_page),
         Write32 FLASH_CR (word_bytes FLASH_CR_PER),
         Write32 FLASH_CR (word_bytes (FLASH_CR_STRT OR FLASH_CR_PER))]
        @ map (Read32 FLASH_SR) rs @ post)
     \<and> list_all is_mem_read pre \<and> (verbose sl \<le> 1 \<longrightarrow> pre = [])
     \<and> rs \<noteq> [] \<and> length rs \<le> 1000
     \<and> list_all (\<lambda>r. reply_word (is_bigendian E) r AND FLASH_SR_BSY \<noteq> 0) (butlast rs)
     \<and> (reply_word (is_bigendian E) (last rs) AND FLASH_SR_BSY = 0 \<or> length rs = 1000)
     \<and> fst (stl_f1_flash_erase E sl addr_page) =
         (if reply_word (is_bigendian E) (last rs) AND FLASH_SR_EOP = 0 then 1 else 0)
     \<and> list_all is_mem_read post
     \<and> (fst (stl_f1_flash_erase E sl addr_page) = 0 \<longrightarrow> post = [])"
proof -
  let ?sl1 = "sl_wr32 E sl FLASH_KEYR FLASH_KEY1"
  let ?sl2 = "sl_wr32 E ?sl1 FLASH_KEYR FLASH_KEY2"
  let ?sl3 = "sl_wr32 E ?sl2 FLASH_SR (FLASH_SR_EOP OR FLASH_SR_WRPRTERR OR FLASH_SR_PGERR)"
  let ?sl4 = "if 1 < verbose ?sl3 then snd (sl_rd32 E (snd (sl_rd32 E ?sl3 FLASH_SR)) FLASH_CR)
              else ?sl3"
  let ?sl5a = "sl_wr32 E ?sl4 FLASH_AR addr_page"
  let ?sl5b = "sl_wr32 E ?sl5a FLASH_CR FLASH_CR_PER"
  let ?sl5 = "sl_wr32 E ?sl5b FLASH_CR (FLASH_CR_STRT OR FLASH_CR_PER)"
  let ?w = "erase_wait E FLASH_SR FLASH_SR_BSY ?sl5 0"
  let ?sl6 = "snd (snd ?w)"
  let ?W123 = "[Write32 FLASH_KEYR (word_bytes FLASH_KEY1),
        Write32 FLASH_KEYR (word_bytes FLASH_KEY2),
        Write32 FLASH_SR (word_bytes (FLASH_SR_EOP OR FLASH_SR_WRPRTERR OR FLASH_SR_PGERR))]"
  let ?W456 = "[Write32 FLASH_AR (word_bytes addr_page),
        Write32 FLASH_CR (word_bytes FLASH_CR_PER),
        Write32 FLASH_CR (word_bytes (FLASH_CR_STRT OR FLASH_CR_PER))]"
  have v3: "verbose ?sl3 = verbose sl"
    by simp
  have r123: "run_ops sl ?sl3 ?W123"
    by (rule run_ops_wr32 | rule run_ops_Cons)+
  obtain pre where pre: "run_ops ?sl3 ?sl4 pre" "list_all is_mem_read pre"
      "verbose sl \<le> 1 \<longrightarrow> pre = []"
  proof (cases "1 < verbose sl")
    case True
    from run_ops_rd32_2 [of ?sl3 E FLASH_SR FLASH_CR] obtain p where
      "run_ops ?sl3 (snd (sl_rd32 E (snd (sl_rd32 E ?sl3 FLASH_SR)) FLASH_CR)) p"
      "list_all is_mem_read p"
      by blast
    with True show ?thesis by (intro that [of p]) simp_all
  next
    case False
    then show ?thesis by (intro that [of "[]"]) simp_all
  qed
  have r456: "run_ops ?sl4 ?sl5 ?W456"
    by (rule run_ops_wr32 | rule run_ops_Cons)+
  from erase_wait_run [of 0 E FLASH_SR FLASH_SR_BSY ?sl5]
  obtain rs where rs: "rs \<noteq> []" "length rs \<le> 1000"
      "?w = (reply_word (is_bigendian E) (last rs), length rs, ?sl6)"
      "run_ops ?sl5 ?sl6 (map (Read32 FLASH_SR) rs)"
      "list_all (\<lambda>r. reply_word (is_bigendian E) r AND FLASH_SR_BSY \<noteq> 0) (butlast rs)"
      "reply_word (is_bigendian E) (last rs) AND FLASH_SR_BSY = 0 \<or> length rs = 1000"
    unfolding run_ops_def by auto
  let ?st = "reply_word (is_bigendian E) (last rs)"
  have unf: "stl_f1_flash_erase E sl addr_page =
      (if ?st AND FLASH_SR_EOP = 0 then (1, snd (sl_rd32 E ?sl6 FLASH_SR)) else (0, ?sl6))"
  proof -
    have "stl_f1_flash_erase E sl addr_page =
        (case ?w of (status, i, sl6) \<Rightarrow>
           if status AND FLASH_SR_EOP = 0 then (1, snd (sl_rd32 E sl6 FLASH_SR)) else (0, sl6))"
      unfolding stl_f1_flash_erase_def Let_def by (simp only: assms if_False)
    also have "\<dots> = (if ?st AND FLASH_SR_EOP = 0 then (1, snd (sl_rd32 E ?sl6 FLASH_SR))
                        else (0, ?sl6))"
      by (subst rs(3)) (simp only: prod.case)
    finally show ?thesis .
  qed
  have all: "run_ops sl ?sl6 (?W123 @ pre @ ?W456 @ map (Read32 FLASH_SR) rs)"
    by (rule run_ops_trans [OF r123], rule run_ops_trans [OF pre(1)],
        rule run_ops_trans [OF r456], rule rs(4))
  show ?thesis
  proof (cases "?st AND FLASH_SR_EOP = 0")
    case True
    let ?post = "[Read32 FLASH_SR (rd32_reply E ?sl6 FLASH_SR 4)]"
    have fin: "stl_f1_flash_erase E sl addr_page = (1, snd (sl_rd32 E ?sl6 FLASH_SR))"
      unfolding unf using True by simp
    have "run_ops sl (snd (stl_f1_flash_erase E sl addr_page))
            (?W123 @ pre @ ?W456 @ map (Read32 FLASH_SR) rs @ ?post)"
      unfolding fin snd_conv
      using run_ops_trans [OF all run_ops_rd32 [of ?sl6 E FLASH_SR]]
      by (simp only: append_assoc)
    moreover have "fst (stl_f1_flash_erase E sl addr_page) =
         (if ?st AND FLASH_SR_EOP = 0 then 1 else 0)"
      unfolding fin using True by simp
    moreover have "list_all is_mem_read ?post" by simp
    moreover have "fst (stl_f1_flash_erase E sl addr_page) = 0 \<longrightarrow> ?post = []"
      unfolding fin by simp
    ultimately show ?thesis
      using pre(2,3) rs(1,2,5,6) by blast
  next
    case False
    have fin: "stl_f1_flash_erase E sl addr_page = (0, ?sl6)"
      unfolding unf using False by simp
    have "run_ops sl (snd (stl_f1_flash_erase E sl addr_page))
            (?W123 @ pre @ ?W456 @ map (Read32 FLASH_SR) rs @ [])"
      unfolding fin snd_conv using all by (simp only: append_Nil2)
    moreover have "fst (stl_f1_flash_erase E sl addr_page) =
         (if ?st AND FLASH_SR_EOP = 0 then 1 else 0)"
      unfolding fin using False by simp
    moreover have "list_all is_mem_read []" by simp
    ultimately show ?thesis
      using pre(2,3) rs(1,2,5,6) by blast
  qed
qed


theorem f1_page_erase_sequence_witness:
  "(0x08000400::u32) \<noteq> 0xa11
   \<and> fst (stl_f1_flash_erase (host False (target_of 0x81 0x1ba01477 (\<lambda>a. 0x20)))
             (stl_init 0) 0x08000400) = 0
   \<and> filter is_mem_write
        (ops_since (stl_init 0)
           (snd (stl_f1_flash_erase (host False (target_of 0x81 0x1ba01477 (\<lambda>a. 0x20)))
                   (stl_init 0) 0x08000400)))
      = [Write32 0x40022004 [0x23, 0x01, 0x67, 0x45],
         Write32 0x40022004 [0xAB, 0x89, 0xEF, 0xCD],
         Write32 0x4002200C [0x34, 0, 0, 0],
         Write32 0x40022014 [0x00, 0x04, 0x00, 0x08],
         Write32 0x40022010 [0x02, 0, 0, 0],
         Write32 0x40022010 [0x42, 0, 0, 0]]"
proof -
  let ?E = "host False (target_of 0x81 0x1ba01477 (\<lambda>a. 0x20))"
  have h: "(0x08000400::u32) \<noteq> 0xa11" by simp
  from f1_page_erase_sequence [OF h, of "stl_init 0" ?E]
  obtain pre rs post where
    run: "run_ops (stl_init 0) (snd (stl_f1_flash_erase ?E (stl_init 0) 0x08000400))
       ([Write32 FLASH_KEYR (word_bytes FLASH_KEY1),
         Write32 FLASH_KEYR (word_bytes FLASH_KEY2),
         Write32 FLASH_SR (word_bytes (FLASH_SR_EOP OR FLASH_SR_WRPRTERR OR FLASH_SR_PGERR))]
        @ pre @
        [Write32 FLASH_AR (word_bytes 0x08000400),
         Write32 FLASH_CR (word_bytes FLASH_CR_PER),
         Write32 FLASH_CR (word_bytes (FLASH_CR_STRT OR FLASH_CR_PER))]
        @ map (Read32 FLASH_SR) rs @ post)"
    and pre: "list_all is_mem_read pre" and post: "list_all is_mem_read post"
    by blast
  have ret: "fst (stl_f1_flash_erase ?E (stl_init 0) 0x08000400) = 0"
    by (simp add: stl_f1_flash_erase_def Let_def erase_wait_done rd32_reply_sim
        sim_sr_reply word_bytes_def reply_word_le4 byte_of_def le_value32_def)
  have rd: "filter is_mem_write (map (Read32 FLASH_SR) rs) = []"
    by (induction rs) simp_all
  have "filter is_mem_write
        (ops_since (stl_init 0) (snd (stl_f1_flash_erase ?E (stl_init 0) 0x08000400)))
      = [Write32 FLASH_KEYR (word_bytes FLASH_KEY1),
         Write32 FLASH_KEYR (word_bytes FLASH_KEY2),
         Write32 FLASH_SR (word_bytes (FLASH_SR_EOP OR FLASH_SR_WRPRTERR OR FLASH_SR_PGERR)),
         Write32 FLASH_AR (word_bytes 0x08000400),
         Write32 FLASH_CR (word_bytes FLASH_CR_PER),
         Write32 FLASH_CR (word_bytes (FLASH_CR_STRT OR FLASH_CR_PER))]"
    using run filter_writes_of_reads [OF pre] filter_writes_of_reads [OF post] rd
    by (simp add: run_ops_def)
  then show ?thesis
    using h ret by (simp add: word_bytes_def byte_of_def)
qed

section \<open>Transfers of the loader\<close>

lemma stlink_cmd_frame [simp]:
  "verbose (snd (stlink_cmd E sl c1 c2 n)) = verbose sl"
  "chip_index (snd (stlink_cmd E sl c1 c2 n)) = chip_index sl"
  "cpu_idcode (snd (stlink_cmd E sl c1 c2 n)) = cpu_idcode sl"
  by (simp_all add: stlink_cmd_def stl_do_cmd_def Let_def)

lemma stl_wr32_cmd_frame [simp]:
  "verbose (snd (stl_wr32_cmd E sl addr len)) = verbose sl"
  "chip_index (snd (stl_wr32_cmd E sl addr len)) = chip_index sl"
  "cpu_idcode (snd (stl_wr32_cmd E sl addr len)) = cpu_idcode sl"
  by (simp_all add: stl_wr32_cmd_def stl_do_cmd_def Let_def)

lemma stl_write_reg_frame [simp]:
  "verbose (stl_write_reg E sl v r) = verbose sl"
  "chip_index (stl_write_reg E sl v r) = chip_index sl"
  "cpu_idcode (stl_write_reg E sl v r) = cpu_idcode sl"
  by (simp_all add: stl_write_reg_def)

lemma stl_loader_image_frame [simp]:
  "verbose (stl_loader_image E sl a buf sz) = verbose sl"
  "chip_index (stl_loader_image E sl a buf sz) = chip_index sl"
  "cpu_idcode (stl_loader_image E sl a buf sz) = cpu_idcode sl"
  "wire (stl_loader_image E sl a buf sz) = wire sl"
  by (simp_all add: stl_loader_image_def Let_def)

lemma run_ops_status:
  "run_ops sl (snd (stl_get_status E sl))
     [GetStatus (take 2 (probe E (wire sl)
        (bytes_at ((cmd_buf sl)(0 := STLinkDebugCommand, 1 := STLinkDebugGetStatus, 2 := 0)) 0 10) 2))]"
  by (simp add: stl_get_status_def stlink_cmd_eq Let_def run_ops_def extends_def ops_since_def
      decode_def)

lemma run_ops_run:
  "run_ops sl (snd (stl_state_run E sl)) [RunCore]"
  by (simp add: stl_state_run_def stlink_cmd_eq Let_def run_ops_def extends_def ops_since_def
      decode_def)

lemma run_ops_write_reg:
  "run_ops sl (stl_write_reg E sl v r) [WriteReg r v]"
  by (simp add: stl_write_reg_def stlink_cmd_eq Let_def run_ops_def extends_def ops_since_def
      decode_def cmd_word_def write_uint32_le)

lemma u16_and3: "((w::u16) AND 3 = 0) = (unat w mod 4 = 0)"
proof -
  have m: "(3::u16) = mask 2" by (simp add: mask_eq_exp_minus_1)
  have "(w AND 3 = 0) = (2 ^ 2 dvd unat w)"
    unfolding m by (simp only: and_mask_dvd_nat)
  also have "\<dots> = (unat w mod 4 = 0)"
    by (simp add: dvd_eq_mod_eq_0)
  finally show ?thesis .
qed

lemma unat_len16: "0 \<le> n \<Longrightarrow> n < 65536 \<Longrightarrow> unat (word_of_int n :: u16) = nat n"
  by (simp add: unat_eq_nat_uint uint_word_of_int take_bit_int_eq_self flip: take_bit_eq_mod)

lemma run_ops_wr32_cmd:
  "run_ops sl (snd (stl_wr32_cmd E sl addr len))
     (if unat len mod 4 = 0 then [Write32 addr (bytes_at (data_buf sl) 0 (unat len))]
      else if unat len < 64 then [Write8 addr (bytes_at (data_buf sl) 0 (unat len))]
      else [])"
  by (simp add: stl_wr32_cmd_def stl_do_cmd_def Let_def run_ops_def extends_def ops_since_def
      decode_def cmd_word_def write_uint32_le write_uint16_le u16_and3 word_less_nat_alt)

lemma stl_wr32_cmd_fst:
  "fst (stl_wr32_cmd E sl addr len) = (if unat len mod 4 = 0 \<or> unat len < 64 then 0 else - 1)"
  by (simp add: stl_wr32_cmd_def Let_def u16_and3 word_less_nat_alt)

lemma prog_base [simp]: "sram_base (stm_devids ! 0) = 0x20000000"
  by (simp add: stm_devids_def mk_chip_def)

lemma stl_loader_run:
  assumes "0 \<le> sz" "sz \<le> 6088"
  shows "\<exists>sl'. stl_loader E sl fa buf sz = Inr sl'
     \<and> run_ops sl sl'
         ((if (60 + nat sz) mod 4 = 0 then
             [Write32 0x20000000 (bytes_at (data_buf (stl_loader_image E sl fa buf sz)) 0 (60 + nat sz))]
           else if 60 + nat sz < 64 then
             [Write8 0x20000000 (bytes_at (data_buf (stl_loader_image E sl fa buf sz)) 0 (60 + nat sz))]
           else [])
          @ [WriteReg 15 0x20000000, RunCore])
     \<and> verbose sl' = verbose sl \<and> chip_index sl' = chip_index sl"
proof -
  let ?sl1 = "stl_loader_image E sl fa buf sz"
  let ?len = "word_of_int (60 + sz) :: u16"
  let ?sl2 = "snd (stl_wr32_cmd E ?sl1 0x20000000 ?len)"
  let ?sl3 = "stl_write_reg E ?sl2 0x20000000 15"
  let ?sl4 = "snd (stl_state_run E ?sl3)"
  have len: "unat ?len = 60 + nat sz"
  proof -
    have "unat ?len = nat (60 + sz)"
      by (rule unat_len16) (use assms in simp_all)
    also have "\<dots> = 60 + nat sz"
      using assms by simp
    finally show ?thesis .
  qed
  have eq: "stl_loader E sl fa buf sz = Inr ?sl4"
    using assms by (simp add: stl_loader_def Let_def)
  have r1: "run_ops sl ?sl1 []"
    by (simp add: run_ops_def extends_def ops_since_def)
  have r2: "run_ops ?sl1 ?sl2
     (if (60 + nat sz) mod 4 = 0 then [Write32 0x20000000 (bytes_at (data_buf ?sl1) 0 (60 + nat sz))]
      else if 60 + nat sz < 64 then [Write8 0x20000000 (bytes_at (data_buf ?sl1) 0 (60 + nat sz))]
      else [])"
    using run_ops_wr32_cmd [of ?sl1 E "0x20000000" ?len] unfolding len .
  have r3: "run_ops ?sl2 ?sl3 [WriteReg 15 0x20000000]"
    by (rule run_ops_write_reg)
  have r4: "run_ops ?sl3 ?sl4 [RunCore]"
    by (rule run_ops_run)
  have "run_ops sl ?sl4
         ([] @ (if (60 + nat sz) mod 4 = 0 then
             [Write32 0x20000000 (bytes_at (data_buf ?sl1) 0 (60 + nat sz))]
           else if 60 + nat sz < 64 then
             [Write8 0x20000000 (bytes_at (data_buf ?sl1) 0 (60 + nat sz))]
           else [])
          @ [WriteReg 15 0x20000000] @ [RunCore])"
    by (rule run_ops_trans [OF r1], rule run_ops_trans [OF r2], rule run_ops_trans [OF r3], rule r4)
  then have "run_ops sl ?sl4
         ((if (60 + nat sz) mod 4 = 0 then
             [Write32 0x20000000 (bytes_at (data_buf ?sl1) 0 (60 + nat sz))]
           else if 60 + nat sz < 64 then
             [Write8 0x20000000 (bytes_at (data_buf ?sl1) 0 (60 + nat sz))]
           else [])
          @ [WriteReg 15 0x20000000, RunCore])"
    by simp
  moreover have "verbose ?sl4 = verbose sl" "chip_index ?sl4 = chip_index sl"
    by (simp_all add: stl_state_run_def)
  ultimately show ?thesis
    unfolding eq by blast
qed

lemma bytes_at_eqI:
  "(\<And>k. k < n \<Longrightarrow> a (i + k) = b (j + k)) \<Longrightarrow> bytes_at a i n = bytes_at b j n"
  by (simp add: bytes_at_def)

text \<open>
  The image and its upload. For every chunk size \<open>sz\<close> from 0 to 6088 (the image fits
  \<^verbatim>\<open>data_buf\<close>), the image that \<^verbatim>\<open>stl_loader\<close> builds has: in bytes
  \<open>[0, prog_len - 16)\<close> the bytes of the selected loader array; in the four words at
  \<open>[prog_len - 16, prog_len)\<close>, which replace the array's placeholder words, the
  flash-controller base, the source address, the destination flash address and the
  half-word count \<^verbatim>\<open>size >> 1\<close>; the source address is the SRAM base plus \<open>prog_len\<close>;
  the payload follows from byte \<open>prog_len\<close> on. When \<open>sz\<close> is a multiple of 4, the
  transfers of \<^verbatim>\<open>stl_loader\<close> are one 32-bit memory write of the first
  \<open>prog_len + sz\<close> bytes of the image to the SRAM base, the write of register 15 and the
  run command.
\<close>

theorem loader_image_layout:
  assumes "0 \<le> sz" "sz \<le> 6088"
  shows "let img = data_buf (stl_loader_image E sl flash_addr buf sz);
             be = is_bigendian E;
             chip = stm_devids ! chip_index sl;
             prog_len = sizeof_code (loader_code_of chip)
         in bytes_at img 0 (prog_len - 16) = bytes_at (code_bytes be (loader_code_of chip)) 0 (prog_len - 16)
          \<and> obj_load32 be img (prog_len - 16) = loader_flash_ctrl_base chip flash_addr
          \<and> obj_load32 be img (prog_len - 12) = sram_base (stm_devids ! 0) + of_nat prog_len
          \<and> obj_load32 be img (prog_len - 8) = flash_addr
          \<and> obj_load32 be img (prog_len - 4) = word_of_int (sz div 2)
          \<and> bytes_at img prog_len (nat sz) = bytes_at buf 0 (nat sz)
          \<and> (sz mod 4 = 0 \<longrightarrow>
               (\<exists>sl'. stl_loader E sl flash_addr buf sz = Inr sl'
                  \<and> run_ops sl sl'
                       [Write32 (sram_base (stm_devids ! 0)) (bytes_at img 0 (prog_len + nat sz)),
                        WriteReg 15 (sram_base (stm_devids ! 0)), RunCore]))"
proof -
  let ?img = "data_buf (stl_loader_image E sl flash_addr buf sz)"
  let ?be = "is_bigendian E"
  let ?chip = "stm_devids ! chip_index sl"
  have c1: "bytes_at ?img 0 44 = bytes_at (code_bytes ?be (loader_code_of ?chip)) 0 44"
    by (rule bytes_at_eqI)
       (simp add: stl_loader_image_def Let_def memcpy_def obj_store32_def)
  have c2: "obj_load32 ?be ?img 44 = loader_flash_ctrl_base ?chip flash_addr"
    and c3: "obj_load32 ?be ?img 48 = 0x20000000 + 60"
    and c4: "obj_load32 ?be ?img 52 = flash_addr"
    and c5: "obj_load32 ?be ?img 56 = word_of_int (sz div 2)"
    by (simp_all add: stl_loader_image_def Let_def obj_load32_memcpy_above
        obj_load32_store32_other obj_load32_store32)
  have c6: "bytes_at ?img 60 (nat sz) = bytes_at buf 0 (nat sz)"
    by (rule bytes_at_eqI) (simp add: stl_loader_image_def Let_def memcpy_def)
  have c7: "\<exists>sl'. stl_loader E sl flash_addr buf sz = Inr sl'
                  \<and> run_ops sl sl'
                       [Write32 0x20000000 (bytes_at ?img 0 (60 + nat sz)),
                        WriteReg 15 0x20000000, RunCore]" if "sz mod 4 = 0"
  proof -
    from that assms have "(60 + nat sz) mod 4 = 0" by presburger
    with stl_loader_run [OF assms, of E sl flash_addr buf] show ?thesis
      by auto
  qed
  show ?thesis
    using c1 c2 c3 c4 c5 c6 c7 by (simp add: Let_def)
qed

theorem loader_image_layout_witness:
  "(0::int) \<le> 4 \<and> (4::int) \<le> 6088 \<and> (4::int) mod 4 = 0
   \<and> obj_load32 False
        (data_buf (stl_loader_image (host False (target_of 0x81 0x1ba01477 (\<lambda>a. 0)))
           (stl_init 0) 0x08000000 ((\<lambda>i. 0)(0 := 0xDE, 1 := 0xAD, 2 := 0xBE, 3 := 0xEF)) 4)) 44
      = 0x40022000
   \<and> obj_load32 False
        (data_buf (stl_loader_image (host False (target_of 0x81 0x1ba01477 (\<lambda>a. 0)))
           (stl_init 0) 0x08000000 ((\<lambda>i. 0)(0 := 0xDE, 1 := 0xAD, 2 := 0xBE, 3 := 0xEF)) 4)) 48
      = 0x2000003C
   \<and> obj_load32 False
        (data_buf (stl_loader_image (host False (target_of 0x81 0x1ba01477 (\<lambda>a. 0)))
           (stl_init 0) 0x08000000 ((\<lambda>i. 0)(0 := 0xDE, 1 := 0xAD, 2 := 0xBE, 3 := 0xEF)) 4)) 52
      = 0x08000000
   \<and> obj_load32 False
        (data_buf (stl_loader_image (host False (target_of 0x81 0x1ba01477 (\<lambda>a. 0)))
           (stl_init 0) 0x08000000 ((\<lambda>i. 0)(0 := 0xDE, 1 := 0xAD, 2 := 0xBE, 3 := 0xEF)) 4)) 56
      = 2
   \<and> bytes_at
        (data_buf (stl_loader_image (host False (target_of 0x81 0x1ba01477 (\<lambda>a. 0)))
           (stl_init 0) 0x08000000 ((\<lambda>i. 0)(0 := 0xDE, 1 := 0xAD, 2 := 0xBE, 3 := 0xEF)) 4)) 60 4
      = [0xDE, 0xAD, 0xBE, 0xEF]
   \<and> (\<exists>sl'. stl_loader (host False (target_of 0x81 0x1ba01477 (\<lambda>a. 0)))
                (stl_init 0) 0x08000000 ((\<lambda>i. 0)(0 := 0xDE, 1 := 0xAD, 2 := 0xBE, 3 := 0xEF)) 4
              = Inr sl'
         \<and> run_ops (stl_init 0) sl'
              [Write32 0x20000000
                 (bytes_at (data_buf (stl_loader_image
                    (host False (target_of 0x81 0x1ba01477 (\<lambda>a. 0)))
                    (stl_init 0) 0x08000000
                    ((\<lambda>i. 0)(0 := 0xDE, 1 := 0xAD, 2 := 0xBE, 3 := 0xEF)) 4)) 0 64),
               WriteReg 15 0x20000000, RunCore])"
proof -
  have chip0: "cap_flags (stm_devids ! chip_index (stl_init 0)) = 0"
    "flash_size (stm_devids ! chip_index (stl_init 0)) = 128 * 1024"
    by (simp_all add: stm_devids_def mk_chip_def stl_init_def)
  show ?thesis
    using loader_image_layout
      [of 4 "host False (target_of 0x81 0x1ba01477 (\<lambda>a. 0))" "stl_init 0" "0x08000000"
          "(\<lambda>i. 0)(0 := 0xDE, 1 := 0xAD, 2 := 0xBE, 3 := 0xEF)"]
    by (simp add: Let_def loader_flash_ctrl_base_def chip0 bytes_at_def upt_4)
qed

section \<open>The halt poll and the chunk loop\<close>

lemma poll_op_loader: "list_all poll_op xs \<Longrightarrow> list_all loader_op xs"
proof (induction xs)
  case Nil
  show ?case by simp
next
  case (Cons x xs)
  then show ?case by (cases x) simp_all
qed

lemma poll_op_no_run: "list_all poll_op xs \<Longrightarrow> filter is_run xs = []"
proof (induction xs)
  case Nil
  show ?case by simp
next
  case (Cons x xs)
  then show ?case by (cases x) simp_all
qed

lemma stl_get_status_frame [simp]:
  "verbose (snd (stl_get_status E sl)) = verbose sl"
  "chip_index (snd (stl_get_status E sl)) = chip_index sl"
  by (simp_all add: stl_get_status_def)

lemma flash_poll_run:
  "\<exists>ops. run_ops sl (snd (flash_poll E sl k)) ops \<and> list_all poll_op ops
     \<and> verbose (snd (flash_poll E sl k)) = verbose sl
     \<and> chip_index (snd (flash_poll E sl k)) = chip_index sl"
proof (induction E sl k rule: flash_poll.induct)
  case (1 E sl failcount)
  obtain st sl1 where g: "stl_get_status E sl = (st, sl1)"
    by (cases "stl_get_status E sl")
  then have sl1: "sl1 = snd (stl_get_status E sl)" by simp
  obtain r where r1: "run_ops sl sl1 [GetStatus r]"
    unfolding sl1 using run_ops_status by blast
  have fr1: "verbose sl1 = verbose sl" "chip_index sl1 = chip_index sl"
    unfolding sl1 by simp_all
  consider (halted) "st = STLINK_CORE_HALTED"
    | (giveup) "st \<noteq> STLINK_CORE_HALTED" "FLASH_POLL_LIMIT < failcount + 1"
    | (again) "st \<noteq> STLINK_CORE_HALTED" "\<not> FLASH_POLL_LIMIT < failcount + 1"
    by blast
  then show ?case
  proof cases
    case halted
    then have unf: "flash_poll E sl failcount = (True, sl1)"
      by (subst flash_poll.simps) (simp add: g)
    show ?thesis
      unfolding unf using r1 fr1 by (intro exI [of _ "[GetStatus r]"]) simp
  next
    case giveup
    let ?sl2 = "snd (sl_rd32 E sl1 FLASH_SR)"
    let ?sl3 = "snd (sl_rd32 E ?sl2 FLASH_CR)"
    let ?sl4 = "snd (stl_get_status E ?sl3)"
    from giveup have unf: "flash_poll E sl failcount =
        (False, if verbose sl1 \<noteq> 0 then ?sl4 else sl1)"
      by (subst flash_poll.simps) (simp add: g)
    show ?thesis
    proof (cases "verbose sl1 \<noteq> 0")
      case True
      obtain r' where r4: "run_ops ?sl3 ?sl4 [GetStatus r']"
        using run_ops_status by blast
      have "run_ops sl ?sl4 ([GetStatus r] @ [Read32 FLASH_SR (rd32_reply E sl1 FLASH_SR 4)]
          @ [Read32 FLASH_CR (rd32_reply E ?sl2 FLASH_CR 4)] @ [GetStatus r'])"
        by (rule run_ops_trans [OF r1], rule run_ops_trans [OF run_ops_rd32],
            rule run_ops_trans [OF run_ops_rd32], rule r4)
      then show ?thesis
        unfolding unf using True fr1
        by (intro exI [of _ "[GetStatus r] @ [Read32 FLASH_SR (rd32_reply E sl1 FLASH_SR 4)]
          @ [Read32 FLASH_CR (rd32_reply E ?sl2 FLASH_CR 4)] @ [GetStatus r']"]) simp
    next
      case False
      then show ?thesis
        unfolding unf using r1 fr1 by (intro exI [of _ "[GetStatus r]"]) simp
    qed
  next
    case again
    then have unf: "flash_poll E sl failcount = flash_poll E sl1 (failcount + 1)"
      by (subst flash_poll.simps) (simp add: g)
    from "1.IH" [OF g [symmetric] again] obtain ops where
      ih: "run_ops sl1 (snd (flash_poll E sl1 (failcount + 1))) ops" "list_all poll_op ops"
        "verbose (snd (flash_poll E sl1 (failcount + 1))) = verbose sl1"
        "chip_index (snd (flash_poll E sl1 (failcount + 1))) = chip_index sl1"
      by blast
    show ?thesis
      unfolding unf using run_ops_trans [OF r1 ih(1)] ih(2,3,4) fr1
      by (intro exI [of _ "[GetStatus r] @ ops"]) simp
  qed
qed

lemma flash_this_size_cases:
  "flash_this_size sz = (if 2048 < sz then 2048 else sz + sz mod 2)"
proof -
  have "sz mod 2 = 0 \<or> sz mod 2 = 1" by presburger
  then show ?thesis
    by (auto simp add: flash_this_size_def and_one_eq)
qed

lemma flash_chunks_small:
  assumes "sz \<le> 2048"
  shows "flash_chunks sz = [sz + sz mod 2]"
proof -
  have t: "flash_this_size sz = sz + sz mod 2"
    using assms by (simp add: flash_this_size_cases)
  have "\<not> 0 < sz - flash_this_size sz"
    unfolding t by presburger
  then show ?thesis
    by (subst flash_chunks.simps) (simp add: t)
qed

lemma flash_chunks_big: "2048 < sz \<Longrightarrow> flash_chunks sz = 2048 # flash_chunks (sz - 2048)"
  by (subst flash_chunks.simps) (simp add: flash_this_size_cases)

lemma flash_chunks_props:
  "0 < sz \<Longrightarrow>
     list_all (\<lambda>t. 0 < t \<and> t \<le> 2048 \<and> even t) (flash_chunks sz)
   \<and> sum_list (flash_chunks sz) = sz + sz mod 2
   \<and> length (flash_chunks sz) = nat ((sz + 2047) div 2048)
   \<and> list_all (\<lambda>t. t = 2048) (butlast (flash_chunks sz))
   \<and> flash_chunks sz \<noteq> []"
proof (induction sz rule: flash_chunks.induct)
  case (1 sz)
  show ?case
  proof (cases "2048 < sz")
    case True
    then have big: "flash_chunks sz = 2048 # flash_chunks (sz - 2048)"
      by (rule flash_chunks_big)
    from True have t: "flash_this_size sz = 2048"
      by (simp add: flash_this_size_cases)
    from True have pos: "0 < sz - flash_this_size sz" "0 < sz - 2048"
      unfolding t by simp_all
    note ih0 = "1.IH" [OF pos(1), unfolded t, OF pos(2)]
    from ih0 have ih1: "list_all (\<lambda>t. 0 < t \<and> t \<le> 2048 \<and> even t) (flash_chunks (sz - 2048))"
      and ih2: "sum_list (flash_chunks (sz - 2048)) = sz - 2048 + (sz - 2048) mod 2"
      and ih3: "length (flash_chunks (sz - 2048)) = nat ((sz - 2048 + 2047) div 2048)"
      and ih4: "list_all (\<lambda>t. t = 2048) (butlast (flash_chunks (sz - 2048)))"
      and ih5: "flash_chunks (sz - 2048) \<noteq> []"
      by blast+
    have m: "(sz - 2048) mod 2 = sz mod 2" by presburger
    have l: "Suc (nat ((sz - 2048 + 2047) div 2048)) = nat ((sz + 2047) div 2048)"
    proof -
      have a: "(sz - 2048 + 2047) div 2048 + 1 = (sz + 2047) div 2048"
        using div_add_self2 [of 2048 "sz - 2048 + 2047"] by simp
      have b: "0 \<le> (sz - 2048 + 2047) div 2048"
        using True by (simp add: pos_imp_zdiv_nonneg_iff)
      have "Suc (nat ((sz - 2048 + 2047) div 2048)) = nat ((sz - 2048 + 2047) div 2048 + 1)"
        using b by (simp add: Suc_nat_eq_nat_zadd1)
      then show ?thesis
        unfolding a .
    qed
    have c1: "list_all (\<lambda>t. 0 < t \<and> t \<le> 2048 \<and> even t) (flash_chunks sz)"
      unfolding big using ih1 by simp
    have c2: "sum_list (flash_chunks sz) = sz + sz mod 2"
      unfolding big using ih2 m by simp
    have c3: "length (flash_chunks sz) = nat ((sz + 2047) div 2048)"
      unfolding big using ih3 l by simp
    have c4: "list_all (\<lambda>t. t = 2048) (butlast (flash_chunks sz))"
      unfolding big using ih4 ih5 by simp
    have c5: "flash_chunks sz \<noteq> []"
      unfolding big by simp
    from c1 c2 c3 c4 c5 show ?thesis by blast
  next
    case False
    then have small: "flash_chunks sz = [sz + sz mod 2]"
      by (intro flash_chunks_small) simp
    have "(sz + 2047) div 2048 = 1"
      by (rule int_div_pos_eq [of _ _ _ "sz - 1"]) (use False "1.prems" in simp_all)
    moreover have "0 < sz + sz mod 2" "even (sz + sz mod 2)"
      using "1.prems" by presburger+
    moreover have "sz + sz mod 2 \<le> 2048"
    proof (cases "sz = 2048")
      case True
      then show ?thesis by simp
    next
      case ne: False
      have "sz mod 2 \<le> 1" by presburger
      with ne False show ?thesis by linarith
    qed
    ultimately have a: "(sz + 2047) div 2048 = 1" "0 < sz + sz mod 2" "sz + sz mod 2 \<le> 2048"
      "even (sz + sz mod 2)"
      by blast+
    show ?thesis
      unfolding small using a by simp
  qed
qed

lemma flash_chunks_examples:
  "flash_chunks 2048 = [2048]" "flash_chunks 2049 = [2048, 2]" "flash_chunks 1 = [2]"
  by (simp_all add: flash_chunks_big flash_chunks_small)

lemma loop_is_run_chunks:
  "flash_write_loop E sl fa buf off sz = run_chunks E sl fa buf off (flash_chunks sz)"
proof (induction E sl fa buf off sz rule: flash_write_loop.induct)
  case (1 E sl flash_addr buf offset sz)
  let ?t = "flash_this_size sz"
  show ?case
  proof (cases "stl_loader E sl (flash_addr + word_of_int offset) (\<lambda>i. buf (nat offset + i)) ?t")
    case (Inl f)
    then show ?thesis
      by (subst flash_write_loop.simps, subst flash_chunks.simps) simp
  next
    case (Inr sl1)
    obtain b sl2 where p: "flash_poll E sl1 0 = (b, sl2)"
      by (cases "flash_poll E sl1 0")
    show ?thesis
    proof (cases "b \<and> 0 < sz - ?t")
      case True
      with "1.IH" [OF Inr p [symmetric]]
      have "flash_write_loop E sl2 flash_addr buf (offset + ?t) (sz - ?t)
          = run_chunks E sl2 flash_addr buf (offset + ?t) (flash_chunks (sz - ?t))"
        by simp
      with True Inr p show ?thesis
        by (subst flash_write_loop.simps, subst flash_chunks.simps) simp
    next
      case False
      with Inr p show ?thesis
        by (subst flash_write_loop.simps, subst flash_chunks.simps) (cases b; simp)
    qed
  qed
qed

lemma stl_loader_Inr_range:
  "stl_loader E sl a b t = Inr sl1 \<Longrightarrow> 0 \<le> t \<and> t \<le> 6088"
  by (simp add: stl_loader_def Let_def split: if_splits)

lemma stl_loader_ops:
  assumes "stl_loader E sl a b t = Inr sl1"
  shows "\<exists>ops. run_ops sl sl1 ops \<and> list_all loader_op ops \<and> filter is_run ops = [RunCore]
     \<and> verbose sl1 = verbose sl \<and> chip_index sl1 = chip_index sl"
proof -
  from stl_loader_Inr_range [OF assms] have r: "0 \<le> t" "t \<le> 6088" by simp_all
  from stl_loader_run [OF r, of E sl a b] assms
  show ?thesis
    by (auto split: if_splits)
qed

lemma run_chunks_run:
  "run_chunks E sl fa buf off ts = Inr (ok, sl') \<Longrightarrow>
   \<exists>mid. run_ops sl sl' mid \<and> list_all loader_op mid
     \<and> (ok \<longrightarrow> length (filter is_run mid) = length ts)
     \<and> verbose sl' = verbose sl \<and> chip_index sl' = chip_index sl"
proof (induction ts arbitrary: sl off)
  case Nil
  then show ?case by (intro exI [of _ "[]"]) simp
next
  case (Cons t ts)
  let ?ld = "stl_loader E sl (fa + word_of_int off) (\<lambda>i. buf (nat off + i)) t"
  from Cons.prems obtain sl1 where ld: "?ld = Inr sl1"
    by (cases ?ld) simp_all
  from stl_loader_ops [OF ld] obtain ops1 where
    o1: "run_ops sl sl1 ops1" "list_all loader_op ops1" "filter is_run ops1 = [RunCore]"
      "verbose sl1 = verbose sl" "chip_index sl1 = chip_index sl"
    by blast
  obtain b sl2 where p: "flash_poll E sl1 0 = (b, sl2)"
    by (cases "flash_poll E sl1 0")
  from flash_poll_run [of sl1 E 0] obtain ops2 where
    o2: "run_ops sl1 sl2 ops2" "list_all poll_op ops2"
      "verbose sl2 = verbose sl1" "chip_index sl2 = chip_index sl1"
    unfolding p by auto
  have r12: "run_ops sl sl2 (ops1 @ ops2)"
    by (rule run_ops_trans [OF o1(1) o2(1)])
  have l12: "list_all loader_op (ops1 @ ops2)" "filter is_run (ops1 @ ops2) = [RunCore]"
    using o1(2,3) poll_op_loader [OF o2(2)] poll_op_no_run [OF o2(2)] by simp_all
  show ?case
  proof (cases b)
    case False
    with Cons.prems ld p have "ok = False" "sl' = sl2" by simp_all
    with r12 l12 o1 o2 show ?thesis
      by (intro exI [of _ "ops1 @ ops2"]) simp
  next
    case True
    with Cons.prems ld p have "run_chunks E sl2 fa buf (off + t) ts = Inr (ok, sl')"
      by simp
    from Cons.IH [OF this] obtain mid where
      m: "run_ops sl2 sl' mid" "list_all loader_op mid"
        "ok \<longrightarrow> length (filter is_run mid) = length ts"
        "verbose sl' = verbose sl2" "chip_index sl' = chip_index sl2"
      by blast
    have "run_ops sl sl' ((ops1 @ ops2) @ mid)"
      by (rule run_ops_trans [OF r12 m(1)])
    with l12 m o1 o2 show ?thesis
      by (intro exI [of _ "(ops1 @ ops2) @ mid"]) simp
  qed
qed

lemma status_reply_sim:
  "c ! Suc 0 = STLinkDebugGetStatus \<Longrightarrow> probe (host be T) w c n = [t_status T, 0]"
  by (simp add: host_def sim_probe_def)

lemma u16_of_status: "(ucast (le_value16 b 0) :: u32) = ucast b"
  unfolding le_value16_def
  by (rule bit_word_eqI) (auto simp add: bit_simps dest: bit_imp_le_length)

lemma stl_get_status_sim:
  "fst (stl_get_status (host False T) sl) = ucast (t_status T)"
  by (simp add: stl_get_status_def stlink_cmd_eq Let_def status_reply_sim obj_load16_def
      store_bytes_def u16_of_status)

lemma run_ops_status_sim:
  "run_ops sl (snd (stl_get_status (host be T) sl)) [GetStatus [t_status T, 0]]"
  using run_ops_status [of sl "host be T"] by (simp add: status_reply_sim)

lemma flash_poll_halted:
  "t_status T = 0x81 \<Longrightarrow>
   flash_poll (host False T) sl k = (True, snd (stl_get_status (host False T) sl))"
  using stl_get_status_sim [of T sl]
  by (subst flash_poll.simps) (simp add: case_prod_beta)

lemma flash_poll_never:
  "(ucast (t_status T) :: u32) \<noteq> STLINK_CORE_HALTED \<Longrightarrow> verbose sl = 0 \<Longrightarrow> k \<le> 200 \<Longrightarrow>
   fst (flash_poll (host False T) sl k) = False
   \<and> run_ops sl (snd (flash_poll (host False T) sl k))
        (replicate (201 - k) (GetStatus [t_status T, 0]))"
proof (induction "200 - k" arbitrary: sl k)
  case 0
  then have k: "k = 200" by simp
  have unf: "flash_poll (host False T) sl k = (False, snd (stl_get_status (host False T) sl))"
    using stl_get_status_sim [of T sl] 0
    by (subst flash_poll.simps) (simp add: case_prod_beta k)
  show ?case
    unfolding unf using run_ops_status_sim [of sl False T] by (simp add: k)
next
  case (Suc n)
  let ?sl1 = "snd (stl_get_status (host False T) sl)"
  from Suc have k: "k < 200" by simp
  have unf: "flash_poll (host False T) sl k = flash_poll (host False T) ?sl1 (k + 1)"
    using stl_get_status_sim [of T sl] Suc.prems k
    by (subst flash_poll.simps) (simp add: case_prod_beta)
  have "n = 200 - (k + 1)" using Suc by simp
  from Suc.hyps(1) [OF this Suc.prems(1)] Suc.prems(2) k
  have ih: "fst (flash_poll (host False T) ?sl1 (k + 1)) = False"
    "run_ops ?sl1 (snd (flash_poll (host False T) ?sl1 (k + 1)))
        (replicate (201 - (k + 1)) (GetStatus [t_status T, 0]))"
    by simp_all
  have rep: "replicate (201 - k) (GetStatus [t_status T, 0])
      = [GetStatus [t_status T, 0]] @ replicate (201 - (k + 1)) (GetStatus [t_status T, 0])"
    using k by (simp add: Suc_diff_le flip: replicate_Suc)
  show ?case
    unfolding unf rep using ih(1) run_ops_trans [OF run_ops_status_sim ih(2)] by simp
qed

lemma run_chunks_total:
  "list_all (\<lambda>t. 0 \<le> t \<and> t \<le> 6088) ts \<Longrightarrow>
   \<exists>ok sl'. run_chunks E sl fa buf off ts = Inr (ok, sl')"
proof (induction ts arbitrary: sl off)
  case Nil
  show ?case by auto
next
  case (Cons t ts)
  then have r: "0 \<le> t" "t \<le> 6088" by simp_all
  from stl_loader_run [OF r, of E sl "fa + word_of_int off" "\<lambda>i. buf (nat off + i)"]
  obtain sl1 where ld: "stl_loader E sl (fa + word_of_int off) (\<lambda>i. buf (nat off + i)) t = Inr sl1"
    by blast
  obtain b sl2 where p: "flash_poll E sl1 0 = (b, sl2)"
    by (cases "flash_poll E sl1 0")
  show ?case
  proof (cases b)
    case True
    from Cons.IH [of sl2 "off + t"] Cons.prems
    obtain ok sl' where "run_chunks E sl2 fa buf (off + t) ts = Inr (ok, sl')"
      by auto
    with True ld p show ?thesis by simp
  next
    case False
    with ld p show ?thesis by auto
  qed
qed

lemma flash_write_loop_total:
  assumes "0 < sz"
  shows "\<exists>ok sl'. flash_write_loop E sl fa buf off sz = Inr (ok, sl')"
proof -
  from flash_chunks_props [OF assms]
  have "list_all (\<lambda>t. 0 < t \<and> t \<le> 2048 \<and> even t) (flash_chunks sz)" by simp
  then have "list_all (\<lambda>t. 0 \<le> t \<and> t \<le> 6088) (flash_chunks sz)"
    by (auto simp add: list_all_iff)
  from run_chunks_total [OF this] show ?thesis
    unfolding loop_is_run_chunks .
qed

lemma stl_flash_write_total:
  assumes "0 < sz"
  shows "\<exists>ret sl'. stl_flash_write E sl fa buf sz = Inr (ret, sl')"
proof -
  let ?sl3 = "sl_wr32 E (sl_wr32 E (sl_wr32 E sl FLASH_KEYR FLASH_KEY1) FLASH_KEYR FLASH_KEY2)
                FLASH_SR 0x34"
  let ?sl4 = "if verbose ?sl3 \<noteq> 0 then snd (sl_rd32 E (snd (sl_rd32 E ?sl3 FLASH_SR)) FLASH_CR)
              else ?sl3"
  from flash_write_loop_total [OF assms, of E ?sl4 fa buf 0]
  obtain ok sl5 where l: "flash_write_loop E ?sl4 fa buf 0 sz = Inr (ok, sl5)"
    by blast
  show ?thesis
    unfolding stl_flash_write_def Let_def l
    by (cases ok) (simp_all add: case_prod_beta)
qed

lemma run_chunks_halted:
  "t_status T = 0x81 \<Longrightarrow> list_all (\<lambda>t. 0 \<le> t \<and> t \<le> 6088) ts \<Longrightarrow>
   \<exists>sl'. run_chunks (host False T) sl fa buf off ts = Inr (True, sl')"
proof (induction ts arbitrary: sl off)
  case Nil
  show ?case by simp
next
  case (Cons t ts)
  then have r: "0 \<le> t" "t \<le> 6088" by simp_all
  from stl_loader_run [OF r, of "host False T" sl "fa + word_of_int off" "\<lambda>i. buf (nat off + i)"]
  obtain sl1 where
    ld: "stl_loader (host False T) sl (fa + word_of_int off) (\<lambda>i. buf (nat off + i)) t = Inr sl1"
    by blast
  from Cons.IH [OF Cons.prems(1), of "snd (stl_get_status (host False T) sl1)" "off + t"] Cons.prems(2)
  obtain sl' where "run_chunks (host False T) (snd (stl_get_status (host False T) sl1))
      fa buf (off + t) ts = Inr (True, sl')"
    by auto
  then show ?case
    by (simp add: ld flash_poll_halted [OF Cons.prems(1)])
qed

text \<open>
  C4. For a write of \<open>sz > 0\<close> bytes the loop of \<^verbatim>\<open>stl_flash_write\<close> is the run of
  \<^verbatim>\<open>stl_loader\<close> and the halt poll over the chunk sizes \<open>flash_chunks sz\<close>, stopping
  early only when a halt poll gives up. Every chunk is positive, even and at most 2048
  bytes; every chunk but the last is 2048 bytes; together they cover \<open>sz\<close> bytes, plus one
  byte when \<open>sz\<close> is odd; there are \<open>(sz + 2047) div 2048\<close> of them. A write of 2048
  bytes is the one chunk 2048, a write of 2049 bytes the chunks 2048 and 2, a write of 1
  byte the chunk 2. When the loop completes, the core was started once per chunk.
\<close>

theorem flash_write_chunking:
  assumes "0 < sz"
  shows "flash_write_loop E sl flash_addr buf offset sz
           = run_chunks E sl flash_addr buf offset (flash_chunks sz)
     \<and> list_all (\<lambda>t. 0 < t \<and> t \<le> 2048 \<and> even t) (flash_chunks sz)
     \<and> list_all (\<lambda>t. t = 2048) (butlast (flash_chunks sz))
     \<and> sum_list (flash_chunks sz) = sz + sz mod 2
     \<and> length (flash_chunks sz) = nat ((sz + 2047) div 2048)
     \<and> flash_chunks 2048 = [2048] \<and> flash_chunks 2049 = [2048, 2] \<and> flash_chunks 1 = [2]
     \<and> (\<forall>sl'. flash_write_loop E sl flash_addr buf offset sz = Inr (True, sl') \<longrightarrow>
           length (filter is_run (ops_since sl sl')) = length (flash_chunks sz))"
proof -
  have "length (filter is_run (ops_since sl sl')) = length (flash_chunks sz)"
    if "flash_write_loop E sl flash_addr buf offset sz = Inr (True, sl')" for sl'
  proof -
    from that have "run_chunks E sl flash_addr buf offset (flash_chunks sz) = Inr (True, sl')"
      by (simp add: loop_is_run_chunks)
    from run_chunks_run [OF this] show ?thesis
      by (auto simp add: run_ops_def)
  qed
  with flash_chunks_props [OF assms] flash_chunks_examples loop_is_run_chunks [of E sl flash_addr buf offset sz]
  show ?thesis by simp
qed

theorem flash_write_chunking_witness:
  "(0::int) < 2049
   \<and> flash_write_loop (host False (target_of 0x81 0x1ba01477 (\<lambda>a. 0))) (stl_init 0)
        0x08000000 (\<lambda>i. 0xA5) 0 2049
      = run_chunks (host False (target_of 0x81 0x1ba01477 (\<lambda>a. 0))) (stl_init 0)
        0x08000000 (\<lambda>i. 0xA5) 0 [2048, 2]
   \<and> (\<exists>sl'. flash_write_loop (host False (target_of 0x81 0x1ba01477 (\<lambda>a. 0))) (stl_init 0)
        0x08000000 (\<lambda>i. 0xA5) 0 2049 = Inr (True, sl')
       \<and> length (filter is_run (ops_since (stl_init 0) sl')) = 2)"
proof -
  let ?E = "host False (target_of 0x81 0x1ba01477 (\<lambda>a. 0))"
  have h: "(0::int) < 2049" by simp
  note t = flash_write_chunking [OF h, of ?E "stl_init 0" "0x08000000" "\<lambda>i. 0xA5" 0]
  from t have c1: "flash_write_loop ?E (stl_init 0) 0x08000000 (\<lambda>i. 0xA5) 0 2049
      = run_chunks ?E (stl_init 0) 0x08000000 (\<lambda>i. 0xA5) 0 (flash_chunks 2049)"
    by (elim conjE)
  from t have c7: "flash_chunks 2049 = [2048, 2]"
    by (elim conjE)
  from t have c9: "\<forall>sl'. flash_write_loop ?E (stl_init 0) 0x08000000 (\<lambda>i. 0xA5) 0 2049
        = Inr (True, sl') \<longrightarrow>
      length (filter is_run (ops_since (stl_init 0) sl')) = length (flash_chunks 2049)"
    by (elim conjE)
  have st: "t_status (target_of 0x81 0x1ba01477 (\<lambda>a. 0)) = 0x81"
    by (simp add: target_of_def)
  have "list_all (\<lambda>t. 0 \<le> t \<and> t \<le> 6088) [2048, 2 :: int]"
    by simp
  from run_chunks_halted [OF st this, of "stl_init 0" "0x08000000" "\<lambda>i. 0xA5" 0]
  obtain sl' where r: "run_chunks ?E (stl_init 0) 0x08000000 (\<lambda>i. 0xA5) 0 [2048, 2] = Inr (True, sl')"
    by blast
  have l: "flash_write_loop ?E (stl_init 0) 0x08000000 (\<lambda>i. 0xA5) 0 2049 = Inr (True, sl')"
    unfolding c1 c7 by (rule r)
  from c9 l have "length (filter is_run (ops_since (stl_init 0) sl')) = length (flash_chunks 2049)"
    by blast
  then have n: "length (filter is_run (ops_since (stl_init 0) sl')) = 2"
    unfolding c7 by simp
  have eq: "flash_write_loop ?E (stl_init 0) 0x08000000 (\<lambda>i. 0xA5) 0 2049
      = run_chunks ?E (stl_init 0) 0x08000000 (\<lambda>i. 0xA5) 0 [2048, 2]"
    using c1 unfolding c7 .
  show ?thesis
    by (intro conjI exI [of _ sl']) (rule h eq l n)+
qed

section \<open>Registers used by the flash writer\<close>

text \<open>
  Whatever the session's personality, a call of \<^verbatim>\<open>stl_flash_write\<close> that returns starts
  with the writes of \<^verbatim>\<open>FLASH_KEY1\<close> and \<^verbatim>\<open>FLASH_KEY2\<close> to the F1 \<^verbatim>\<open>FLASH_KEYR\<close> and of
  0x34 to the F1 \<^verbatim>\<open>FLASH_SR\<close>. What follows are loader transfers only. When the chunk
  loop completes, the call ends with a read of the F1 \<^verbatim>\<open>FLASH_SR\<close>, whose value masked
  with 0x15 is the result, and the write of 0x80 to the F1 \<^verbatim>\<open>FLASH_CR\<close>; when a halt
  poll gives up, nothing follows and the result is 0.
\<close>

lemma flash_write_ops:
  assumes "stl_flash_write E sl flash_addr buf sz = Inr (ret, sl')"
  shows "\<exists>mid tail ok sl5.
     flash_write_loop E
       (if verbose sl \<noteq> 0
        then snd (sl_rd32 E (snd (sl_rd32 E
               (sl_wr32 E (sl_wr32 E (sl_wr32 E sl FLASH_KEYR FLASH_KEY1) FLASH_KEYR FLASH_KEY2)
                  FLASH_SR 0x34) FLASH_SR)) FLASH_CR)
        else sl_wr32 E (sl_wr32 E (sl_wr32 E sl FLASH_KEYR FLASH_KEY1) FLASH_KEYR FLASH_KEY2)
               FLASH_SR 0x34)
       flash_addr buf 0 sz = Inr (ok, sl5)
     \<and> run_ops sl sl'
       ([Write32 FLASH_KEYR (word_bytes FLASH_KEY1),
         Write32 FLASH_KEYR (word_bytes FLASH_KEY2),
         Write32 FLASH_SR (word_bytes 0x34)] @ mid @ tail)
     \<and> list_all loader_op mid
     \<and> (if ok
         then \<exists>d. tail = [Read32 FLASH_SR d, Write32 FLASH_CR (word_bytes 0x80)]
                \<and> ret = reply_word (is_bigendian E) d AND 0x15
         else tail = [] \<and> ret = 0)"
proof -
  let ?W = "[Write32 FLASH_KEYR (word_bytes FLASH_KEY1),
         Write32 FLASH_KEYR (word_bytes FLASH_KEY2),
         Write32 FLASH_SR (word_bytes 0x34)]"
  let ?sl3 = "sl_wr32 E (sl_wr32 E (sl_wr32 E sl FLASH_KEYR FLASH_KEY1) FLASH_KEYR FLASH_KEY2)
                FLASH_SR 0x34"
  let ?sl4 = "if verbose ?sl3 \<noteq> 0 then snd (sl_rd32 E (snd (sl_rd32 E ?sl3 FLASH_SR)) FLASH_CR)
              else ?sl3"
  have r3: "run_ops sl ?sl3 ?W"
    by (rule run_ops_wr32 | rule run_ops_Cons)+
  obtain pre where pre: "run_ops ?sl3 ?sl4 pre" "list_all loader_op pre"
  proof (cases "verbose ?sl3 \<noteq> 0")
    case True
    have "run_ops ?sl3 (snd (sl_rd32 E (snd (sl_rd32 E ?sl3 FLASH_SR)) FLASH_CR))
        ([Read32 FLASH_SR (rd32_reply E ?sl3 FLASH_SR 4)]
         @ [Read32 FLASH_CR (rd32_reply E (snd (sl_rd32 E ?sl3 FLASH_SR)) FLASH_CR 4)])"
      by (rule run_ops_trans [OF run_ops_rd32 run_ops_rd32])
    with True show ?thesis
      by (intro that [of "[Read32 FLASH_SR (rd32_reply E ?sl3 FLASH_SR 4)]
         @ [Read32 FLASH_CR (rd32_reply E (snd (sl_rd32 E ?sl3 FLASH_SR)) FLASH_CR 4)]"])
         simp_all
  next
    case False
    then show ?thesis by (intro that [of "[]"]) simp_all
  qed
  from assms obtain ok sl5 where l: "flash_write_loop E ?sl4 flash_addr buf 0 sz = Inr (ok, sl5)"
    unfolding stl_flash_write_def Let_def
    by (cases "flash_write_loop E ?sl4 flash_addr buf 0 sz") auto
  from l have "run_chunks E ?sl4 flash_addr buf 0 (flash_chunks sz) = Inr (ok, sl5)"
    by (simp add: loop_is_run_chunks)
  from run_chunks_run [OF this] obtain lm where
    lm: "run_ops ?sl4 sl5 lm" "list_all loader_op lm"
    by blast
  have r5: "run_ops sl sl5 (?W @ (pre @ lm))"
    by (rule run_ops_trans [OF r3], rule run_ops_trans [OF pre(1) lm(1)])
  have mid: "list_all loader_op (pre @ lm)"
    using pre(2) lm(2) by simp
  have l': "flash_write_loop E
       (if verbose sl \<noteq> 0
        then snd (sl_rd32 E (snd (sl_rd32 E
               (sl_wr32 E (sl_wr32 E (sl_wr32 E sl FLASH_KEYR FLASH_KEY1) FLASH_KEYR FLASH_KEY2)
                  FLASH_SR 0x34) FLASH_SR)) FLASH_CR)
        else sl_wr32 E (sl_wr32 E (sl_wr32 E sl FLASH_KEYR FLASH_KEY1) FLASH_KEYR FLASH_KEY2)
               FLASH_SR 0x34)
       flash_addr buf 0 sz = Inr (ok, sl5)"
    using l by simp
  show ?thesis
  proof (cases ok)
    case False
    with assms l have "ret = 0" "sl' = sl5"
      unfolding stl_flash_write_def Let_def by simp_all
    with r5 mid l' False show ?thesis
      by (intro exI [of _ "pre @ lm"] exI [of _ "[]"] exI [of _ ok] exI [of _ sl5]) simp
  next
    case True
    let ?d = "rd32_reply E sl5 FLASH_SR 4"
    let ?sl6 = "snd (sl_rd32 E sl5 FLASH_SR)"
    from True assms l have res: "ret = reply_word (is_bigendian E) ?d AND 0x15"
      "sl' = sl_wr32 E ?sl6 FLASH_CR 0x80"
      unfolding stl_flash_write_def Let_def by (simp_all add: sl_rd32_eq)
    have "run_ops sl sl' ((?W @ (pre @ lm)) @ [Read32 FLASH_SR ?d] @ [Write32 FLASH_CR (word_bytes 0x80)])"
      unfolding res(2)
      by (rule run_ops_trans [OF r5], rule run_ops_trans [OF run_ops_rd32 run_ops_wr32])
    then have "run_ops sl sl' (?W @ (pre @ lm) @ [Read32 FLASH_SR ?d, Write32 FLASH_CR (word_bytes 0x80)])"
      by simp
    with mid res(1) l' True show ?thesis
      by (intro exI [of _ "pre @ lm"]
            exI [of _ "[Read32 FLASH_SR ?d, Write32 FLASH_CR (word_bytes 0x80)]"]
            exI [of _ ok] exI [of _ sl5]) simp
  qed
qed

text \<open>
  In the loader parameter block the source address, the destination and the half-word
  count do not depend on the session, hence not on the personality; the base word is the
  one that does.
\<close>

lemma loader_params_personality_free:
  "obj_load32 (is_bigendian E) (data_buf (stl_loader_image E sa a b n)) 48
     = obj_load32 (is_bigendian E) (data_buf (stl_loader_image E sb a b n)) 48
   \<and> obj_load32 (is_bigendian E) (data_buf (stl_loader_image E sa a b n)) 52
     = obj_load32 (is_bigendian E) (data_buf (stl_loader_image E sb a b n)) 52
   \<and> obj_load32 (is_bigendian E) (data_buf (stl_loader_image E sa a b n)) 56
     = obj_load32 (is_bigendian E) (data_buf (stl_loader_image E sb a b n)) 56"
  by (simp add: stl_loader_image_def Let_def obj_load32_memcpy_above
      obj_load32_store32_other obj_load32_store32)

section \<open>The halt poll gives up\<close>

lemma sim_sr_reply_word:
  "reply_word False (rd32_reply (host False (target_of st cid (\<lambda>a. v))) sl 0x4002200C 4) = v"
  by (simp add: rd32_reply_sim sim_sr_reply word_bytes_def reply_word_le4)

lemma filter_status_replicate:
  "filter is_status (replicate n (GetStatus d)) = replicate n (GetStatus d)"
  by (induction n) simp_all

lemma filter_write_replicate:
  "filter is_mem_write (replicate n (GetStatus d)) = []"
  by (induction n) simp_all

text \<open>
  C1 (the code differs from the claim). A little-endian host, personality 0, a 4-byte write
  at 0x08000000. With a target whose core status stays "running" (0x80),
  \<^verbatim>\<open>stl_flash_write\<close> polls the status 201 times and returns 0, having made four
  memory writes (the three unlock writes and the upload, no re-lock). With a target that
  halts and whose \<^verbatim>\<open>FLASH_SR\<close> reads 0, it returns 0 as well: the caller cannot tell the
  two apart.
\<close>

theorem flash_write_timeout_returns_zero:
  "(\<exists>sl'. stl_flash_write (host False (target_of 0x80 0x1ba01477 (\<lambda>a. 0))) (stl_init 0)
             0x08000000 (\<lambda>i. 0xA5) 4 = Inr (0, sl')
      \<and> length (filter is_status (ops_since (stl_init 0) sl')) = 201
      \<and> length (filter is_mem_write (ops_since (stl_init 0) sl')) = 4)
   \<and> (\<exists>sl'. stl_flash_write (host False (target_of 0x81 0x1ba01477 (\<lambda>a. 0))) (stl_init 0)
             0x08000000 (\<lambda>i. 0xA5) 4 = Inr (0, sl'))"
proof (rule conjI)
  let ?T = "target_of 0x80 0x1ba01477 (\<lambda>a. 0)"
  let ?E = "host False ?T"
  let ?buf = "(\<lambda>i. 0xA5) :: buffer"
  let ?W = "[Write32 FLASH_KEYR (word_bytes FLASH_KEY1),
         Write32 FLASH_KEYR (word_bytes FLASH_KEY2),
         Write32 FLASH_SR (word_bytes 0x34)]"
  let ?sl3 = "sl_wr32 ?E (sl_wr32 ?E (sl_wr32 ?E (stl_init 0) FLASH_KEYR FLASH_KEY1)
                FLASH_KEYR FLASH_KEY2) FLASH_SR 0x34"
  let ?sl4 = "if verbose ?sl3 \<noteq> 0
              then snd (sl_rd32 ?E (snd (sl_rd32 ?E ?sl3 FLASH_SR)) FLASH_CR) else ?sl3"
  have v0: "verbose (stl_init 0) = 0" by (simp add: stl_init_def)
  have sl4: "?sl4 = ?sl3" by (simp add: v0)
  have r3: "run_ops (stl_init 0) ?sl3 ?W"
    by (rule run_ops_wr32 | rule run_ops_Cons)+
  have rng: "(0::int) \<le> 4" "(4::int) \<le> 6088" by simp_all
  from stl_loader_run [OF rng, of ?E ?sl3 "0x08000000 + word_of_int 0" "\<lambda>i. ?buf (nat 0 + i)"]
  obtain sl5 up where ld: "stl_loader ?E ?sl3 (0x08000000 + word_of_int 0) (\<lambda>i. ?buf (nat 0 + i)) 4 = Inr sl5"
    and r5: "run_ops ?sl3 sl5 ([Write32 0x20000000 up] @ [WriteReg 15 0x20000000, RunCore])"
    and v5: "verbose sl5 = 0"
    by (auto simp add: v0)
  have ns: "(ucast (t_status ?T) :: u32) \<noteq> STLINK_CORE_HALTED"
    by (simp add: target_of_def)
  obtain b sl6 where pe0: "flash_poll ?E sl5 0 = (b, sl6)"
    by (cases "flash_poll ?E sl5 0")
  from flash_poll_never [OF ns v5, of 0]
  have pe: "flash_poll ?E sl5 0 = (False, sl6)"
    and r6: "run_ops sl5 sl6 (replicate 201 (GetStatus [t_status ?T, 0]))"
    unfolding pe0 by simp_all
  have ch: "flash_chunks 4 = [4]"
    by (simp add: flash_chunks_small)
  have loop: "flash_write_loop ?E ?sl4 0x08000000 ?buf 0 4 = Inr (False, sl6)"
    unfolding loop_is_run_chunks sl4 ch run_chunks.simps ld using pe by simp
  have res: "stl_flash_write ?E (stl_init 0) 0x08000000 ?buf 4 = Inr (0, sl6)"
    unfolding stl_flash_write_def Let_def loop by simp
  have all: "run_ops (stl_init 0) sl6
      (?W @ ([Write32 0x20000000 up] @ [WriteReg 15 0x20000000, RunCore])
          @ replicate 201 (GetStatus [t_status ?T, 0]))"
    by (rule run_ops_trans [OF r3], rule run_ops_trans [OF r5 r6])
  then have ops: "ops_since (stl_init 0) sl6 =
      ?W @ ([Write32 0x20000000 up] @ [WriteReg 15 0x20000000, RunCore])
          @ replicate 201 (GetStatus [t_status ?T, 0])"
    by (simp add: run_ops_def)
  show "\<exists>sl'. stl_flash_write ?E (stl_init 0) 0x08000000 ?buf 4 = Inr (0, sl')
      \<and> length (filter is_status (ops_since (stl_init 0) sl')) = 201
      \<and> length (filter is_mem_write (ops_since (stl_init 0) sl')) = 4"
    by (rule exI [of _ sl6])
       (simp add: res ops filter_status_replicate filter_write_replicate)
next
  let ?T = "target_of 0x81 0x1ba01477 (\<lambda>a. 0)"
  let ?E = "host False ?T"
  let ?buf = "(\<lambda>i. 0xA5) :: buffer"
  let ?sl3 = "sl_wr32 ?E (sl_wr32 ?E (sl_wr32 ?E (stl_init 0) FLASH_KEYR FLASH_KEY1)
                FLASH_KEYR FLASH_KEY2) FLASH_SR 0x34"
  let ?sl4 = "if verbose ?sl3 \<noteq> 0
              then snd (sl_rd32 ?E (snd (sl_rd32 ?E ?sl3 FLASH_SR)) FLASH_CR) else ?sl3"
  have v0: "verbose (stl_init 0) = 0" by (simp add: stl_init_def)
  have sl4: "?sl4 = ?sl3" by (simp add: v0)
  have st: "t_status ?T = 0x81" by (simp add: target_of_def)
  have "list_all (\<lambda>t. 0 \<le> t \<and> t \<le> 6088) [4 :: int]" by simp
  from run_chunks_halted [OF st this, of ?sl3 "0x08000000" ?buf 0]
  obtain sl6 where rc: "run_chunks ?E ?sl3 0x08000000 ?buf 0 [4] = Inr (True, sl6)"
    by blast
  have ch: "flash_chunks 4 = [4]"
    by (simp add: flash_chunks_small)
  have loop: "flash_write_loop ?E ?sl4 0x08000000 ?buf 0 4 = Inr (True, sl6)"
    unfolding loop_is_run_chunks sl4 ch by (rule rc)
  have rd: "fst (sl_rd32 ?E sl6 FLASH_SR) = 0"
    by (simp add: sl_rd32_eq sim_sr_reply_word)
  have "stl_flash_write ?E (stl_init 0) 0x08000000 ?buf 4
      = Inr (0, sl_wr32 ?E (snd (sl_rd32 ?E sl6 FLASH_SR)) FLASH_CR 0x80)"
    unfolding stl_flash_write_def Let_def loop using rd by (simp add: case_prod_beta)
  then show "\<exists>sl'. stl_flash_write ?E (stl_init 0) 0x08000000 ?buf 4 = Inr (0, sl')"
    by blast
qed

section \<open>Reply decoding and host byte order\<close>

lemma core_id_reply_sim:
  "c ! Suc 0 = STLinkDebugReadCoreID \<Longrightarrow>
   probe (host be T) w c n = word_bytes (t_core_id T)"
  by (simp add: host_def sim_probe_def word_bytes_def)

text \<open>
  C9 (the code differs from the claim). The same target, with core status 0x81 and core ID
  0x0BB11477, on a big-endian and on a little-endian host. The 2-byte status reply is the
  bytes 81 00: \<^verbatim>\<open>stlink_cmd\<close> returns 0x8100 on the big-endian host and 0x81 on the
  little-endian one, since it loads the 16-bit object at \<^verbatim>\<open>data_buf\<close> in host order. The
  4-byte core ID reply goes through \<^verbatim>\<open>read_uint32\<close> and is 0x0BB11477 on both. The
  4-byte reply to a memory read is loaded in host order again by \<^verbatim>\<open>sl_rd32\<close>: for the
  bytes 10 64 01 10 it returns 0x10640110 on the big-endian host and 0x10016410 on the
  little-endian one.
\<close>

theorem status_reply_host_order:
  "fst (stlink_cmd (host True (target_of 0x81 0x0bb11477 (\<lambda>a. 0))) (stl_init 0)
          STLinkDebugGetStatus 0 2) = 0x8100
   \<and> fst (stlink_cmd (host False (target_of 0x81 0x0bb11477 (\<lambda>a. 0))) (stl_init 0)
          STLinkDebugGetStatus 0 2) = 0x81
   \<and> fst (stlink_cmd (host True (target_of 0x81 0x0bb11477 (\<lambda>a. 0))) (stl_init 0)
          STLinkDebugReadCoreID 0 4) = 0x0bb11477
   \<and> fst (stlink_cmd (host False (target_of 0x81 0x0bb11477 (\<lambda>a. 0))) (stl_init 0)
          STLinkDebugReadCoreID 0 4) = 0x0bb11477
   \<and> fst (sl_rd32 (host True (target_of 0x81 0x0bb11477 (\<lambda>a. 0x10016410))) (stl_init 0)
          0xE0042000) = 0x10640110
   \<and> fst (sl_rd32 (host False (target_of 0x81 0x0bb11477 (\<lambda>a. 0x10016410))) (stl_init 0)
          0xE0042000) = 0x10016410"
proof -
  have "fst (stlink_cmd (host True (target_of 0x81 0x0bb11477 (\<lambda>a. 0))) (stl_init 0)
          STLinkDebugGetStatus 0 2) = 0x8100
   \<and> fst (stlink_cmd (host False (target_of 0x81 0x0bb11477 (\<lambda>a. 0))) (stl_init 0)
          STLinkDebugGetStatus 0 2) = 0x81
   \<and> fst (stlink_cmd (host True (target_of 0x81 0x0bb11477 (\<lambda>a. 0))) (stl_init 0)
          STLinkDebugReadCoreID 0 4) = 0x0bb11477
   \<and> fst (stlink_cmd (host False (target_of 0x81 0x0bb11477 (\<lambda>a. 0))) (stl_init 0)
          STLinkDebugReadCoreID 0 4) = 0x0bb11477"
    by (simp add: stlink_cmd_eq Let_def status_reply_sim core_id_reply_sim obj_load16_def
        read_uint32_le store_bytes_def word_bytes_def target_of_def le_value16_def
        le_value32_def byte_of_def)
  moreover have
    "fst (sl_rd32 (host True (target_of 0x81 0x0bb11477 (\<lambda>a. 0x10016410))) (stl_init 0)
          0xE0042000) = 0x10640110
   \<and> fst (sl_rd32 (host False (target_of 0x81 0x0bb11477 (\<lambda>a. 0x10016410))) (stl_init 0)
          0xE0042000) = 0x10016410"
    by (simp add: sl_rd32_eq rd32_reply_sim target_of_def word_mem_def upt_4 reply_word_def
        obj_load32_def store_bytes_def byte_of_def le_value32_def)
  ultimately show ?thesis by simp
qed

section \<open>The address of the MCU ID code\<close>

lemma run_ops_core_id:
  "run_ops sl (snd (stl_get_core_id E sl))
     [ReadCoreID (take 4 (probe E (wire sl)
        (bytes_at ((cmd_buf sl)(0 := STLinkDebugCommand, 1 := STLinkDebugReadCoreID, 2 := 0)) 0 10) 4))]"
  by (simp add: stl_get_core_id_def stlink_cmd_eq Let_def run_ops_def extends_def ops_since_def
      decode_def)

lemma run_ops_core_id_sim:
  "run_ops sl (snd (stl_get_core_id (host be T) sl)) [ReadCoreID (word_bytes (t_core_id T))]"
  using run_ops_core_id [of sl "host be T"] by (simp add: core_id_reply_sim word_bytes_def)

lemma run_ops_frame:
  "run_ops sl (s\<lparr>cpu_idcode := c\<rparr>) xs = run_ops sl s xs"
  "run_ops sl (s\<lparr>chip_index := i\<rparr>) xs = run_ops sl s xs"
  by (simp_all add: run_ops_def extends_def ops_since_def)

lemma stm_id_chip_nonzero:
  assumes "fst (sl_rd32 E (snd (stl_get_core_id E sl)) DBGMCU_IDCODE) = v" "v \<noteq> 0"
  shows "cpu_idcode (snd (stm_id_chip E sl)) = v"
    and "run_ops (snd (stl_get_core_id E sl)) (snd (stm_id_chip E sl))
           [Read32 DBGMCU_IDCODE (rd32_reply E (snd (stl_get_core_id E sl)) DBGMCU_IDCODE 4)]"
  using assms run_ops_rd32 [of "snd (stl_get_core_id E sl)" E DBGMCU_IDCODE]
  by (simp_all add: stm_id_chip_def case_prod_beta Let_def run_ops_frame split: option.split)

lemma stm_id_chip_zero:
  assumes "fst (sl_rd32 E (snd (stl_get_core_id E sl)) DBGMCU_IDCODE) = 0"
  shows "cpu_idcode (snd (stm_id_chip E sl))
           = fst (sl_rd32 E (snd (sl_rd32 E (snd (stl_get_core_id E sl)) DBGMCU_IDCODE)) 0x40015800)"
    and "run_ops (snd (stl_get_core_id E sl)) (snd (stm_id_chip E sl))
           [Read32 DBGMCU_IDCODE (rd32_reply E (snd (stl_get_core_id E sl)) DBGMCU_IDCODE 4),
            Read32 0x40015800
              (rd32_reply E (snd (sl_rd32 E (snd (stl_get_core_id E sl)) DBGMCU_IDCODE)) 0x40015800 4)]"
proof -
  let ?sl1 = "snd (stl_get_core_id E sl)"
  let ?sl2 = "snd (sl_rd32 E ?sl1 DBGMCU_IDCODE)"
  show "cpu_idcode (snd (stm_id_chip E sl)) = fst (sl_rd32 E ?sl2 0x40015800)"
    using assms by (simp add: stm_id_chip_def case_prod_beta Let_def split: option.split)
  have "run_ops ?sl1 (snd (sl_rd32 E ?sl2 0x40015800))
          [Read32 DBGMCU_IDCODE (rd32_reply E ?sl1 DBGMCU_IDCODE 4),
           Read32 0x40015800 (rd32_reply E ?sl2 0x40015800 4)]"
    by (rule run_ops_Cons [OF run_ops_rd32 run_ops_rd32])
  then show "run_ops ?sl1 (snd (stm_id_chip E sl))
          [Read32 DBGMCU_IDCODE (rd32_reply E ?sl1 DBGMCU_IDCODE 4),
           Read32 0x40015800 (rd32_reply E ?sl2 0x40015800 4)]"
    using assms by (simp add: stm_id_chip_def case_prod_beta Let_def run_ops_frame split: option.split)
qed

lemma target_of_sel:
  "t_status (target_of st cid f) = st" "t_core_id (target_of st cid f) = cid"
  by (simp_all add: target_of_def)

lemma core_id_bytes:
  "word_bytes 0x0bb11477 = [0x77, 0x14, 0xb1, 0x0b]"
  "word_bytes 0x1ba01477 = [0x77, 0x14, 0xa0, 0x1b]"
  by (simp_all add: word_bytes_def byte_of_def)

lemma m0_reply:
  "rd32_reply (host False (target_of 0x81 0x0bb11477 m0_words)) s 0xE0042000 4 = [0x10, 0x64, 0x01, 0x10]"
  by (simp add: rd32_reply_sim target_of_def word_mem_def upt_4 m0_words_def byte_of_def)

lemma m3_reply:
  "rd32_reply (host False (target_of 0x81 0x1ba01477 m3_words)) s 0xE0042000 4 = [0, 0, 0, 0]"
  "rd32_reply (host False (target_of 0x81 0x1ba01477 m3_words)) s 0x40015800 4 = [0x40, 0x64, 0x00, 0x20]"
  by (simp_all add: rd32_reply_sim target_of_def word_mem_def upt_4 m3_words_def byte_of_def)

text \<open>
  C8 (the code differs from the claim). \<^verbatim>\<open>stm_id_chip\<close> on a little-endian host. With
  the Cortex-M0 core ID 0x0BB11477 and a word at 0xE0042000 that reads 0x10016410, the
  transfers are the core ID read and one read of 0xE0042000; 0x40015800 is not read, and
  the session's ID code is 0x10016410. With the Cortex-M3 core ID 0x1BA01477 and a word at
  0xE0042000 that reads 0, the function reads 0xE0042000 and then 0x40015800, and the
  session's ID code is the word found at 0x40015800. The address read depends on the word
  at 0xE0042000 and not on the core ID.
\<close>

theorem id_code_address_ignores_core_id:
  "(\<exists>sl'. stm_id_chip (host False (target_of 0x81 0x0bb11477 m0_words)) (stl_init 0) = (0, sl')
      \<and> ops_since (stl_init 0) sl'
           = [ReadCoreID [0x77, 0x14, 0xb1, 0x0b], Read32 0xE0042000 [0x10, 0x64, 0x01, 0x10]]
      \<and> cpu_idcode sl' = 0x10016410)
   \<and> (\<exists>sl'. stm_id_chip (host False (target_of 0x81 0x1ba01477 m3_words)) (stl_init 0) = (0, sl')
      \<and> ops_since (stl_init 0) sl'
           = [ReadCoreID [0x77, 0x14, 0xa0, 0x1b], Read32 0xE0042000 [0, 0, 0, 0],
              Read32 0x40015800 [0x40, 0x64, 0x00, 0x20]]
      \<and> cpu_idcode sl' = 0x20006440)"
proof (intro conjI)
  let ?E = "host False (target_of 0x81 0x0bb11477 m0_words)"
  let ?sl1 = "snd (stl_get_core_id ?E (stl_init 0))"
  have v: "fst (sl_rd32 ?E ?sl1 DBGMCU_IDCODE) = 0x10016410"
    by (simp add: sl_rd32_eq m0_reply reply_word_le4 le_value32_def)
  have f: "fst (stm_id_chip ?E (stl_init 0)) = 0"
    by (simp add: stm_id_chip_def case_prod_beta Let_def split: option.split)
  have r: "run_ops (stl_init 0) (snd (stm_id_chip ?E (stl_init 0)))
     [ReadCoreID [0x77, 0x14, 0xb1, 0x0b], Read32 0xE0042000 [0x10, 0x64, 0x01, 0x10]]"
    using run_ops_Cons [OF run_ops_core_id_sim stm_id_chip_nonzero(2) [OF v]]
    by (simp add: m0_reply target_of_sel core_id_bytes)
  show "\<exists>sl'. stm_id_chip ?E (stl_init 0) = (0, sl')
      \<and> ops_since (stl_init 0) sl'
           = [ReadCoreID [0x77, 0x14, 0xb1, 0x0b], Read32 0xE0042000 [0x10, 0x64, 0x01, 0x10]]
      \<and> cpu_idcode sl' = 0x10016410"
    using f r stm_id_chip_nonzero(1) [OF v]
    by (intro exI [of _ "snd (stm_id_chip ?E (stl_init 0))"]) (simp add: run_ops_def prod_eq_iff)
next
  let ?E = "host False (target_of 0x81 0x1ba01477 m3_words)"
  let ?sl1 = "snd (stl_get_core_id ?E (stl_init 0))"
  have v: "fst (sl_rd32 ?E ?sl1 DBGMCU_IDCODE) = 0"
    by (simp add: sl_rd32_eq m3_reply reply_word_le4 le_value32_def)
  have f: "fst (stm_id_chip ?E (stl_init 0)) = 0"
    by (simp add: stm_id_chip_def case_prod_beta Let_def split: option.split)
  have r: "run_ops (stl_init 0) (snd (stm_id_chip ?E (stl_init 0)))
     [ReadCoreID [0x77, 0x14, 0xa0, 0x1b], Read32 0xE0042000 [0, 0, 0, 0],
      Read32 0x40015800 [0x40, 0x64, 0x00, 0x20]]"
    using run_ops_Cons [OF run_ops_core_id_sim stm_id_chip_zero(2) [OF v]]
    by (simp add: m3_reply target_of_sel core_id_bytes)
  show "\<exists>sl'. stm_id_chip ?E (stl_init 0) = (0, sl')
      \<and> ops_since (stl_init 0) sl'
           = [ReadCoreID [0x77, 0x14, 0xa0, 0x1b], Read32 0xE0042000 [0, 0, 0, 0],
              Read32 0x40015800 [0x40, 0x64, 0x00, 0x20]]
      \<and> cpu_idcode sl' = 0x20006440"
    using f r stm_id_chip_zero(1) [OF v]
    by (intro exI [of _ "snd (stm_id_chip ?E (stl_init 0))"])
       (simp add: run_ops_def prod_eq_iff sl_rd32_eq m3_reply reply_word_le4 le_value32_def)
qed

section \<open>Erase on a controller that stays busy\<close>

lemma erase_wait_busy:
  assumes r: "\<And>s. rd32_reply E s sr 4 = r"
    and b: "reply_word (is_bigendian E) r AND bsy \<noteq> 0"
  shows "i < 1000 \<Longrightarrow>
    fst (erase_wait E sr bsy sl i) = reply_word (is_bigendian E) r
    \<and> run_ops sl (snd (snd (erase_wait E sr bsy sl i))) (replicate (1000 - i) (Read32 sr r))"
proof (induction "999 - i" arbitrary: sl i)
  case 0
  then have i: "i = 999" by simp
  have unf: "erase_wait E sr bsy sl i
      = (reply_word (is_bigendian E) r, 1000, snd (sl_rd32 E sl sr))"
    by (subst erase_wait.simps) (simp add: sl_rd32_eq r i)
  show ?case
    unfolding unf using run_ops_rd32 [of sl E sr] by (simp add: i r)
next
  case (Suc n)
  let ?sl1 = "snd (sl_rd32 E sl sr)"
  from Suc have i: "i < 999" by simp
  have unf: "erase_wait E sr bsy sl i = erase_wait E sr bsy ?sl1 (i + 1)"
    using b i by (subst erase_wait.simps) (simp add: sl_rd32_eq r)
  have "n = 999 - (i + 1)" using Suc by simp
  from Suc.hyps(1) [OF this] i
  have ih: "fst (erase_wait E sr bsy ?sl1 (i + 1)) = reply_word (is_bigendian E) r"
    "run_ops ?sl1 (snd (snd (erase_wait E sr bsy ?sl1 (i + 1))))
        (replicate (1000 - (i + 1)) (Read32 sr r))"
    by simp_all
  have rep: "replicate (1000 - i) (Read32 sr r)
      = [Read32 sr r] @ replicate (1000 - (i + 1)) (Read32 sr r)"
    using i by (simp add: Suc_diff_le flip: replicate_Suc)
  have one: "run_ops sl ?sl1 [Read32 sr r]"
    using run_ops_rd32 [of sl E sr] by (simp add: r)
  show ?case
    unfolding unf rep using ih(1) run_ops_trans [OF one ih(2)] by simp
qed

lemma busy_sr_reply:
  "rd32_reply (host be (target_of st cid (\<lambda>a. v))) s 0x40023C0C 4 = word_bytes v"
  "rd32_reply (host be (target_of st cid (\<lambda>a. v))) s 0x40023C18 4 = word_bytes v"
  "rd32_reply (host be (target_of st cid (\<lambda>a. v))) s 0x4002200C 4 = word_bytes v"
  by (simp_all add: rd32_reply_sim target_of_def word_mem_def upt_4 word_bytes_def)

lemma busy_bytes:
  "word_bytes 0x00010000 = [0, 0, 1, 0]" "word_bytes 1 = [1, 0, 0, 0]"
  by (simp_all add: word_bytes_def byte_of_def)

lemma reply_word_bytes: "reply_word False (word_bytes v) = v"
  by (simp add: word_bytes_def reply_word_le4 le_value32_bytes)

lemma f4_erase_unfold:
  assumes "verbose sl \<le> 1" "addr_page \<noteq> 0xa11"
  shows "stl_f4_flash_erase E sl addr_page =
    (0, snd (snd (erase_wait E F4_FLASH_SR F4_FLASH_SR_BSY
       (sl_wr32 E (sl_wr32 E (sl_wr32 E (sl_wr32 E (sl_wr32 E sl
          F4_FLASH_KEYR FLASH_KEY1) F4_FLASH_KEYR FLASH_KEY2) F4_FLASH_SR 0xF3)
          F4_FLASH_CR (f4_sector_cr 0x00202 addr_page))
          F4_FLASH_CR (f4_sector_cr 0x10202 addr_page)) 0)))"
  using assms by (simp add: stl_f4_flash_erase_def Let_def case_prod_beta)

lemma L1_erase_unfold:
  assumes "verbose sl \<le> 1"
  shows "stl_L1_flash_erase E sl 0xa11 =
    (0, snd (snd (erase_wait E L15_FLASH_SR FLASH_SR_BSY
       (sl_wr32 E (sl_wr32 E (sl_wr32 E (sl_wr32 E (sl_wr32 E (sl_wr32 E sl
          L15_FLASH_PEKEYR L15_FLASH_PEKEY1) L15_FLASH_PEKEYR L15_FLASH_PEKEY2)
          L15_FLASH_PRGKEYR L15_FLASH_PRGKEY1) L15_FLASH_PRGKEYR L15_FLASH_PRGKEY2)
          L15_FLASH_OBR 0x01) L15_FLASH_OBR 0xAA) 0)))"
  using assms by (simp add: stl_L1_flash_erase_def Let_def case_prod_beta)

lemma f1_erase_fst:
  assumes "verbose sl \<le> 1" "addr_page \<noteq> 0xa11"
  shows "fst (stl_f1_flash_erase E sl addr_page) =
    (if fst (erase_wait E FLASH_SR FLASH_SR_BSY
       (sl_wr32 E (sl_wr32 E (sl_wr32 E (sl_wr32 E (sl_wr32 E (sl_wr32 E sl
          FLASH_KEYR FLASH_KEY1) FLASH_KEYR FLASH_KEY2)
          FLASH_SR (FLASH_SR_EOP OR FLASH_SR_WRPRTERR OR FLASH_SR_PGERR))
          FLASH_AR addr_page) FLASH_CR FLASH_CR_PER)
          FLASH_CR (FLASH_CR_STRT OR FLASH_CR_PER)) 0) AND FLASH_SR_EOP = 0 then 1 else 0)"
  using assms by (simp add: stl_f1_flash_erase_def Let_def case_prod_beta)

text \<open>
  C7 (the code differs from the claim). A little-endian host and a target whose flash status
  register keeps its busy bit set. On an F4 personality (entry 13), the sector erase at
  0x08000000 makes its five writes, reads \<^verbatim>\<open>F4_FLASH_SR\<close> 1000 times, each reply with
  \<^verbatim>\<open>BSY\<close> set, and returns 0. On the L1 personality (entry 11), the mass erase makes its
  six writes, reads \<^verbatim>\<open>L15_FLASH_SR\<close> 1000 times, each reply with \<^verbatim>\<open>BSY\<close> set, and
  returns 0. On an F1 personality (entry 0) with the same busy status the page erase
  returns 1.
\<close>

theorem erase_busy_timeout_result:
  "(\<exists>sl'. stl_flash_erase_page (host False (target_of 0x80 0x2ba01477 (\<lambda>a. 0x00010000)))
             ((stl_init 0)\<lparr>chip_index := 13\<rparr>) 0x08000000 = (0, sl')
      \<and> ops_since ((stl_init 0)\<lparr>chip_index := 13\<rparr>) sl' =
          [Write32 0x40023C04 (word_bytes 0x45670123),
           Write32 0x40023C04 (word_bytes 0xcdef89ab),
           Write32 0x40023C0C (word_bytes 0xF3),
           Write32 0x40023C10 (word_bytes 0x00202),
           Write32 0x40023C10 (word_bytes 0x10202)]
          @ replicate 1000 (Read32 0x40023C0C [0, 0, 1, 0]))
   \<and> (\<exists>sl'. stl_flash_erase_page (host False (target_of 0x80 0x1ba01477 (\<lambda>a. 1)))
             ((stl_init 0)\<lparr>chip_index := 11\<rparr>) 0xa11 = (0, sl')
      \<and> ops_since ((stl_init 0)\<lparr>chip_index := 11\<rparr>) sl' =
          [Write32 0x40023C0C (word_bytes 0x89abcdef),
           Write32 0x40023C0C (word_bytes 0x02030405),
           Write32 0x40023C10 (word_bytes 0x8C9DAEBF),
           Write32 0x40023C10 (word_bytes 0x13141516),
           Write32 0x40023C1C (word_bytes 0x01),
           Write32 0x40023C1C (word_bytes 0xAA)]
          @ replicate 1000 (Read32 0x40023C18 [1, 0, 0, 0]))
   \<and> fst (stl_flash_erase_page (host False (target_of 0x80 0x1ba01477 (\<lambda>a. 1)))
             (stl_init 0) 0x08000400) = 1"
proof (intro conjI)
  let ?E = "host False (target_of 0x80 0x2ba01477 (\<lambda>a. 0x00010000))"
  let ?sl = "(stl_init 0)\<lparr>chip_index := 13\<rparr>"
  let ?sl5 = "sl_wr32 ?E (sl_wr32 ?E (sl_wr32 ?E (sl_wr32 ?E (sl_wr32 ?E ?sl
          F4_FLASH_KEYR FLASH_KEY1) F4_FLASH_KEYR FLASH_KEY2) F4_FLASH_SR 0xF3)
          F4_FLASH_CR (f4_sector_cr 0x00202 0x08000000))
          F4_FLASH_CR (f4_sector_cr 0x10202 0x08000000)"
  let ?sl6 = "snd (snd (erase_wait ?E F4_FLASH_SR F4_FLASH_SR_BSY ?sl5 0))"
  have d: "stl_flash_erase_page ?E ?sl 0x08000000 = stl_f4_flash_erase ?E ?sl 0x08000000"
    by (simp add: stl_flash_erase_page_def stl_init_def stm_devids_def mk_chip_def)
  have u: "stl_f4_flash_erase ?E ?sl 0x08000000 = (0, ?sl6)"
    by (rule f4_erase_unfold) (simp_all add: stl_init_def)
  have w: "run_ops ?sl ?sl5
     [Write32 F4_FLASH_KEYR (word_bytes FLASH_KEY1), Write32 F4_FLASH_KEYR (word_bytes FLASH_KEY2),
      Write32 F4_FLASH_SR (word_bytes 0xF3),
      Write32 F4_FLASH_CR (word_bytes (f4_sector_cr 0x00202 0x08000000)),
      Write32 F4_FLASH_CR (word_bytes (f4_sector_cr 0x10202 0x08000000))]"
    by (rule run_ops_wr32 | rule run_ops_Cons)+
  have p: "run_ops ?sl5 ?sl6 (replicate (1000 - 0) (Read32 F4_FLASH_SR (word_bytes 0x00010000)))"
    using erase_wait_busy [of ?E F4_FLASH_SR "word_bytes 0x00010000" F4_FLASH_SR_BSY 0 ?sl5]
    by (simp add: busy_sr_reply reply_word_bytes)
  show "\<exists>sl'. stl_flash_erase_page ?E ?sl 0x08000000 = (0, sl')
      \<and> ops_since ?sl sl' =
          [Write32 0x40023C04 (word_bytes 0x45670123),
           Write32 0x40023C04 (word_bytes 0xcdef89ab),
           Write32 0x40023C0C (word_bytes 0xF3),
           Write32 0x40023C10 (word_bytes 0x00202),
           Write32 0x40023C10 (word_bytes 0x10202)]
          @ replicate 1000 (Read32 0x40023C0C [0, 0, 1, 0])"
    unfolding d u using run_ops_trans [OF w p]
    by (intro exI [of _ ?sl6]) (simp add: run_ops_def f4_sector_cr_def busy_bytes)
next
  let ?E = "host False (target_of 0x80 0x1ba01477 (\<lambda>a. 1))"
  let ?sl = "(stl_init 0)\<lparr>chip_index := 11\<rparr>"
  let ?sl5 = "sl_wr32 ?E (sl_wr32 ?E (sl_wr32 ?E (sl_wr32 ?E (sl_wr32 ?E (sl_wr32 ?E ?sl
          L15_FLASH_PEKEYR L15_FLASH_PEKEY1) L15_FLASH_PEKEYR L15_FLASH_PEKEY2)
          L15_FLASH_PRGKEYR L15_FLASH_PRGKEY1) L15_FLASH_PRGKEYR L15_FLASH_PRGKEY2)
          L15_FLASH_OBR 0x01) L15_FLASH_OBR 0xAA"
  let ?sl6 = "snd (snd (erase_wait ?E L15_FLASH_SR FLASH_SR_BSY ?sl5 0))"
  have d: "stl_flash_erase_page ?E ?sl 0xa11 = stl_L1_flash_erase ?E ?sl 0xa11"
    by (simp add: stl_flash_erase_page_def stl_init_def stm_devids_def mk_chip_def)
  have u: "stl_L1_flash_erase ?E ?sl 0xa11 = (0, ?sl6)"
    by (rule L1_erase_unfold) (simp_all add: stl_init_def)
  have w: "run_ops ?sl ?sl5
     [Write32 L15_FLASH_PEKEYR (word_bytes L15_FLASH_PEKEY1),
      Write32 L15_FLASH_PEKEYR (word_bytes L15_FLASH_PEKEY2),
      Write32 L15_FLASH_PRGKEYR (word_bytes L15_FLASH_PRGKEY1),
      Write32 L15_FLASH_PRGKEYR (word_bytes L15_FLASH_PRGKEY2),
      Write32 L15_FLASH_OBR (word_bytes 0x01),
      Write32 L15_FLASH_OBR (word_bytes 0xAA)]"
    by (rule run_ops_wr32 | rule run_ops_Cons)+
  have p: "run_ops ?sl5 ?sl6 (replicate (1000 - 0) (Read32 L15_FLASH_SR (word_bytes 1)))"
    using erase_wait_busy [of ?E L15_FLASH_SR "word_bytes 1" FLASH_SR_BSY 0 ?sl5]
    by (simp add: busy_sr_reply reply_word_bytes)
  show "\<exists>sl'. stl_flash_erase_page ?E ?sl 0xa11 = (0, sl')
      \<and> ops_since ?sl sl' =
          [Write32 0x40023C0C (word_bytes 0x89abcdef),
           Write32 0x40023C0C (word_bytes 0x02030405),
           Write32 0x40023C10 (word_bytes 0x8C9DAEBF),
           Write32 0x40023C10 (word_bytes 0x13141516),
           Write32 0x40023C1C (word_bytes 0x01),
           Write32 0x40023C1C (word_bytes 0xAA)]
          @ replicate 1000 (Read32 0x40023C18 [1, 0, 0, 0])"
    unfolding d u using run_ops_trans [OF w p]
    by (intro exI [of _ ?sl6]) (simp add: run_ops_def busy_bytes)
next
  let ?E = "host False (target_of 0x80 0x1ba01477 (\<lambda>a. 1))"
  let ?sl5 = "sl_wr32 ?E (sl_wr32 ?E (sl_wr32 ?E (sl_wr32 ?E (sl_wr32 ?E (sl_wr32 ?E (stl_init 0)
          FLASH_KEYR FLASH_KEY1) FLASH_KEYR FLASH_KEY2)
          FLASH_SR (FLASH_SR_EOP OR FLASH_SR_WRPRTERR OR FLASH_SR_PGERR))
          FLASH_AR 0x08000400) FLASH_CR FLASH_CR_PER)
          FLASH_CR (FLASH_CR_STRT OR FLASH_CR_PER)"
  have d: "stl_flash_erase_page ?E (stl_init 0) 0x08000400 = stl_f1_flash_erase ?E (stl_init 0) 0x08000400"
    by (simp add: stl_flash_erase_page_def stl_init_def stm_devids_def mk_chip_def)
  have p: "fst (erase_wait ?E FLASH_SR FLASH_SR_BSY ?sl5 0) = 1"
    using erase_wait_busy [of ?E FLASH_SR "word_bytes 1" FLASH_SR_BSY 0 ?sl5]
    by (simp add: busy_sr_reply reply_word_bytes)
  have "fst (stl_f1_flash_erase ?E (stl_init 0) 0x08000400) =
      (if fst (erase_wait ?E FLASH_SR FLASH_SR_BSY ?sl5 0) AND FLASH_SR_EOP = 0 then 1 else 0)"
    by (rule f1_erase_fst) (simp_all add: stl_init_def)
  then show "fst (stl_flash_erase_page ?E (stl_init 0) 0x08000400) = 1"
    unfolding d p by simp
qed

section \<open>The memory read\<close>

lemma rd32_reply_sim_len:
  "rd32_reply (host be T) sl addr len = map (\<lambda>k. t_mem T (addr + of_nat k)) [0..<unat len]"
  by (simp add: rd32_reply_def host_def sim_probe_def rd32_cmd_buf_def cmd_word_def
      write_uint32_le write_uint16_le)

lemma data_buf_rd32:
  "0 < len \<Longrightarrow> data_buf (snd (stl_rd32_cmd (host be T) sl addr len)) i =
     (if i < unat len then t_mem T (addr + of_nat i)
      else if i < unat len + 12 then 0x55 else data_buf sl i)"
  by (simp add: stl_rd32_cmd_snd rd32_reply_sim_len store_bytes_def memset_def)

lemma read_aligned_1025:
  "stl_read (host False counting_target) (stl_init 0) 0x08000000 (\<lambda>i. 0xEE) 1025 =
     Inr (0, memcpy (\<lambda>i. 0xEE) 0
               (data_buf (snd (stl_rd32_cmd (host False counting_target) (stl_init 0) 0x08000000 1024)))
               0 1025,
          snd (stl_rd32_cmd (host False counting_target) (stl_init 0) 0x08000000 1024))"
  unfolding stl_read_def
  by (subst stl_read_loop.simps) (simp add: Let_def)

lemma read_unaligned_4:
  "stl_read (host False counting_target) (stl_init 0) 0x08000001 (\<lambda>i. 0xEE) 4 =
     Inr (0, memcpy
               (memcpy (\<lambda>i. 0xEE) 0
                  (data_buf (snd (stl_rd32_cmd (host False counting_target) (stl_init 0) 0x08000000 4)))
                  1 3)
               3
               (data_buf (snd (stl_rd32_cmd (host False counting_target)
                  (snd (stl_rd32_cmd (host False counting_target) (stl_init 0) 0x08000000 4))
                  0x08000004 4)))
               0 4,
          snd (stl_rd32_cmd (host False counting_target)
                  (snd (stl_rd32_cmd (host False counting_target) (stl_init 0) 0x08000000 4))
                  0x08000004 4))"
  unfolding stl_read_def
  by (subst stl_read_loop.simps) (simp add: Let_def)

text \<open>
  C2 (the code differs from the claim). A little-endian host, a target whose byte at address
  \<open>a\<close> is the low byte of \<open>a\<close>, and a caller's buffer filled with 0xEE. A read of 1025
  bytes at the aligned address 0x08000000 fetches 1024 bytes and copies 1025: byte 1024 of
  the buffer is the 0x55 that \<^verbatim>\<open>stlink_cmd\<close> filled \<^verbatim>\<open>data_buf\<close> with, where the target
  holds 0x00. A read of 4 bytes at 0x08000001 writes 7 bytes: the three of the unaligned
  head and then four more, since the head does not reduce \<^verbatim>\<open>size\<close>.
\<close>

theorem read_copies_beyond_request:
  "(\<exists>buf' sl'. stl_read (host False counting_target) (stl_init 0) 0x08000000 (\<lambda>i. 0xEE) 1025
        = Inr (0, buf', sl')
      \<and> bytes_at buf' 1022 4 = [0xFE, 0xFF, 0x55, 0xEE]
      \<and> t_mem counting_target (0x08000000 + 1024) = 0x00)
   \<and> (\<exists>buf' sl'. stl_read (host False counting_target) (stl_init 0) 0x08000001 (\<lambda>i. 0xEE) 4
        = Inr (0, buf', sl')
      \<and> bytes_at buf' 0 8 = [0x01, 0x02, 0x03, 0x04, 0x05, 0x06, 0x07, 0xEE])"
  unfolding read_aligned_1025 read_unaligned_4
  by (simp add: bytes_at_def upt_4 memcpy_def data_buf_rd32 counting_target_def stl_init_def
      upt_rec [of _ 8] upt_rec [of _ 7])

section \<open>A one-chunk write on the simulated target\<close>

text \<open>
  A write of at most 2048 bytes is one chunk of \<open>sz + sz mod 2\<close> bytes. On a little-endian
  host, quiet session, and a target with a fixed core status whose memory words all read
  \<open>v\<close>: when the status is "halted" the transfers are the three unlock writes, the
  upload, the write of the PC, the run command, one status poll, the read of \<^verbatim>\<open>FLASH_SR\<close>
  and the re-lock; when it is not, the poll is made 201 times and nothing follows.
\<close>

lemma flash_write_one_chunk:
  fixes sl :: stlink and fa :: u32 and buf :: buffer and sz :: int and st :: u8 and cid v :: u32
  defines "E \<equiv> host False (target_of st cid (\<lambda>a. v))"
  defines "sl3 \<equiv> sl_wr32 E (sl_wr32 E (sl_wr32 E sl FLASH_KEYR FLASH_KEY1)
                FLASH_KEYR FLASH_KEY2) FLASH_SR 0x34"
  defines "pre \<equiv> [Write32 FLASH_KEYR (word_bytes FLASH_KEY1),
         Write32 FLASH_KEYR (word_bytes FLASH_KEY2),
         Write32 FLASH_SR (word_bytes 0x34)]
        @ upload_ops E sl3 fa buf (sz + sz mod 2) @ [WriteReg 15 0x20000000, RunCore]"
  assumes sz: "0 < sz" "sz \<le> 2048" and v0: "verbose sl = 0"
  shows "st = 0x81 \<Longrightarrow>
      \<exists>sl'. stl_flash_write E sl fa buf sz = Inr (v AND 0x15, sl')
        \<and> run_ops sl sl' (pre @ [GetStatus [0x81, 0], Read32 FLASH_SR (word_bytes v),
                                 Write32 FLASH_CR (word_bytes 0x80)])"
    and "(ucast st :: u32) \<noteq> STLINK_CORE_HALTED \<Longrightarrow>
      \<exists>sl'. stl_flash_write E sl fa buf sz = Inr (0, sl')
        \<and> run_ops sl sl' (pre @ replicate 201 (GetStatus [st, 0]))"
proof -
  let ?T = "target_of st cid (\<lambda>a. v)"
  let ?t = "sz + sz mod 2"
  let ?W = "[Write32 FLASH_KEYR (word_bytes FLASH_KEY1),
         Write32 FLASH_KEYR (word_bytes FLASH_KEY2),
         Write32 FLASH_SR (word_bytes 0x34)]"
  let ?sl4 = "if verbose sl3 \<noteq> 0
              then snd (sl_rd32 E (snd (sl_rd32 E sl3 FLASH_SR)) FLASH_CR) else sl3"
  have v3: "verbose sl3 = 0" by (simp add: sl3_def v0)
  have sl4: "?sl4 = sl3" by (simp add: v3)
  have r3: "run_ops sl sl3 ?W"
    unfolding sl3_def by (rule run_ops_wr32 | rule run_ops_Cons)+
  have rng: "0 \<le> ?t" "?t \<le> 6088" using sz by presburger+
  have norm: "stl_loader E sl3 (fa + word_of_int 0) (\<lambda>i. buf (nat 0 + i)) ?t
      = stl_loader E sl3 fa buf ?t"
    by simp
  from stl_loader_run [OF rng, of E sl3 fa buf]
  obtain sl5 where ld: "stl_loader E sl3 fa buf ?t = Inr sl5"
    and r5: "run_ops sl3 sl5 (upload_ops E sl3 fa buf ?t @ [WriteReg 15 0x20000000, RunCore])"
    and v5: "verbose sl5 = 0"
    unfolding upload_ops_def by (auto simp add: v3)
  have ch: "flash_chunks sz = [?t]"
    using sz(2) by (rule flash_chunks_small)
  have p5: "run_ops sl sl5 pre"
    unfolding pre_def by (rule run_ops_trans [OF r3 r5])
  have st_sel: "t_status ?T = st" by (simp add: target_of_def)
  {
    assume h: "st = 0x81"
    let ?sl6 = "snd (stl_get_status E sl5)"
    have pe: "flash_poll E sl5 0 = (True, ?sl6)"
      unfolding E_def by (rule flash_poll_halted) (simp add: target_of_def h)
    have r6: "run_ops sl5 ?sl6 [GetStatus [0x81, 0]]"
      using run_ops_status_sim [of sl5 False ?T] by (simp add: E_def target_of_def h)
    have loop: "flash_write_loop E ?sl4 fa buf 0 sz = Inr (True, ?sl6)"
      unfolding loop_is_run_chunks sl4 ch run_chunks.simps norm ld using pe by simp
    have rd: "fst (sl_rd32 E ?sl6 FLASH_SR) = v"
      by (simp add: E_def sl_rd32_eq sim_sr_reply_word)
    have rdo: "run_ops ?sl6 (snd (sl_rd32 E ?sl6 FLASH_SR)) [Read32 FLASH_SR (word_bytes v)]"
      using run_ops_rd32 [of ?sl6 E FLASH_SR]
      by (simp add: E_def rd32_reply_sim sim_sr_reply)
    let ?sl8 = "sl_wr32 E (snd (sl_rd32 E ?sl6 FLASH_SR)) FLASH_CR 0x80"
    have res: "stl_flash_write E sl fa buf sz = Inr (v AND 0x15, ?sl8)"
      unfolding stl_flash_write_def Let_def sl3_def [symmetric] loop using rd
      by (simp add: case_prod_beta)
    have "run_ops sl ?sl8 (pre @ [GetStatus [0x81, 0]] @ [Read32 FLASH_SR (word_bytes v)]
        @ [Write32 FLASH_CR (word_bytes 0x80)])"
      by (rule run_ops_trans [OF p5], rule run_ops_trans [OF r6],
          rule run_ops_trans [OF rdo run_ops_wr32])
    with res show "\<exists>sl'. stl_flash_write E sl fa buf sz = Inr (v AND 0x15, sl')
        \<and> run_ops sl sl' (pre @ [GetStatus [0x81, 0], Read32 FLASH_SR (word_bytes v),
                                 Write32 FLASH_CR (word_bytes 0x80)])"
      by (intro exI [of _ ?sl8]) simp
  }
  {
    assume ns: "(ucast st :: u32) \<noteq> STLINK_CORE_HALTED"
    then have ns': "(ucast (t_status ?T) :: u32) \<noteq> STLINK_CORE_HALTED"
      by (simp add: st_sel)
    obtain b sl6 where pe0: "flash_poll E sl5 0 = (b, sl6)"
      by (cases "flash_poll E sl5 0")
    from flash_poll_never [OF ns' v5, of 0]
    have pe: "flash_poll E sl5 0 = (False, sl6)"
      and r6: "run_ops sl5 sl6 (replicate 201 (GetStatus [st, 0]))"
      unfolding E_def [symmetric] pe0 by (simp_all add: st_sel)
    have loop: "flash_write_loop E ?sl4 fa buf 0 sz = Inr (False, sl6)"
      unfolding loop_is_run_chunks sl4 ch run_chunks.simps norm ld using pe by simp
    have res: "stl_flash_write E sl fa buf sz = Inr (0, sl6)"
      unfolding stl_flash_write_def Let_def sl3_def [symmetric] loop by simp
    have "run_ops sl sl6 (pre @ replicate 201 (GetStatus [st, 0]))"
      by (rule run_ops_trans [OF p5 r6])
    with res show "\<exists>sl'. stl_flash_write E sl fa buf sz = Inr (0, sl')
        \<and> run_ops sl sl' (pre @ replicate 201 (GetStatus [st, 0]))"
      by (intro exI [of _ sl6]) simp
  }
qed


section \<open>The re-lock after a flash write\<close>

text \<open>
  C10 (the code differs from the claim). A little-endian host, the F4 personality of entry
  13, a 4-byte write at 0x08000000. With a target that halts, \<^verbatim>\<open>stl_flash_write\<close> writes
  the two keys to the F1 \<^verbatim>\<open>FLASH_KEYR\<close> (0x40022004) and 0x34 to the F1 \<^verbatim>\<open>FLASH_SR\<close>
  (0x4002200C), uploads and starts the loader, polls once, reads the F1 \<^verbatim>\<open>FLASH_SR\<close> and
  writes 0x80 to the F1 \<^verbatim>\<open>FLASH_CR\<close> (0x40022010). With a target whose core status stays
  "running", the same three writes and the same loader transfers are followed by 201
  status polls and nothing else: there is no final read of \<^verbatim>\<open>FLASH_SR\<close> and no re-lock
  write, and the result is 0.
\<close>

theorem flash_write_relock_skipped:
  "(\<exists>sl' up. stl_flash_write (host False (target_of 0x80 0x2ba01477 (\<lambda>a. 0)))
             ((stl_init 0)\<lparr>chip_index := 13\<rparr>) 0x08000000 (\<lambda>i. 0xA5) 4 = Inr (0, sl')
      \<and> ops_since ((stl_init 0)\<lparr>chip_index := 13\<rparr>) sl' =
          [Write32 0x40022004 (word_bytes 0x45670123),
           Write32 0x40022004 (word_bytes 0xcdef89ab),
           Write32 0x4002200C (word_bytes 0x34),
           Write32 0x20000000 up, WriteReg 15 0x20000000, RunCore]
          @ replicate 201 (GetStatus [0x80, 0]))
   \<and> (\<exists>sl' up. stl_flash_write (host False (target_of 0x81 0x2ba01477 (\<lambda>a. 0)))
             ((stl_init 0)\<lparr>chip_index := 13\<rparr>) 0x08000000 (\<lambda>i. 0xA5) 4 = Inr (0, sl')
      \<and> ops_since ((stl_init 0)\<lparr>chip_index := 13\<rparr>) sl' =
          [Write32 0x40022004 (word_bytes 0x45670123),
           Write32 0x40022004 (word_bytes 0xcdef89ab),
           Write32 0x4002200C (word_bytes 0x34),
           Write32 0x20000000 up, WriteReg 15 0x20000000, RunCore,
           GetStatus [0x81, 0],
           Read32 0x4002200C (word_bytes 0),
           Write32 0x40022010 (word_bytes 0x80)])"
proof (rule conjI)
  let ?sl = "(stl_init 0)\<lparr>chip_index := 13\<rparr>"
  have a: "(0::int) < 4" "(4::int) \<le> 2048" "verbose ?sl = 0"
    "(ucast (0x80::u8) :: u32) \<noteq> STLINK_CORE_HALTED"
    by (simp_all add: stl_init_def)
  from flash_write_one_chunk(2) [where st = "0x80" and cid = "0x2ba01477" and v = 0 and fa = "0x08000000"
      and buf = "\<lambda>i. 0xA5", OF a(1) a(2) a(3) a(4)]
  show "\<exists>sl' up. stl_flash_write (host False (target_of 0x80 0x2ba01477 (\<lambda>a. 0)))
             ?sl 0x08000000 (\<lambda>i. 0xA5) 4 = Inr (0, sl')
      \<and> ops_since ?sl sl' =
          [Write32 0x40022004 (word_bytes 0x45670123),
           Write32 0x40022004 (word_bytes 0xcdef89ab),
           Write32 0x4002200C (word_bytes 0x34),
           Write32 0x20000000 up, WriteReg 15 0x20000000, RunCore]
          @ replicate 201 (GetStatus [0x80, 0])"
    by (auto simp add: run_ops_def upload_ops_def)
next
  let ?sl = "(stl_init 0)\<lparr>chip_index := 13\<rparr>"
  have a: "(0::int) < 4" "(4::int) \<le> 2048" "verbose ?sl = 0" "(0x81::u8) = 0x81"
    by (simp_all add: stl_init_def)
  from flash_write_one_chunk(1) [where st = "0x81" and cid = "0x2ba01477" and v = 0 and fa = "0x08000000"
      and buf = "\<lambda>i. 0xA5", OF a(1) a(2) a(3) a(4)]
  show "\<exists>sl' up. stl_flash_write (host False (target_of 0x81 0x2ba01477 (\<lambda>a. 0)))
             ?sl 0x08000000 (\<lambda>i. 0xA5) 4 = Inr (0, sl')
      \<and> ops_since ?sl sl' =
          [Write32 0x40022004 (word_bytes 0x45670123),
           Write32 0x40022004 (word_bytes 0xcdef89ab),
           Write32 0x4002200C (word_bytes 0x34),
           Write32 0x20000000 up, WriteReg 15 0x20000000, RunCore,
           GetStatus [0x81, 0],
           Read32 0x4002200C (word_bytes 0),
           Write32 0x40022010 (word_bytes 0x80)]"
    by (auto simp add: run_ops_def upload_ops_def)
qed

section \<open>A chunk that is not uploaded\<close>

text \<open>
  C3 (the code differs from the claim). A little-endian host, personality 0, a target that
  halts. For a chunk of 6 bytes \<^verbatim>\<open>stl_loader\<close> makes no memory write at all: its transfers
  are the write of the PC and the run command. \<^verbatim>\<open>stl_flash_write\<close> hands it such a chunk
  for a write of 6 bytes and for a write of 5 bytes; both calls return 0 and their
  transfers hold no write to SRAM. For a write of 8 bytes the image of 68 bytes is
  uploaded in one 32-bit write to 0x20000000 before the PC is set.
\<close>

theorem loader_started_without_upload:
  "map_sum id (ops_since (stl_init 0))
     (stl_loader (host False (target_of 0x81 0x1ba01477 (\<lambda>a. 0)))
        (stl_init 0) 0x08000000 (\<lambda>i. 0xA5) 6)
     = Inr [WriteReg 15 0x20000000, RunCore]
   \<and> (\<exists>sl'. stl_flash_write (host False (target_of 0x81 0x1ba01477 (\<lambda>a. 0)))
             (stl_init 0) 0x08000000 (\<lambda>i. 0xA5) 6 = Inr (0, sl')
      \<and> ops_since (stl_init 0) sl' =
          [Write32 0x40022004 (word_bytes 0x45670123),
           Write32 0x40022004 (word_bytes 0xcdef89ab),
           Write32 0x4002200C (word_bytes 0x34),
           WriteReg 15 0x20000000, RunCore,
           GetStatus [0x81, 0],
           Read32 0x4002200C (word_bytes 0),
           Write32 0x40022010 (word_bytes 0x80)])
   \<and> (\<exists>sl'. stl_flash_write (host False (target_of 0x81 0x1ba01477 (\<lambda>a. 0)))
             (stl_init 0) 0x08000000 (\<lambda>i. 0xA5) 5 = Inr (0, sl')
      \<and> ops_since (stl_init 0) sl' =
          [Write32 0x40022004 (word_bytes 0x45670123),
           Write32 0x40022004 (word_bytes 0xcdef89ab),
           Write32 0x4002200C (word_bytes 0x34),
           WriteReg 15 0x20000000, RunCore,
           GetStatus [0x81, 0],
           Read32 0x4002200C (word_bytes 0),
           Write32 0x40022010 (word_bytes 0x80)])
   \<and> (\<exists>sl' up. stl_flash_write (host False (target_of 0x81 0x1ba01477 (\<lambda>a. 0)))
             (stl_init 0) 0x08000000 (\<lambda>i. 0xA5) 8 = Inr (0, sl')
      \<and> length up = 68
      \<and> ops_since (stl_init 0) sl' =
          [Write32 0x40022004 (word_bytes 0x45670123),
           Write32 0x40022004 (word_bytes 0xcdef89ab),
           Write32 0x4002200C (word_bytes 0x34),
           Write32 0x20000000 up, WriteReg 15 0x20000000, RunCore,
           GetStatus [0x81, 0],
           Read32 0x4002200C (word_bytes 0),
           Write32 0x40022010 (word_bytes 0x80)])"
proof (intro conjI)
  have r: "(0::int) \<le> 6" "(6::int) \<le> 6088"
    by simp_all
  show "map_sum id (ops_since (stl_init 0))
     (stl_loader (host False (target_of 0x81 0x1ba01477 (\<lambda>a. 0)))
        (stl_init 0) 0x08000000 (\<lambda>i. 0xA5) 6)
     = Inr [WriteReg 15 0x20000000, RunCore]"
    using stl_loader_run [OF r, of "host False (target_of 0x81 0x1ba01477 (\<lambda>a. 0))"
            "stl_init 0" "0x08000000" "\<lambda>i. 0xA5"]
    by (auto simp add: run_ops_def)
next
  have a: "(0::int) < 6" "(6::int) \<le> 2048" "verbose (stl_init 0) = 0" "(0x81::u8) = 0x81"
    by (simp_all add: stl_init_def)
  from flash_write_one_chunk(1) [where st = "0x81" and cid = "0x1ba01477" and v = 0 and fa = "0x08000000"
      and buf = "\<lambda>i. 0xA5", OF a(1) a(2) a(3) a(4)]
  show "\<exists>sl'. stl_flash_write (host False (target_of 0x81 0x1ba01477 (\<lambda>a. 0)))
             (stl_init 0) 0x08000000 (\<lambda>i. 0xA5) 6 = Inr (0, sl')
      \<and> ops_since (stl_init 0) sl' =
          [Write32 0x40022004 (word_bytes 0x45670123),
           Write32 0x40022004 (word_bytes 0xcdef89ab),
           Write32 0x4002200C (word_bytes 0x34),
           WriteReg 15 0x20000000, RunCore,
           GetStatus [0x81, 0],
           Read32 0x4002200C (word_bytes 0),
           Write32 0x40022010 (word_bytes 0x80)]"
    by (auto simp add: run_ops_def upload_ops_def)
next
  have a: "(0::int) < 5" "(5::int) \<le> 2048" "verbose (stl_init 0) = 0" "(0x81::u8) = 0x81"
    by (simp_all add: stl_init_def)
  from flash_write_one_chunk(1) [where st = "0x81" and cid = "0x1ba01477" and v = 0 and fa = "0x08000000"
      and buf = "\<lambda>i. 0xA5", OF a(1) a(2) a(3) a(4)]
  show "\<exists>sl'. stl_flash_write (host False (target_of 0x81 0x1ba01477 (\<lambda>a. 0)))
             (stl_init 0) 0x08000000 (\<lambda>i. 0xA5) 5 = Inr (0, sl')
      \<and> ops_since (stl_init 0) sl' =
          [Write32 0x40022004 (word_bytes 0x45670123),
           Write32 0x40022004 (word_bytes 0xcdef89ab),
           Write32 0x4002200C (word_bytes 0x34),
           WriteReg 15 0x20000000, RunCore,
           GetStatus [0x81, 0],
           Read32 0x4002200C (word_bytes 0),
           Write32 0x40022010 (word_bytes 0x80)]"
    by (auto simp add: run_ops_def upload_ops_def)
next
  have a: "(0::int) < 8" "(8::int) \<le> 2048" "verbose (stl_init 0) = 0" "(0x81::u8) = 0x81"
    by (simp_all add: stl_init_def)
  from flash_write_one_chunk(1) [where st = "0x81" and cid = "0x1ba01477" and v = 0 and fa = "0x08000000"
      and buf = "\<lambda>i. 0xA5", OF a(1) a(2) a(3) a(4)]
  show "\<exists>sl' up. stl_flash_write (host False (target_of 0x81 0x1ba01477 (\<lambda>a. 0)))
             (stl_init 0) 0x08000000 (\<lambda>i. 0xA5) 8 = Inr (0, sl')
      \<and> length up = 68
      \<and> ops_since (stl_init 0) sl' =
          [Write32 0x40022004 (word_bytes 0x45670123),
           Write32 0x40022004 (word_bytes 0xcdef89ab),
           Write32 0x4002200C (word_bytes 0x34),
           Write32 0x20000000 up, WriteReg 15 0x20000000, RunCore,
           GetStatus [0x81, 0],
           Read32 0x4002200C (word_bytes 0),
           Write32 0x40022010 (word_bytes 0x80)]"
    by (auto simp add: run_ops_def upload_ops_def)
qed

end
